(* ===== verification/Prelude.thy ===== *)
theory Prelude
  imports Main
begin

text \<open>
  Shared vocabulary of the development: the Python exceptions the modelled code can raise,
  the character classes of Python's \<open>str\<close> methods and of the \<open>re\<close> module
  (\<open>\s\<close>, \<open>\w\<close>, line boundaries, \<open>str.lower\<close>), the string operations
  \<open>str.strip\<close>, \<open>str.splitlines\<close> and \<open>str(n)\<close>, and the generic lemmas on them
  that the component theories use.

  A Python \<open>str\<close> is a sequence of code points; here it is a \<open>string\<close>, a list of
  \<open>char\<close>, and a \<open>char\<close> stands for the code point \<open>of_char c\<close> in 0..255
  (Latin-1). Every character class below is the one Python 3 gives those 256 code points,
  so the model is exact on texts whose code points are below 256.
\<close>

section \<open>Exceptions\<close>

text \<open>
  The exceptions the modelled code raises or catches, by their Python class. A value
  \<open>Inl e\<close> of a result type \<open>py_exc + 'a\<close> is the exception \<open>e\<close> propagating.
  \<open>RequestException\<close> stands for \<open>requests.exceptions.RequestException\<close> and its
  subclasses (connection errors, timeouts, \<open>HTTPError\<close>); \<open>OSError\<close> for failures
  of \<open>open\<close>; the last four are the \<open>OSError\<close> subclasses the file-system
  calls raise for a missing entry, an existing entry, a non-directory on a path and a
  directory where a file is expected.
\<close>

datatype py_exc =
    AttributeError
  | TypeError
  | KeyError
  | IndexError
  | ValueError
  | RequestException
  | OSError
  | FileNotFoundError
  | FileExistsError
  | NotADirectoryError
  | IsADirectoryError

named_theorems py_char_simps \<open>unfolding of the character classes, for evaluation on literals\<close>

section \<open>Character classes\<close>

text \<open>\<open>str.isspace\<close>, which is also the \<open>\s\<close> class of \<open>re\<close> and the set \<open>str.strip()\<close> removes.\<close>

definition py_isspace :: "char \<Rightarrow> bool" where
  [py_char_simps]: "py_isspace c \<longleftrightarrow>
    (let n = (of_char c :: nat) in
      (9 \<le> n \<and> n \<le> 13) \<or> (28 \<le> n \<and> n \<le> 32) \<or> n = 133 \<or> n = 160)"

text \<open>The line boundaries of \<open>str.splitlines\<close> (\<open>\r\n\<close> counts as one).\<close>

definition py_is_linebreak :: "char \<Rightarrow> bool" where
  [py_char_simps]: "py_is_linebreak c \<longleftrightarrow>
    (let n = (of_char c :: nat) in (10 \<le> n \<and> n \<le> 13) \<or> (28 \<le> n \<and> n \<le> 30) \<or> n = 133)"

text \<open>
  The \<open>\w\<close> class of \<open>re\<close> on \<open>str\<close> patterns: \<open>str.isalnum()\<close> or \<open>_\<close>. On
  Latin-1 these are the ASCII letters and digits, \<open>_\<close>, the letters 170, 181, 186
  and 192..255 without 215 and 247, and the numerals 178, 179, 185 and 188..190.
\<close>

definition py_isword :: "char \<Rightarrow> bool" where
  [py_char_simps]: "py_isword c \<longleftrightarrow>
    (let n = (of_char c :: nat) in
      (48 \<le> n \<and> n \<le> 57) \<or> (65 \<le> n \<and> n \<le> 90) \<or> n = 95 \<or> (97 \<le> n \<and> n \<le> 122) \<or>
      n = 170 \<or> n = 178 \<or> n = 179 \<or> n = 181 \<or> n = 185 \<or> n = 186 \<or>
      (188 \<le> n \<and> n \<le> 190) \<or> (192 \<le> n \<and> n \<le> 214) \<or> (216 \<le> n \<and> n \<le> 246) \<or>
      (248 \<le> n \<and> n \<le> 255))"

text \<open>\<open>str.lower\<close> on Latin-1: \<open>A\<close>..\<open>Z\<close> and 192..222 (not 215) move down by 32.\<close>

definition py_lower_char :: "char \<Rightarrow> char" where
  [py_char_simps]: "py_lower_char c =
    (let n = (of_char c :: nat) in
      if (65 \<le> n \<and> n \<le> 90) \<or> (192 \<le> n \<and> n \<le> 222 \<and> n \<noteq> 215) then char_of (n + 32) else c)"

definition py_lower :: "string \<Rightarrow> string" where
  "py_lower s = map py_lower_char s"

section \<open>Strings\<close>

text \<open>\<open>str.strip()\<close> with no argument: drop whitespace at both ends.\<close>

definition py_lstrip :: "string \<Rightarrow> string" where
  "py_lstrip s = dropWhile py_isspace s"

definition py_rstrip :: "string \<Rightarrow> string" where
  "py_rstrip s = rev (dropWhile py_isspace (rev s))"

definition py_strip :: "string \<Rightarrow> string" where
  "py_strip s = py_rstrip (py_lstrip s)"

text \<open>
  \<open>os.path.dirname\<close> (\<open>posixpath.dirname\<close>): the part up to the last slash, with
  trailing slashes removed unless it consists of slashes only.
\<close>

definition py_dirname :: "string \<Rightarrow> string" where
  "py_dirname p =
    (let head = rev (dropWhile (\<lambda>c. c \<noteq> CHR ''/'') (rev p))
     in if head \<noteq> [] \<and> list_ex (\<lambda>c. c \<noteq> CHR ''/'') head
        then rev (dropWhile (\<lambda>c. c = CHR ''/'') (rev head)) else head)"

text \<open>
  \<open>str.splitlines()\<close>: split at every line boundary, \<open>\r\n\<close> being one boundary;
  the boundaries are dropped, and a boundary at the very end opens no further line.
\<close>

function py_splitlines :: "string \<Rightarrow> string list" where
  "py_splitlines s =
    (if s = [] then []
     else
       (let line = takeWhile (\<lambda>c. \<not> py_is_linebreak c) s;
            rest = dropWhile (\<lambda>c. \<not> py_is_linebreak c) s
        in case rest of
             [] \<Rightarrow> [line]
           | c # rest' \<Rightarrow>
               line # py_splitlines
                 (case rest' of
                    [] \<Rightarrow> []
                  | d # rest'' \<Rightarrow>
                      if c = CHR 0x0D \<and> d = CHR 0x0A then rest'' else rest')))"
  by pat_completeness auto
termination
proof (relation "measure length")
  fix s line rest c rest'
  assume "rest = dropWhile (\<lambda>c. \<not> py_is_linebreak c) s" and "rest = c # rest'"
  then have "length (c # rest') \<le> length s"
    by (metis length_dropWhile_le)
  then have "length rest' < length s" by simp
  then show "((case rest' of [] \<Rightarrow> [] | d # rest'' \<Rightarrow>
                 if c = CHR 0x0D \<and> d = CHR 0x0A then rest'' else rest'), s) \<in> measure length"
    by (auto split: list.split)
qed simp

declare py_splitlines.simps [simp del]

text \<open>\<open>str(n)\<close> for a non-negative Python int: its decimal digits.\<close>

fun py_str_nat :: "nat \<Rightarrow> string" where
  "py_str_nat n =
    (if n < 10 then [char_of (48 + n)]
     else py_str_nat (n div 10) @ [char_of (48 + n mod 10)])"

declare py_str_nat.simps [simp del]

text \<open>The value of a string of decimal digits, the inverse of \<^const>\<open>py_str_nat\<close>.\<close>

definition dec_value :: "string \<Rightarrow> nat" where
  "dec_value s = foldl (\<lambda>acc c. 10 * acc + (of_char c - 48)) 0 s"

definition is_digit :: "char \<Rightarrow> bool" where
  [py_char_simps]: "is_digit c \<longleftrightarrow> (48 \<le> (of_char c :: nat) \<and> (of_char c :: nat) \<le> 57)"

section \<open>Lemmas on the character classes\<close>

lemma linebreak_isspace [intro]: "py_is_linebreak c \<Longrightarrow> py_isspace c"
  by (auto simp: py_is_linebreak_def py_isspace_def Let_def)

lemma word_not_space [simp]: "py_isword c \<Longrightarrow> \<not> py_isspace c"
  by (auto simp: py_isword_def py_isspace_def Let_def)

lemma lower_char_word [simp]: "py_isword (py_lower_char c) = py_isword c"
proof -
  have "of_char c < (256::nat)" by (rule nat_of_char_less_256)
  then show ?thesis
    by (auto simp: py_isword_def py_lower_char_def Let_def)
qed

section \<open>Lemmas on strip\<close>

lemma py_strip_Nil [simp]: "py_strip [] = []"
  by (simp add: py_strip_def py_lstrip_def py_rstrip_def)

lemma py_strip_all_space:
  assumes "\<forall>c\<in>set s. py_isspace c"
  shows "py_strip s = []"
proof -
  from assms have "dropWhile py_isspace s = []" by (induction s) auto
  then show ?thesis by (simp only: py_strip_def py_lstrip_def py_rstrip_def) simp
qed

lemma all_dropWhile_iff: "(\<forall>x\<in>set (dropWhile P s). P x) \<longleftrightarrow> (\<forall>x\<in>set s. P x)"
  by (induction s) auto

lemma py_strip_Nil_iff: "py_strip s = [] \<longleftrightarrow> (\<forall>c\<in>set s. py_isspace c)"
  by (simp add: py_strip_def py_lstrip_def py_rstrip_def all_dropWhile_iff)

lemma set_py_strip: "set (py_strip s) \<subseteq> set s"
  unfolding py_strip_def py_lstrip_def py_rstrip_def
  by (metis set_dropWhileD set_rev subsetI)

text \<open>Stripping the right end keeps a prefix of the string.\<close>

lemma rev_dropWhile_rev_prefix:
  "l = rev (dropWhile P (rev l)) @ rev (takeWhile P (rev l))"
  by (metis rev_append rev_rev_ident takeWhile_dropWhile_id)

lemma py_strip_hd:
  assumes "py_strip s = c # cs"
  shows "\<not> py_isspace c"
proof -
  let ?l = "dropWhile py_isspace s"
  have "?l = c # cs @ rev (takeWhile py_isspace (rev ?l))"
    using assms rev_dropWhile_rev_prefix [of ?l py_isspace]
    by (simp add: py_strip_def py_lstrip_def py_rstrip_def)
  then show ?thesis
    by (metis hd_dropWhile list.sel(1) list.simps(3))
qed

lemma py_strip_last:
  assumes "py_strip s = cs @ [c]"
  shows "\<not> py_isspace c"
proof -
  have "rev (dropWhile py_isspace (rev (py_lstrip s))) = cs @ [c]"
    using assms by (simp add: py_strip_def py_rstrip_def)
  then have "dropWhile py_isspace (rev (py_lstrip s)) = c # rev cs"
    by (metis rev_eq_Cons_iff rev_rev_ident rev_singleton_conv rev_append append_Nil)
  then show ?thesis by (metis hd_dropWhile list.sel(1) list.simps(3))
qed

lemma py_strip_no_space_ends:
  "\<not> py_isspace c \<Longrightarrow> \<not> py_isspace d \<Longrightarrow> py_strip (c # cs @ [d]) = c # cs @ [d]"
  by (simp add: py_strip_def py_lstrip_def py_rstrip_def)

lemma py_strip_idem [simp]: "py_strip (py_strip s) = py_strip s"
proof (cases "py_strip s")
  case Nil
  then show ?thesis by simp
next
  case (Cons c cs)
  show ?thesis
  proof (cases cs rule: rev_cases)
    case Nil
    with Cons py_strip_hd [OF Cons] show ?thesis
      by (simp add: py_strip_def py_lstrip_def py_rstrip_def)
  next
    case (snoc ds d)
    with Cons have "py_strip s = c # ds @ [d]" by simp
    with py_strip_hd [of s] py_strip_last [of s "c # ds" d] show ?thesis
      by (simp add: py_strip_no_space_ends)
  qed
qed

section \<open>Lemmas on splitlines\<close>

lemma py_splitlines_Nil [simp]: "py_splitlines [] = []"
  by (simp add: py_splitlines.simps)

lemma py_splitlines_no_break:
  assumes "\<forall>c\<in>set s. \<not> py_is_linebreak c" and "s \<noteq> []"
  shows "py_splitlines s = [s]"
proof -
  from assms(1) have "dropWhile (\<lambda>c. \<not> py_is_linebreak c) s = []"
    and "takeWhile (\<lambda>c. \<not> py_is_linebreak c) s = s"
    by (induction s) auto
  with assms(2) show ?thesis
    by (subst py_splitlines.simps) (simp del: dropWhile_eq_Nil_conv takeWhile_eq_all_conv)
qed

text \<open>A line ended by \<open>\n\<close>: the split continues after the newline.\<close>

lemma py_splitlines_LF:
  assumes "\<forall>c\<in>set l. \<not> py_is_linebreak c"
  shows "py_splitlines (l @ CHR 0x0A # r) = l # py_splitlines r"
proof -
  have lb: "py_is_linebreak (CHR 0x0A)" by (simp add: py_is_linebreak_def)
  have tw: "takeWhile (\<lambda>c. \<not> py_is_linebreak c) (l @ CHR 0x0A # r) = l"
    using assms lb by (simp add: takeWhile_append2)
  have dw: "dropWhile (\<lambda>c. \<not> py_is_linebreak c) (l @ CHR 0x0A # r) = CHR 0x0A # r"
    using assms lb by (simp add: dropWhile_append2)
  show ?thesis
    by (subst py_splitlines.simps) (simp add: tw dw split: list.split)
qed

lemma py_splitlines_lines_no_break:
  "l \<in> set (py_splitlines s) \<Longrightarrow> \<forall>c\<in>set l. \<not> py_is_linebreak c"
proof (induction s rule: py_splitlines.induct)
  case (1 s)
  show ?case
  proof (cases "s = []")
    case True
    with "1.prems" show ?thesis by simp
  next
    case False
    let ?rest = "dropWhile (\<lambda>c. \<not> py_is_linebreak c) s"
    show ?thesis
    proof (cases ?rest)
      case Nil
      with "1.prems" False show ?thesis
        by (subst (asm) py_splitlines.simps) (auto dest: set_takeWhileD)
    next
      case (Cons c rest')
      with "1.prems" False "1.IH" [OF False refl refl Cons] show ?thesis
        by (subst (asm) py_splitlines.simps) (auto dest: set_takeWhileD)
    qed
  qed
qed

section \<open>Lemmas on lists\<close>

text \<open>The first element of a list with a property, after elements with another one.\<close>

lemma split_first_Cons:
  "(\<exists>as x bs. y # ys = as @ x # bs \<and> (\<forall>a\<in>set as. P a) \<and> Q x) \<longleftrightarrow>
   Q y \<or> (P y \<and> (\<exists>as x bs. ys = as @ x # bs \<and> (\<forall>a\<in>set as. P a) \<and> Q x))"
proof
  assume "\<exists>as x bs. y # ys = as @ x # bs \<and> (\<forall>a\<in>set as. P a) \<and> Q x"
  then obtain as x bs where h: "y # ys = as @ x # bs" "\<forall>a\<in>set as. P a" "Q x" by blast
  then show "Q y \<or> (P y \<and> (\<exists>as x bs. ys = as @ x # bs \<and> (\<forall>a\<in>set as. P a) \<and> Q x))"
    by (cases as) auto
next
  assume "Q y \<or> (P y \<and> (\<exists>as x bs. ys = as @ x # bs \<and> (\<forall>a\<in>set as. P a) \<and> Q x))"
  then show "\<exists>as x bs. y # ys = as @ x # bs \<and> (\<forall>a\<in>set as. P a) \<and> Q x"
  proof
    assume "Q y"
    then show ?thesis by (intro exI [of _ "[]"]) auto
  next
    assume "P y \<and> (\<exists>as x bs. ys = as @ x # bs \<and> (\<forall>a\<in>set as. P a) \<and> Q x)"
    then obtain as x bs where "P y" "ys = as @ x # bs" "\<forall>a\<in>set as. P a" "Q x" by blast
    then show ?thesis by (intro exI [of _ "y # as"]) auto
  qed
qed

text \<open>An element of a distinct list occurs once in it.\<close>

lemma count_list_distinct: "distinct xs \<Longrightarrow> x \<in> set xs \<Longrightarrow> count_list xs x = 1"
  by (induction xs) auto

section \<open>Lemmas on decimal strings\<close>

lemma py_str_nat_digits: "c \<in> set (py_str_nat n) \<Longrightarrow> is_digit c"
proof (induction n rule: py_str_nat.induct)
  case (1 n)
  show ?case
  proof (cases "n < 10")
    case True
    with "1.prems" show ?thesis by (simp add: py_str_nat.simps is_digit_def)
  next
    case False
    have "n mod 10 < 10" by simp
    with False "1.prems" "1.IH" show ?thesis
      by (subst (asm) py_str_nat.simps) (auto simp: is_digit_def)
  qed
qed

lemma dec_value_snoc: "dec_value (s @ [c]) = 10 * dec_value s + (of_char c - 48)"
  by (simp add: dec_value_def)

text \<open>Round trip: reading back the digits \<open>str(n)\<close> prints gives \<open>n\<close>.\<close>

lemma dec_value_py_str_nat [simp]: "dec_value (py_str_nat n) = n"
proof (induction n rule: py_str_nat.induct)
  case (1 n)
  show ?case
  proof (cases "n < 10")
    case True
    then show ?thesis by (simp add: py_str_nat.simps dec_value_def)
  next
    case False
    have "n mod 10 < 10" by simp
    then have "of_char (char_of (48 + n mod 10) :: char) - 48 = n mod 10"
      by simp
    with False "1.IH" show ?thesis
      by (subst py_str_nat.simps) (simp add: dec_value_snoc)
  qed
qed

lemma py_str_nat_inj: "py_str_nat m = py_str_nat n \<longleftrightarrow> m = n"
  by (metis dec_value_py_str_nat)

lemma py_str_nat_not_Nil [simp]: "py_str_nat n \<noteq> []"
  by (subst py_str_nat.simps) simp

end
