(* ===== verification/PyRe.thy ===== *)
theory PyRe
  imports Prelude
begin

text \<open>
  The fragment of Python's \<open>re\<close> semantics that the three patterns of the program share:
  a run of whitespace \<open>\s+\<close> followed by a captured rest of line \<open>(.*)$\<close> or
  \<open>(.+)$\<close>. The patterns are \<open>^@(@)?option\s+(.*)$\<close> and \<open>^@(\w+)\s+(.*)$\<close>
  in \<open>src/src/utils.py\<close> and \<open>^@image\s+(.+)$\<close> (with \<open>re.MULTILINE\<close>) in
  \<open>src/main.py\<close>. The matcher is backtracking: \<open>\s+\<close> is greedy, and when the rest
  of the pattern fails the whitespace run is shortened one character at a time, as the
  \<open>re\<close> engine does. \<open>.\<close> matches every character but \<open>\n\<close>; \<open>$\<close> matches at
  the end of the subject and before a final \<open>\n\<close>, and with \<open>re.MULTILINE\<close> also
  before every \<open>\n\<close>.
\<close>

text \<open>
  \<open>ws_backtrack ml ne k t\<close>: try the whitespace runs of length \<open>k\<close>, \<open>k - 1\<close>, ...,
  \<open>1\<close> at the front of \<open>t\<close> (the first \<open>k\<close> characters are whitespace); for each,
  the group is the longest run of non-newline characters after it, accepted when it is
  non-empty (if \<open>ne\<close>, for \<open>.+\<close>) and \<open>$\<close> holds after it (\<open>ml\<close> for MULTILINE).
\<close>

fun ws_backtrack :: "bool \<Rightarrow> bool \<Rightarrow> nat \<Rightarrow> string \<Rightarrow> string option" where
  "ws_backtrack ml ne 0 t = None"
| "ws_backtrack ml ne (Suc k) t =
    (let r = drop (Suc k) t;
         g = takeWhile (\<lambda>c. c \<noteq> CHR 0x0A) r;
         e = drop (length g) r
     in if (ne \<longrightarrow> g \<noteq> []) \<and> (ml \<or> e = [] \<or> e = [CHR 0x0A]) then Some g
        else ws_backtrack ml ne k t)"

text \<open>\<open>\s+(.*)$\<close> (\<open>ne = False\<close>) or \<open>\s+(.+)$\<close> (\<open>ne = True\<close>) matched at the front of \<open>t\<close>: the captured group.\<close>

definition sre_ws_tail :: "bool \<Rightarrow> bool \<Rightarrow> string \<Rightarrow> string option" where
  "sre_ws_tail ml ne t = ws_backtrack ml ne (length (takeWhile py_isspace t)) t"

section \<open>Lemmas\<close>

lemma sre_ws_tail_no_space:
  assumes "t = [] \<or> \<not> py_isspace (hd t)"
  shows "sre_ws_tail ml ne t = None"
proof -
  from assms have "takeWhile py_isspace t = []" by (cases t) auto
  then show ?thesis by (simp add: sre_ws_tail_def)
qed

text \<open>
  On a subject without newline that starts with whitespace, the group is what follows the
  whole whitespace run (for \<open>.+\<close>, when that is not empty).
\<close>

lemma sre_ws_tail_single_line:
  assumes nolf: "\<forall>c\<in>set t. c \<noteq> CHR 0x0A"
    and sp: "t \<noteq> []" "py_isspace (hd t)"
    and ne: "ne \<longrightarrow> dropWhile py_isspace t \<noteq> []"
  shows "sre_ws_tail ml ne t = Some (dropWhile py_isspace t)"
proof -
  obtain k where k: "length (takeWhile py_isspace t) = Suc k"
    using sp by (cases t) auto
  have d: "drop (Suc k) t = dropWhile py_isspace t"
    using k by (metis dropWhile_eq_drop)
  have "\<forall>c\<in>set (dropWhile py_isspace t). c \<noteq> CHR 0x0A"
    using nolf by (auto dest: set_dropWhileD)
  then have g: "takeWhile (\<lambda>c. c \<noteq> CHR 0x0A) (dropWhile py_isspace t) = dropWhile py_isspace t"
    by (simp add: takeWhile_eq_all_conv)
  show ?thesis
    using ne by (simp add: sre_ws_tail_def k d g Let_def)
qed

lemma ws_backtrack_Some_set:
  "ws_backtrack ml ne k t = Some g \<Longrightarrow> set g \<subseteq> set t \<and> CHR 0x0A \<notin> set g"
proof (induction k)
  case 0
  then show ?case by simp
next
  case (Suc k)
  show ?case
  proof (cases "ws_backtrack ml ne (Suc k) t = ws_backtrack ml ne k t")
    case True
    with Suc show ?thesis by simp
  next
    case False
    with Suc.prems have "g = takeWhile (\<lambda>c. c \<noteq> CHR 0x0A) (drop (Suc k) t)"
      by (simp add: Let_def split: if_splits)
    then show ?thesis
      by (auto dest: set_takeWhileD in_set_dropD)
  qed
qed

lemma sre_ws_tail_Some_set:
  "sre_ws_tail ml ne t = Some g \<Longrightarrow> set g \<subseteq> set t \<and> CHR 0x0A \<notin> set g"
  by (simp add: sre_ws_tail_def ws_backtrack_Some_set)

text \<open>
  In MULTILINE mode with \<open>.+\<close>: a whitespace run without newline, then a non-empty
  rest of line that starts with a non-space, ended by a newline or the end of the subject;
  the group is that rest of line.
\<close>

lemma sre_ws_tail_multiline:
  assumes w: "w \<noteq> []" "\<forall>c\<in>set w. py_isspace c"
    and p: "p \<noteq> []" "\<not> py_isspace (hd p)" "CHR 0x0A \<notin> set p"
    and e: "e = [] \<or> hd e = CHR 0x0A"
  shows "sre_ws_tail True True (w @ p @ e) = Some p"
proof -
  have tw: "takeWhile py_isspace (w @ p @ e) = w"
    using w(2) p(1,2) by (cases p) (simp_all add: takeWhile_append2)
  obtain k where k: "length w = Suc k" using w(1) by (cases w) auto
  have d: "drop (Suc k) (w @ p @ e) = p @ e" using k by (metis append_eq_conv_conj)
  have g: "takeWhile (\<lambda>c. c \<noteq> CHR 0x0A) (p @ e) = p"
  proof -
    have "takeWhile (\<lambda>c. c \<noteq> CHR 0x0A) e = []" using e by (cases e) auto
    with p(3) show ?thesis by (induction p) auto
  qed
  show ?thesis
    using p(1) by (simp add: sre_ws_tail_def tw k d g Let_def)
qed

end
