(* ===== verification/TaggedParser.thy ===== *)
theory TaggedParser
  imports PyRe
begin

text \<open>
  The tagged-text parser, \<open>parse_tagged_questions\<close> of \<open>src/src/utils.py\<close> (lines
  42--104). Each raw block is stripped and split into lines; each stripped, non-empty line
  is tried against the option pattern first and then against the generic tag pattern; an
  option line appends its text to the \<open>options\<close> list (and, with the doubled marker,
  sets \<open>answer\<close>), a tag line whose lower-cased name is a key of the dictionary
  overwrites that key. The per-question dictionary is the record \<open>qdict\<close>; its values
  are Python strings except \<open>options\<close>, which starts as a list but becomes a string when
  a tag line \<open>@options v\<close> assigns it, after which the next option line fails on
  \<open>str.append\<close> with \<open>AttributeError\<close>.
\<close>

section \<open>The question dictionary\<close>

text \<open>A dictionary value: the parser stores strings and one list of strings.\<close>

datatype pyval = PStr string | PList "string list"

record qdict =
  title :: string
  description :: string
  question :: string
  instruction :: string
  difficulty :: string
  subject :: string
  unit :: string
  topic :: string
  plusmarks :: string
  options :: pyval
  answer :: string
  explanation :: string

text \<open>The literal \<open>qdict = {...}\<close> built for every raw block.\<close>

definition qdict_init :: qdict where
  "qdict_init =
    \<lparr>title = [], description = [], question = [], instruction = [], difficulty = [],
     subject = [], unit = [], topic = [], plusmarks = ''1'', options = PList [],
     answer = [], explanation = []\<rparr>"

text \<open>The twelve keys of that dictionary, in its insertion order, and their names.\<close>

datatype qkey =
    KTitle | KDescription | KQuestion | KInstruction | KDifficulty | KSubject | KUnit
  | KTopic | KPlusmarks | KOptions | KAnswer | KExplanation

definition qkey_names :: "(string \<times> qkey) list" where
  "qkey_names =
    [(''title'', KTitle), (''description'', KDescription), (''question'', KQuestion),
     (''instruction'', KInstruction), (''difficulty'', KDifficulty), (''subject'', KSubject),
     (''unit'', KUnit), (''topic'', KTopic), (''plusmarks'', KPlusmarks),
     (''options'', KOptions), (''answer'', KAnswer), (''explanation'', KExplanation)]"

text \<open>\<open>tag in qdict\<close>: the key a name denotes, if it is one.\<close>

definition key_of :: "string \<Rightarrow> qkey option" where
  "key_of s = map_of qkey_names s"

text \<open>\<open>qdict[k]\<close>: reading a key.\<close>

fun get_key :: "qkey \<Rightarrow> qdict \<Rightarrow> pyval" where
  "get_key KTitle q = PStr (title q)"
| "get_key KDescription q = PStr (description q)"
| "get_key KQuestion q = PStr (question q)"
| "get_key KInstruction q = PStr (instruction q)"
| "get_key KDifficulty q = PStr (difficulty q)"
| "get_key KSubject q = PStr (subject q)"
| "get_key KUnit q = PStr (unit q)"
| "get_key KTopic q = PStr (topic q)"
| "get_key KPlusmarks q = PStr (plusmarks q)"
| "get_key KOptions q = options q"
| "get_key KAnswer q = PStr (answer q)"
| "get_key KExplanation q = PStr (explanation q)"

text \<open>\<open>qdict[tag] = val\<close> (utils.py line 98): every key takes the string, \<open>options\<close> too.\<close>

fun set_key :: "qkey \<Rightarrow> string \<Rightarrow> qdict \<Rightarrow> qdict" where
  "set_key KTitle v q = q\<lparr>title := v\<rparr>"
| "set_key KDescription v q = q\<lparr>description := v\<rparr>"
| "set_key KQuestion v q = q\<lparr>question := v\<rparr>"
| "set_key KInstruction v q = q\<lparr>instruction := v\<rparr>"
| "set_key KDifficulty v q = q\<lparr>difficulty := v\<rparr>"
| "set_key KSubject v q = q\<lparr>subject := v\<rparr>"
| "set_key KUnit v q = q\<lparr>unit := v\<rparr>"
| "set_key KTopic v q = q\<lparr>topic := v\<rparr>"
| "set_key KPlusmarks v q = q\<lparr>plusmarks := v\<rparr>"
| "set_key KOptions v q = q\<lparr>options := PStr v\<rparr>"
| "set_key KAnswer v q = q\<lparr>answer := v\<rparr>"
| "set_key KExplanation v q = q\<lparr>explanation := v\<rparr>"

section \<open>The two patterns\<close>

text \<open>
  \<open>option_re = re.compile(r'^@(@)?option\s+(.*)$', re.IGNORECASE)\<close>, applied with
  \<open>match\<close>: the flag is whether group 1 matched (the doubled marker), the string is group 2.
  Only the word \<open>option\<close> has letters, so \<open>IGNORECASE\<close> compares it lower-cased. If
  the optional \<open>@\<close> is taken and the rest fails, the engine retries without it, but then
  \<open>option\<close> would have to start with \<open>@\<close>; so the first choice decides.
\<close>

definition option_re_match :: "string \<Rightarrow> (bool \<times> string) option" where
  "option_re_match l =
    (case l of
       c # r \<Rightarrow>
         if c \<noteq> CHR ''@'' then None
         else
           (let (flag, r2) = (case r of
                                d # r' \<Rightarrow> if d = CHR ''@'' then (True, r') else (False, r)
                              | [] \<Rightarrow> (False, r))
            in if py_lower (take 6 r2) = ''option''
               then map_option (\<lambda>g. (flag, g)) (sre_ws_tail False False (drop 6 r2))
               else None)
     | [] \<Rightarrow> None)"

text \<open>
  \<open>tag_re = re.compile(r'^@(\w+)\s+(.*)$')\<close>: group 1 is the longest run of word
  characters after \<open>@\<close> (a shorter run would leave a word character where \<open>\s\<close> must
  match), group 2 the rest after the whitespace.
\<close>

definition tag_re_match :: "string \<Rightarrow> (string \<times> string) option" where
  "tag_re_match l =
    (case l of
       c # r \<Rightarrow>
         if c \<noteq> CHR ''@'' then None
         else
           (let name = takeWhile py_isword r
            in if name = [] then None
               else map_option (\<lambda>g. (name, g)) (sre_ws_tail False False (drop (length name) r)))
     | [] \<Rightarrow> None)"

section \<open>The parsing loop\<close>

text \<open>One iteration of \<open>for line in lines\<close> (utils.py lines 77--101).\<close>

definition parse_line :: "qdict \<Rightarrow> string \<Rightarrow> py_exc + qdict" where
  "parse_line q raw_line =
    (let line = py_strip raw_line
     in if line = [] then Inr q
        else
          (case option_re_match line of
             Some (correct_flag, g) \<Rightarrow>
               (let opt_text = py_strip g
                in case options q of
                     PList xs \<Rightarrow>
                       (let q' = q\<lparr>options := PList (xs @ [opt_text])\<rparr>
                        in Inr (if correct_flag then q'\<lparr>answer := opt_text\<rparr> else q'))
                   | PStr _ \<Rightarrow> Inl AttributeError)
           | None \<Rightarrow>
               (case tag_re_match line of
                  Some (name, g) \<Rightarrow>
                    (case key_of (py_lower name) of
                       Some k \<Rightarrow> Inr (set_key k (py_strip g) q)
                     | None \<Rightarrow> Inr q)
                | None \<Rightarrow> Inr q)))"

text \<open>The loop over the lines of one block; an exception leaves it at once.\<close>

fun parse_lines :: "qdict \<Rightarrow> string list \<Rightarrow> py_exc + qdict" where
  "parse_lines q [] = Inr q"
| "parse_lines q (l # ls) =
    (case parse_line q l of
       Inl e \<Rightarrow> Inl e
     | Inr q' \<Rightarrow> parse_lines q' ls)"

text \<open>One block: \<open>lines = raw.strip().splitlines()\<close>, from the initial dictionary.\<close>

definition parse_block :: "string \<Rightarrow> py_exc + qdict" where
  "parse_block raw = parse_lines qdict_init (py_splitlines (py_strip raw))"

text \<open>\<open>for raw in raw_questions: ... parsed_questions.append(qdict)\<close>.\<close>

fun parse_loop :: "qdict list \<Rightarrow> string list \<Rightarrow> py_exc + qdict list" where
  "parse_loop acc [] = Inr acc"
| "parse_loop acc (raw # raws) =
    (case parse_block raw of
       Inl e \<Rightarrow> Inl e
     | Inr q \<Rightarrow> parse_loop (acc @ [q]) raws)"

definition parse_tagged_questions :: "string list \<Rightarrow> py_exc + qdict list" where
  "parse_tagged_questions raws = parse_loop [] raws"

section \<open>What a line means\<close>

text \<open>
  The effect of a line, read off the same patterns as \<^const>\<open>parse_line\<close>: a blank line,
  an option line (with its flag and stripped text), an assignment to a known key, or a line
  the loop ignores (no pattern matched, or an unknown tag name). These definitions are the
  vocabulary of the specification below; the lemma \<open>parse_line_classify\<close> shows that the
  loop body is the effect of the classified line.
\<close>

datatype line_kind = Blank | OptLine bool string | TagLine qkey string | Ignored

definition classify :: "string \<Rightarrow> line_kind" where
  "classify raw_line =
    (let line = py_strip raw_line
     in if line = [] then Blank
        else
          (case option_re_match line of
             Some (flag, g) \<Rightarrow> OptLine flag (py_strip g)
           | None \<Rightarrow>
               (case tag_re_match line of
                  Some (name, g) \<Rightarrow>
                    (case key_of (py_lower name) of
                       Some k \<Rightarrow> TagLine k (py_strip g)
                     | None \<Rightarrow> Ignored)
                | None \<Rightarrow> Ignored)))"

fun apply_kind :: "qdict \<Rightarrow> line_kind \<Rightarrow> py_exc + qdict" where
  "apply_kind q Blank = Inr q"
| "apply_kind q Ignored = Inr q"
| "apply_kind q (TagLine k v) = Inr (set_key k v q)"
| "apply_kind q (OptLine flag t) =
    (case options q of
       PList xs \<Rightarrow>
         Inr (if flag then q\<lparr>options := PList (xs @ [t]), answer := t\<rparr>
              else q\<lparr>options := PList (xs @ [t])\<rparr>)
     | PStr _ \<Rightarrow> Inl AttributeError)"

fun run_kinds :: "qdict \<Rightarrow> line_kind list \<Rightarrow> py_exc + qdict" where
  "run_kinds q [] = Inr q"
| "run_kinds q (k # ks) = (case apply_kind q k of Inl e \<Rightarrow> Inl e | Inr q' \<Rightarrow> run_kinds q' ks)"

definition block_kinds :: "string \<Rightarrow> line_kind list" where
  "block_kinds raw = map classify (py_splitlines (py_strip raw))"

subsection \<open>Specification\<close>

text \<open>The values assigned to a key by tag lines, in order.\<close>

fun tag_values :: "qkey \<Rightarrow> line_kind list \<Rightarrow> string list" where
  "tag_values k [] = []"
| "tag_values k (TagLine k' v # ks) = (if k' = k then v # tag_values k ks else tag_values k ks)"
| "tag_values k (_ # ks) = tag_values k ks"

text \<open>The texts of the option lines, in order.\<close>

fun opt_texts :: "line_kind list \<Rightarrow> string list" where
  "opt_texts [] = []"
| "opt_texts (OptLine f t # ks) = t # opt_texts ks"
| "opt_texts (_ # ks) = opt_texts ks"

text \<open>The values \<open>answer\<close> is given, in order: doubled-marker options and \<open>@answer\<close> tags.\<close>

fun answer_values :: "line_kind list \<Rightarrow> string list" where
  "answer_values [] = []"
| "answer_values (OptLine True t # ks) = t # answer_values ks"
| "answer_values (TagLine KAnswer v # ks) = v # answer_values ks"
| "answer_values (_ # ks) = answer_values ks"

fun is_opt_line :: "line_kind \<Rightarrow> bool" where
  "is_opt_line (OptLine f t) = True"
| "is_opt_line _ = False"

fun is_options_tag :: "line_kind \<Rightarrow> bool" where
  "is_options_tag (TagLine KOptions v) = True"
| "is_options_tag _ = False"

fun is_answer_tag :: "line_kind \<Rightarrow> bool" where
  "is_answer_tag (TagLine KAnswer v) = True"
| "is_answer_tag _ = False"

text \<open>Some option line comes after a tag line \<open>@options\<close>.\<close>

fun opt_after_options :: "line_kind list \<Rightarrow> bool" where
  "opt_after_options [] = False"
| "opt_after_options (k # ks) = ((is_options_tag k \<and> list_ex is_opt_line ks) \<or> opt_after_options ks)"

fun is_pstr :: "pyval \<Rightarrow> bool" where
  "is_pstr (PStr s) = True"
| "is_pstr (PList xs) = False"

text \<open>The invariant the spec asks of a record: a non-empty answer is one of the options.\<close>

definition answer_ok :: "qdict \<Rightarrow> bool" where
  "answer_ok q \<longleftrightarrow>
    answer q = [] \<or> (case options q of PList xs \<Rightarrow> answer q \<in> set xs | PStr _ \<Rightarrow> False)"

section \<open>Lemmas: the dictionary\<close>

lemma get_set_key [simp]: "get_key k (set_key k' v q) = (if k = k' then PStr v else get_key k q)"
  by (cases k; cases k') auto

lemma get_key_options_upd [simp]: "k \<noteq> KOptions \<Longrightarrow> get_key k (q\<lparr>options := x\<rparr>) = get_key k q"
  by (cases k) auto

lemma get_key_answer_upd [simp]: "k \<noteq> KAnswer \<Longrightarrow> get_key k (q\<lparr>answer := x\<rparr>) = get_key k q"
  by (cases k) auto

lemma options_set_key [simp]:
  "options (set_key k v q) = (if k = KOptions then PStr v else options q)"
  by (cases k) auto

lemma answer_set_key [simp]:
  "answer (set_key k v q) = (if k = KAnswer then v else answer q)"
  by (cases k) auto

section \<open>Lemmas: the loop is the run of the classified lines\<close>

lemma parse_line_classify: "parse_line q l = apply_kind q (classify l)"
  by (simp add: parse_line_def classify_def Let_def split: option.split prod.split pyval.split)

lemma parse_lines_run_kinds: "parse_lines q ls = run_kinds q (map classify ls)"
  by (induction ls arbitrary: q) (simp_all add: parse_line_classify split: sum.split)

lemma parse_block_run_kinds: "parse_block raw = run_kinds qdict_init (block_kinds raw)"
  by (simp add: parse_block_def block_kinds_def parse_lines_run_kinds)

lemma run_kinds_append:
  "run_kinds q (ks @ ks') = (case run_kinds q ks of Inl e \<Rightarrow> Inl e | Inr q' \<Rightarrow> run_kinds q' ks')"
  by (induction ks arbitrary: q) (simp_all split: sum.split)

lemma apply_kind_Inl: "apply_kind q k = Inl e \<Longrightarrow> e = AttributeError \<and> is_opt_line k \<and> is_pstr (options q)"
  by (cases k) (auto split: pyval.splits)

lemma run_kinds_Inl: "run_kinds q ks = Inl e \<Longrightarrow> e = AttributeError"
  by (induction ks arbitrary: q) (auto split: sum.splits dest: apply_kind_Inl)


lemma is_options_tag_TagLine [simp]: "is_options_tag (TagLine k v) \<longleftrightarrow> k = KOptions"
  by (cases k) auto

lemma is_answer_tag_TagLine [simp]: "is_answer_tag (TagLine k v) \<longleftrightarrow> k = KAnswer"
  by (cases k) auto

text \<open>Once \<open>options\<close> holds a string it keeps one, and no option line can follow.\<close>

lemma run_kinds_from_PStr:
  "options q = PStr v \<Longrightarrow> run_kinds q ks = Inr q' \<Longrightarrow>
   \<not> list_ex is_opt_line ks \<and> (\<exists>w. options q' = PStr w)"
proof (induction ks arbitrary: q v)
  case Nil
  then show ?case by simp
next
  case (Cons y ks)
  then obtain q1 where q1: "apply_kind q y = Inr q1" and r: "run_kinds q1 ks = Inr q'"
    by (auto split: sum.splits)
  have "\<exists>w. options q1 = PStr w" using q1 Cons.prems(1) by (cases y) auto
  then obtain w where "options q1 = PStr w" ..
  from Cons.IH [OF this r] q1 Cons.prems(1) show ?case by (cases y) auto
qed

lemma run_kinds_Cons_Inr:
  "run_kinds q (x # ks) = Inr q' \<Longrightarrow> \<exists>q1. apply_kind q x = Inr q1 \<and> run_kinds q1 ks = Inr q'"
  by (auto split: sum.splits)

section \<open>Lemmas: what a run computes\<close>

text \<open>A key other than \<open>options\<close> and \<open>answer\<close> holds the value of its last tag line.\<close>

lemma run_kinds_field:
  "run_kinds q ks = Inr q' \<Longrightarrow> k \<noteq> KOptions \<Longrightarrow> k \<noteq> KAnswer \<Longrightarrow>
   get_key k q' = (if tag_values k ks = [] then get_key k q else PStr (last (tag_values k ks)))"
proof (induction ks arbitrary: q)
  case Nil
  then show ?case by simp
next
  case (Cons x ks)
  then obtain q1 where q1: "apply_kind q x = Inr q1" and r: "run_kinds q1 ks = Inr q'"
    by (blast dest: run_kinds_Cons_Inr)
  note IH = Cons.IH [OF r Cons.prems(2,3)]
  show ?case
    using q1 IH Cons.prems(2,3) by (cases x) (auto split: pyval.splits if_splits)
qed

text \<open>\<open>answer\<close> holds the last value given by a doubled-marker option or an \<open>@answer\<close> tag.\<close>

lemma run_kinds_answer:
  "run_kinds q ks = Inr q' \<Longrightarrow>
   answer q' = (if answer_values ks = [] then answer q else last (answer_values ks))"
proof (induction ks arbitrary: q)
  case Nil
  then show ?case by simp
next
  case (Cons x ks)
  then obtain q1 where q1: "apply_kind q x = Inr q1" and r: "run_kinds q1 ks = Inr q'"
    by (blast dest: run_kinds_Cons_Inr)
  note IH = Cons.IH [OF r]
  show ?case
  proof (cases x)
    case (OptLine f t)
    with q1 IH show ?thesis by (cases f) (auto split: pyval.splits)
  next
    case (TagLine k v)
    with q1 IH show ?thesis by (cases k) auto
  qed (use q1 IH in auto)
qed

text \<open>Without an \<open>@options\<close> tag the run succeeds and appends every option text, in order.\<close>

lemma run_kinds_options_total:
  "options q = PList xs \<Longrightarrow> \<not> list_ex is_options_tag ks \<Longrightarrow>
   \<exists>q'. run_kinds q ks = Inr q' \<and> options q' = PList (xs @ opt_texts ks)"
proof (induction ks arbitrary: q xs)
  case Nil
  then show ?case by simp
next
  case (Cons x ks)
  have nk: "\<not> list_ex is_options_tag ks" using Cons.prems(2) by simp
  show ?case
  proof (cases x)
    case (TagLine k v)
    with Cons.prems have "k \<noteq> KOptions" by auto
    with Cons.IH [OF _ nk] Cons.prems(1) TagLine show ?thesis by auto
  next
    case (OptLine f t)
    define q1 where "q1 = (if f then q\<lparr>options := PList (xs @ [t]), answer := t\<rparr>
                           else q\<lparr>options := PList (xs @ [t])\<rparr>)"
    have a: "apply_kind q x = Inr q1" and o: "options q1 = PList (xs @ [t])"
      by (simp_all add: q1_def OptLine Cons.prems(1))
    from Cons.IH [OF o nk] obtain q' where
      "run_kinds q1 ks = Inr q'" "options q' = PList ((xs @ [t]) @ opt_texts ks)" by blast
    with a OptLine show ?thesis by auto
  qed (use Cons in auto)
qed

text \<open>A run that ends with a list of options kept the list all along.\<close>

lemma run_kinds_options_list:
  "run_kinds q ks = Inr q' \<Longrightarrow> options q' = PList ys \<Longrightarrow> options q = PList xs \<Longrightarrow>
   ys = xs @ opt_texts ks \<and> \<not> list_ex is_options_tag ks"
proof (induction ks arbitrary: q xs)
  case Nil
  then show ?case by simp
next
  case (Cons x ks)
  then obtain q1 where q1: "apply_kind q x = Inr q1" and r: "run_kinds q1 ks = Inr q'"
    by (blast dest: run_kinds_Cons_Inr)
  show ?case
  proof (cases x)
    case (TagLine k v)
    show ?thesis
    proof (cases "k = KOptions")
      case True
      then have "options q1 = PStr v" using q1 TagLine by auto
      from run_kinds_from_PStr [OF this r] Cons.prems(2) have False by auto
      then show ?thesis ..
    next
      case False
      with q1 TagLine Cons.IH [OF r Cons.prems(2)] Cons.prems(3) show ?thesis
        by (cases k) auto
    qed
  next
    case (OptLine f t)
    with q1 Cons.prems(3) have "options q1 = PList (xs @ [t])" by (auto split: if_splits)
    from Cons.IH [OF r Cons.prems(2) this] OptLine show ?thesis by simp
  qed (use q1 Cons.IH [OF r Cons.prems(2)] Cons.prems(3) in auto)
qed

text \<open>The run fails exactly when an option line meets \<open>options\<close> holding a string.\<close>

lemma run_kinds_fails_iff:
  "(\<exists>e. run_kinds q ks = Inl e) \<longleftrightarrow>
   (is_pstr (options q) \<and> list_ex is_opt_line ks) \<or> opt_after_options ks"
proof (induction ks arbitrary: q)
  case Nil
  then show ?case by simp
next
  case (Cons x ks)
  show ?case
  proof (cases x)
    case (OptLine f t)
    then show ?thesis using Cons.IH by (cases "options q") auto
  next
    case (TagLine k v)
    then show ?thesis using Cons.IH by (cases "k = KOptions") (auto simp: list_ex_iff)
  qed (use Cons.IH in auto)
qed

text \<open>The answer invariant, kept by every line but \<open>@answer\<close> and \<open>@options\<close> tags.\<close>

lemma apply_kind_answer_ok:
  "apply_kind q x = Inr q1 \<Longrightarrow> answer_ok q \<Longrightarrow> \<not> is_options_tag x \<Longrightarrow> \<not> is_answer_tag x \<Longrightarrow>
   answer_ok q1"
proof (cases x)
  case (TagLine k v)
  moreover assume "apply_kind q x = Inr q1" "answer_ok q" "\<not> is_options_tag x" "\<not> is_answer_tag x"
  ultimately show ?thesis by (cases k) (auto simp: answer_ok_def split: pyval.splits)
qed (auto simp: answer_ok_def split: pyval.splits if_splits)

lemma run_kinds_answer_ok:
  "run_kinds q ks = Inr q' \<Longrightarrow> answer_ok q \<Longrightarrow>
   \<forall>x\<in>set ks. \<not> is_options_tag x \<and> \<not> is_answer_tag x \<Longrightarrow> answer_ok q'"
proof (induction ks arbitrary: q)
  case Nil
  then show ?case by simp
next
  case (Cons x ks)
  then obtain q1 where "apply_kind q x = Inr q1" and "run_kinds q1 ks = Inr q'"
    by (blast dest: run_kinds_Cons_Inr)
  with Cons show ?case by (auto intro: apply_kind_answer_ok)
qed

lemma run_kinds_drop_ignored:
  "run_kinds q (filter (\<lambda>x. x \<noteq> Blank \<and> x \<noteq> Ignored) ks) = run_kinds q ks"
proof (induction ks arbitrary: q)
  case Nil
  then show ?case by simp
next
  case (Cons x ks)
  then show ?case by (cases x) (auto split: sum.split)
qed

section \<open>Lemmas: option texts\<close>

lemma option_re_match_Some:
  "option_re_match line = Some (f, g) \<Longrightarrow> \<exists>n. sre_ws_tail False False (drop n line) = Some g"
proof (cases line)
  case Nil
  moreover assume "option_re_match line = Some (f, g)"
  ultimately show ?thesis by (simp add: option_re_match_def)
next
  case (Cons c r)
  assume m: "option_re_match line = Some (f, g)"
  show ?thesis
  proof (cases r)
    case Nil
    with m Cons show ?thesis by (auto simp: option_re_match_def py_lower_def split: if_splits)
  next
    case (Cons d r')
    have "drop 6 r = drop 7 line" "drop 6 r' = drop 8 line"
      using Cons \<open>line = c # r\<close> by simp_all
    show ?thesis
    proof (cases "d = CHR ''@''")
      case True
      with m \<open>line = c # r\<close> Cons have "sre_ws_tail False False (drop 6 r') = Some g"
        by (auto simp: option_re_match_def split: if_splits)
      with \<open>drop 6 r' = drop 8 line\<close> show ?thesis by metis
    next
      case False
      with m \<open>line = c # r\<close> Cons have "sre_ws_tail False False (drop 6 r) = Some g"
        by (auto simp: option_re_match_def split: if_splits)
      with \<open>drop 6 r = drop 7 line\<close> show ?thesis by metis
    qed
  qed
qed


lemma classify_OptLine_match:
  assumes c: "classify l = OptLine f t"
  shows "\<exists>g. py_strip l \<noteq> [] \<and> option_re_match (py_strip l) = Some (f, g) \<and> t = py_strip g"
proof -
  have ne: "py_strip l \<noteq> []"
  proof
    assume "py_strip l = []"
    with c show False by (simp add: classify_def)
  qed
  show ?thesis
  proof (cases "option_re_match (py_strip l)")
    case None
    with c ne show ?thesis
      by (simp add: classify_def Let_def split: option.splits prod.splits)
  next
    case (Some fg)
    with c ne show ?thesis
      by (cases fg) (simp add: classify_def Let_def)
  qed
qed
lemma classify_OptLine:
  assumes c: "classify l = OptLine f t" and nolb: "\<forall>c\<in>set l. \<not> py_is_linebreak c"
  shows "t \<noteq> [] \<and> py_strip t = t \<and> set t \<subseteq> set l"
proof -
  let ?line = "py_strip l"
  obtain g where ne: "?line \<noteq> []" and m: "option_re_match ?line = Some (f, g)"
    and t: "t = py_strip g"
    using classify_OptLine_match [OF c] by blast
  from option_re_match_Some [OF m] obtain n where
    s: "sre_ws_tail False False (drop n ?line) = Some g" by blast
  let ?u = "drop n ?line"
  have u_ne: "?u \<noteq> []" and u_sp: "py_isspace (hd ?u)"
    using s sre_ws_tail_no_space [of ?u False False] by auto
  have u_set: "set ?u \<subseteq> set l"
    using set_py_strip [of l] set_drop_subset [of n ?line] by blast
  have lf: "py_is_linebreak (CHR 0x0A)" by (simp add: py_is_linebreak_def)
  have nolf: "\<forall>c\<in>set ?u. c \<noteq> CHR 0x0A" using u_set nolb lf by blast
  have g: "g = dropWhile py_isspace ?u"
    using sre_ws_tail_single_line [OF nolf u_ne u_sp, of False False] s by simp
  have last_u: "last ?u = last ?line"
    using u_ne by (simp add: last_drop)
  have "\<not> py_isspace (last ?line)"
    using ne py_strip_last [of l "butlast ?line" "last ?line"] by simp
  then have nsp: "\<not> py_isspace (last ?u)" by (simp add: last_u)
  have "last ?u \<in> set ?u" using u_ne by (rule last_in_set)
  with nsp have "\<not> (\<forall>c\<in>set ?u. py_isspace c)" by blast
  then have "\<not> (\<forall>c\<in>set g. py_isspace c)" using g all_dropWhile_iff [of py_isspace ?u] by simp
  then have "t \<noteq> []" using t py_strip_Nil_iff [of g] by simp
  moreover have "py_strip t = t" using t by simp
  moreover have "set t \<subseteq> set l"
    using t set_py_strip [of g] sre_ws_tail_Some_set [OF s] u_set by blast
  ultimately show ?thesis by blast
qed

lemma opt_texts_classify:
  "t \<in> set (opt_texts (map classify ls)) \<Longrightarrow> \<exists>l\<in>set ls. \<exists>f. classify l = OptLine f t"
proof (induction ls)
  case Nil
  then show ?case by simp
next
  case (Cons l ls)
  then show ?case by (cases "classify l") auto
qed

section \<open>Lemmas: the batch loop\<close>

lemma parse_loop_Inr:
  "parse_loop acc raws = Inr qs \<longleftrightarrow>
   (\<exists>qs'. qs = acc @ qs' \<and> list_all2 (\<lambda>r q. parse_block r = Inr q) raws qs')"
proof (induction raws arbitrary: acc)
  case Nil
  then show ?case by auto
next
  case (Cons r raws)
  show ?case
  proof (cases "parse_block r")
    case (Inl e)
    then show ?thesis by (auto simp: list_all2_Cons1)
  next
    case (Inr q)
    then show ?thesis using Cons.IH by (auto simp: list_all2_Cons1)
  qed
qed

lemma parse_loop_Inl:
  "parse_loop acc raws = Inl e \<longleftrightarrow>
   (\<exists>as r bs. raws = as @ r # bs \<and> (\<forall>a\<in>set as. \<exists>q. parse_block a = Inr q) \<and> parse_block r = Inl e)"
proof (induction raws arbitrary: acc)
  case Nil
  then show ?case by simp
next
  case (Cons r raws)
  then show ?case
    by (cases "parse_block r") (simp_all only: split_first_Cons, auto)
qed

section \<open>Properties of the parser\<close>

text \<open>
  C1. Every scalar key of a parsed block (all but \<open>options\<close> and \<open>answer\<close>) holds the
  value of the last tag line for it (tag names compared lower-cased), or its default when
  no tag line names it: later tags overwrite earlier ones.
\<close>

theorem parse_block_fields:
  "parse_block raw = Inr q \<Longrightarrow> k \<noteq> KOptions \<Longrightarrow> k \<noteq> KAnswer \<Longrightarrow>
   get_key k q = (if tag_values k (block_kinds raw) = [] then get_key k qdict_init
                  else PStr (last (tag_values k (block_kinds raw))))"
  by (simp add: parse_block_run_kinds run_kinds_field)

theorem parse_block_fields_witness:
  "parse_block ''@title A\<newline>@TITLE B'' = Inr (qdict_init\<lparr>title := ''B''\<rparr>) \<and>
   get_key KTitle (qdict_init\<lparr>title := ''B''\<rparr>) = PStr ''B''"
proof -
  have e: "parse_block ''@title A\<newline>@TITLE B'' = Inr (qdict_init\<lparr>title := ''B''\<rparr>)"
    by code_simp
  have k: "block_kinds ''@title A\<newline>@TITLE B'' = [TagLine KTitle ''A'', TagLine KTitle ''B'']"
    by code_simp
  from parse_block_fields [OF e, of KTitle] k e show ?thesis by simp
qed

text \<open>
  C2. The \<open>answer\<close> of a parsed block is the last value given to it, by a
  doubled-marker option line \<open>@@option t\<close> or by a tag line \<open>@answer v\<close>; it is empty
  when there is none.
\<close>

theorem parse_block_answer:
  "parse_block raw = Inr q \<Longrightarrow>
   answer q = (if answer_values (block_kinds raw) = [] then [] else last (answer_values (block_kinds raw)))"
  using run_kinds_answer [of qdict_init "block_kinds raw" q]
  by (simp add: parse_block_run_kinds qdict_init_def)

theorem parse_block_answer_witness:
  "parse_block ''@@option 1\<newline>@option 2\<newline>@@option 3'' =
     Inr (qdict_init\<lparr>options := PList [''1'', ''2'', ''3''], answer := ''3''\<rparr>) \<and>
   answer (qdict_init\<lparr>options := PList [''1'', ''2'', ''3''], answer := ''3''\<rparr>) = ''3''"
proof -
  have e: "parse_block ''@@option 1\<newline>@option 2\<newline>@@option 3'' =
     Inr (qdict_init\<lparr>options := PList [''1'', ''2'', ''3''], answer := ''3''\<rparr>)"
    by code_simp
  have k: "block_kinds ''@@option 1\<newline>@option 2\<newline>@@option 3'' =
     [OptLine True ''1'', OptLine False ''2'', OptLine True ''3'']"
    by code_simp
  from parse_block_answer [OF e] k e show ?thesis by simp
qed

text \<open>
  C3. A block without an \<open>@options\<close> tag line always parses, and its \<open>options\<close> is the
  list of the texts of its option lines, in the order of the lines, duplicates kept.
\<close>

theorem parse_block_options:
  "\<not> list_ex is_options_tag (block_kinds raw) \<Longrightarrow>
   \<exists>q. parse_block raw = Inr q \<and> options q = PList (opt_texts (block_kinds raw))"
  using run_kinds_options_total [of qdict_init "[]" "block_kinds raw"]
  by (simp add: parse_block_run_kinds qdict_init_def)

theorem parse_block_options_witness:
  "\<not> list_ex is_options_tag (block_kinds ''@option a\<newline>@option a'') \<and>
   (\<exists>q. parse_block ''@option a\<newline>@option a'' = Inr q \<and> options q = PList [''a'', ''a''])"
proof -
  have k: "block_kinds ''@option a\<newline>@option a'' = [OptLine False ''a'', OptLine False ''a'']"
    by code_simp
  have "\<not> list_ex is_options_tag (block_kinds ''@option a\<newline>@option a'')" by (simp add: k)
  from parse_block_options [OF this] k show ?thesis by simp
qed

text \<open>
  C4. Parsing a block raises an exception exactly when an option line comes after a tag
  line \<open>@options v\<close> (which made \<open>options\<close> a string), and the exception is then
  \<open>AttributeError\<close>; the parser is not total, unlike what the spec says.
\<close>

theorem parse_block_fails_iff:
  "(\<exists>e. parse_block raw = Inl e) \<longleftrightarrow> opt_after_options (block_kinds raw)"
  using run_kinds_fails_iff [of qdict_init "block_kinds raw"]
  by (simp add: parse_block_run_kinds qdict_init_def)

text \<open>
  C5. If a block has no \<open>@answer\<close> and no \<open>@options\<close> tag line, a non-empty answer of
  the parsed record is one of its options (the invariant the spec asks of a record).
\<close>

theorem parse_block_answer_in_options:
  "parse_block raw = Inr q \<Longrightarrow>
   \<forall>x\<in>set (block_kinds raw). \<not> is_options_tag x \<and> \<not> is_answer_tag x \<Longrightarrow> answer_ok q"
  using run_kinds_answer_ok [of qdict_init "block_kinds raw" q]
  by (simp add: parse_block_run_kinds qdict_init_def answer_ok_def)

theorem parse_block_answer_in_options_witness:
  "parse_block ''@option 1\<newline>@@option 2'' =
     Inr (qdict_init\<lparr>options := PList [''1'', ''2''], answer := ''2''\<rparr>) \<and>
   answer_ok (qdict_init\<lparr>options := PList [''1'', ''2''], answer := ''2''\<rparr>)"
proof -
  have e: "parse_block ''@option 1\<newline>@@option 2'' =
     Inr (qdict_init\<lparr>options := PList [''1'', ''2''], answer := ''2''\<rparr>)"
    by code_simp
  have k: "block_kinds ''@option 1\<newline>@@option 2'' = [OptLine False ''1'', OptLine True ''2'']"
    by code_simp
  have h: "\<forall>x\<in>set (block_kinds ''@option 1\<newline>@@option 2''). \<not> is_options_tag x \<and> \<not> is_answer_tag x"
    by (simp add: k)
  from e h parse_block_answer_in_options [OF e h] show ?thesis by simp
qed

text \<open>
  C6. Every option of a parsed block is a non-empty string without line breaks and
  without whitespace at either end.
\<close>

theorem parse_block_option_texts:
  "parse_block raw = Inr q \<Longrightarrow> options q = PList xs \<Longrightarrow>
   \<forall>x\<in>set xs. x \<noteq> [] \<and> py_strip x = x \<and> (\<forall>c\<in>set x. \<not> py_is_linebreak c)"
proof -
  assume e: "parse_block raw = Inr q" and o: "options q = PList xs"
  let ?ls = "py_splitlines (py_strip raw)"
  have "xs = opt_texts (block_kinds raw)"
    using run_kinds_options_list [of qdict_init "block_kinds raw" q xs "[]"] e o
    by (simp add: parse_block_run_kinds qdict_init_def)
  then have xs: "xs = opt_texts (map classify ?ls)" by (simp add: block_kinds_def)
  show ?thesis
  proof
    fix x
    assume "x \<in> set xs"
    then obtain l f where l: "l \<in> set ?ls" and c: "classify l = OptLine f x"
      using xs opt_texts_classify by blast
    have "\<forall>c\<in>set l. \<not> py_is_linebreak c" using l by (rule py_splitlines_lines_no_break)
    with classify_OptLine [OF c] show "x \<noteq> [] \<and> py_strip x = x \<and> (\<forall>c\<in>set x. \<not> py_is_linebreak c)"
      by blast
  qed
qed

theorem parse_block_option_texts_witness:
  "parse_block '' @option  x y \<newline>@option z'' = Inr (qdict_init\<lparr>options := PList [''x y'', ''z'']\<rparr>) \<and>
   options (qdict_init\<lparr>options := PList [''x y'', ''z'']\<rparr>) = PList [''x y'', ''z''] \<and>
   py_strip ''x y'' = ''x y'' \<and> py_strip ''z'' = ''z''"
proof -
  have e: "parse_block '' @option  x y \<newline>@option z'' = Inr (qdict_init\<lparr>options := PList [''x y'', ''z'']\<rparr>)"
    by code_simp
  have o: "options (qdict_init\<lparr>options := PList [''x y'', ''z'']\<rparr>) = PList [''x y'', ''z'']"
    by simp
  have "\<forall>x\<in>set [''x y'', ''z'']. x \<noteq> [] \<and> py_strip x = x \<and> (\<forall>c\<in>set x. \<not> py_is_linebreak c)"
    by (rule parse_block_option_texts [OF e o])
  then have "py_strip ''x y'' = ''x y'' \<and> py_strip ''z'' = ''z''" by simp
  with e o show ?thesis by simp
qed

text \<open>
  C7. Lines the loop ignores (blank lines, lines matching no pattern, tag lines with an
  unknown name) have no effect: removing them from any list of lines leaves the result of
  the loop unchanged, so they never set a field and never cause a failure.
\<close>

theorem parse_lines_ignored_lines:
  "parse_lines q (filter (\<lambda>l. classify l \<noteq> Blank \<and> classify l \<noteq> Ignored) ls) = parse_lines q ls"
proof -
  have "map classify (filter (\<lambda>l. classify l \<noteq> Blank \<and> classify l \<noteq> Ignored) ls) =
        filter (\<lambda>x. x \<noteq> Blank \<and> x \<noteq> Ignored) (map classify ls)"
    by (simp add: filter_map comp_def)
  then show ?thesis by (simp add: parse_lines_run_kinds run_kinds_drop_ignored)
qed

text \<open>
  C8. \<open>parse_tagged_questions\<close> succeeds with a list exactly when that list has one
  record per input block, in the input order, each the parse of its own block (so it is
  length- and order-preserving).
\<close>

theorem parse_tagged_questions_Inr:
  "parse_tagged_questions raws = Inr qs \<longleftrightarrow> list_all2 (\<lambda>r q. parse_block r = Inr q) raws qs"
  by (simp add: parse_tagged_questions_def parse_loop_Inr)

text \<open>
  C9. \<open>parse_tagged_questions\<close> raises an exception exactly when some block fails, and it
  is the exception of the first failing block: one malformed block loses the whole batch.
\<close>

theorem parse_tagged_questions_Inl:
  "parse_tagged_questions raws = Inl e \<longleftrightarrow>
   (\<exists>as r bs. raws = as @ r # bs \<and> (\<forall>a\<in>set as. \<exists>q. parse_block a = Inr q) \<and> parse_block r = Inl e)"
  by (simp add: parse_tagged_questions_def parse_loop_Inl)

theorem parse_tagged_questions_Inl_witness:
  "parse_block ''@options x\<newline>@option y'' = Inl AttributeError \<and>
   parse_tagged_questions [''@title t'', ''@options x\<newline>@option y'', ''@title u''] = Inl AttributeError"
proof -
  have a: "parse_block ''@title t'' = Inr (qdict_init\<lparr>title := ''t''\<rparr>)" by code_simp
  have b: "parse_block ''@options x\<newline>@option y'' = Inl AttributeError" by code_simp
  have "\<exists>as r bs. [''@title t'', ''@options x\<newline>@option y'', ''@title u''] = as @ r # bs \<and>
      (\<forall>a\<in>set as. \<exists>q. parse_block a = Inr q) \<and> parse_block r = Inl AttributeError"
    using a b
    by (intro exI [of _ "[''@title t'']"] exI [of _ "''@options x\<newline>@option y''"]
          exI [of _ "[''@title u'']"]) simp
  with b parse_tagged_questions_Inl show ?thesis by blast
qed





end
