(* ===== verification/ImagePrompts.thy ===== *)
theory ImagePrompts
  imports PyRe "HOL-Library.While_Combinator"
begin

text \<open>
  Image-prompt extraction, \<open>extract_image_prompts\<close> of \<open>src/main.py\<close> (lines
  18--32). For the raw block at 1-based position \<open>idx\<close> it searches
  \<open>^@image\s+(.+)$\<close> with \<open>re.MULTILINE\<close>; on a match the prompt is the stripped group
  and the path \<open>images/question<idx>.png\<close>, otherwise both are \<open>None\<close>. The search
  runs over the raw text, not over the parsed record.
\<close>

section \<open>The search\<close>

text \<open>The pattern tried at one position: the literal \<open>@image\<close>, then \<open>\s+(.+)$\<close>.\<close>

definition image_re_at :: "string \<Rightarrow> string option" where
  "image_re_at s = (if take 6 s = ''@image'' then sre_ws_tail True True (drop 6 s) else None)"

text \<open>
  \<open>re.search\<close>: the first position where the pattern matches. With MULTILINE, \<open>^\<close>
  holds only at the start and right after each \<open>\n\<close>, so those are the positions tried.
\<close>

function image_re_search :: "string \<Rightarrow> string option" where
  "image_re_search s =
    (case image_re_at s of
       Some g \<Rightarrow> Some g
     | None \<Rightarrow>
         (case dropWhile (\<lambda>c. c \<noteq> CHR 0x0A) s of
            [] \<Rightarrow> None
          | c # rest \<Rightarrow> image_re_search rest))"
  by pat_completeness auto
termination
proof (relation "measure length")
  fix s c rest
  assume "dropWhile (\<lambda>c. c \<noteq> CHR 0x0A) s = c # rest"
  then have "length (c # rest) \<le> length s" by (metis length_dropWhile_le)
  then show "(rest, s) \<in> measure length" by simp
qed simp

declare image_re_search.simps [simp del]

text \<open>
  The same scan as a loop, as the \<open>re\<close> engine runs it: while the pattern fails at the
  current position and a line break follows, move to the start of the next line.
\<close>

definition next_line_start :: "string \<Rightarrow> string" where
  "next_line_start s = drop 1 (dropWhile (\<lambda>c. c \<noteq> CHR 0x0A) s)"

definition image_search_loop :: "string \<Rightarrow> string option" where
  "image_search_loop s =
    while_option (\<lambda>t. image_re_at t = None \<and> CHR 0x0A \<in> set t) next_line_start s"

section \<open>The extraction loop\<close>

text \<open>The body of \<open>for idx, raw_q in enumerate(raw_questions, 1)\<close>.\<close>

definition image_entry :: "nat \<Rightarrow> string \<Rightarrow> string option \<times> string option" where
  "image_entry idx raw_q =
    (case image_re_search raw_q of
       Some g \<Rightarrow> (Some (py_strip g), Some (''images/question'' @ py_str_nat idx @ ''.png''))
     | None \<Rightarrow> (None, None))"

fun extract_loop ::
  "(string option \<times> string option) list \<Rightarrow> nat \<Rightarrow> string list \<Rightarrow>
   (string option \<times> string option) list" where
  "extract_loop acc idx [] = acc"
| "extract_loop acc idx (raw_q # raws) = extract_loop (acc @ [image_entry idx raw_q]) (Suc idx) raws"

definition extract_image_prompts :: "string list \<Rightarrow> (string option \<times> string option) list" where
  "extract_image_prompts raw_questions = extract_loop [] 1 raw_questions"

section \<open>Lemmas\<close>

lemma extract_loop_eq: "extract_loop acc idx raws = acc @ map2 image_entry [idx..<idx + length raws] raws"
proof (induction raws arbitrary: acc idx)
  case Nil
  then show ?case by simp
next
  case (Cons r raws)
  have "[idx..<idx + length (r # raws)] = idx # [Suc idx..<Suc idx + length raws]"
    by (simp add: upt_rec)
  with Cons show ?case by simp
qed

lemma image_re_at_no_tag: "take 6 s \<noteq> ''@image'' \<Longrightarrow> image_re_at s = None"
  by (simp add: image_re_at_def)

text \<open>A line that does not start with \<open>@image\<close> is passed over.\<close>

lemma image_re_search_skip:
  assumes "take 6 l \<noteq> ''@image''" and "CHR 0x0A \<notin> set l"
  shows "image_re_search (l @ CHR 0x0A # s) = image_re_search s"
proof -
  have "dropWhile (\<lambda>c. c \<noteq> CHR 0x0A) (l @ CHR 0x0A # s) = CHR 0x0A # s"
    using assms(2) by (induction l) auto
  moreover have "image_re_at (l @ CHR 0x0A # s) = None"
  proof (rule image_re_at_no_tag)
    show "take 6 (l @ CHR 0x0A # s) \<noteq> ''@image''"
    proof
      assume t: "take 6 (l @ CHR 0x0A # s) = ''@image''"
      show False
      proof (cases "length l < 6")
        case True
        then obtain n where "6 - length l = Suc n" by (metis Suc_diff_Suc)
        then have "CHR 0x0A \<in> set (take 6 (l @ CHR 0x0A # s))"
          by (simp add: take_append)
        with t show False by simp
      next
        case False
        with t assms(1) show False by simp
      qed
    qed
  qed
  ultimately show ?thesis by (subst image_re_search.simps) simp
qed

lemma image_re_search_skip_lines:
  "\<forall>l\<in>set ls. take 6 l \<noteq> ''@image'' \<and> CHR 0x0A \<notin> set l \<Longrightarrow>
   image_re_search (concat (map (\<lambda>l. l @ [CHR 0x0A]) ls) @ s) = image_re_search s"
  by (induction ls) (simp_all add: image_re_search_skip)

lemma image_re_search_here:
  assumes w: "w \<noteq> []" "\<forall>c\<in>set w. py_isspace c"
    and p: "p \<noteq> []" "\<not> py_isspace (hd p)" "CHR 0x0A \<notin> set p"
    and e: "e = [] \<or> hd e = CHR 0x0A"
  shows "image_re_search (''@image'' @ w @ p @ e) = Some p"
proof -
  have "image_re_at (''@image'' @ w @ p @ e) = Some p"
    using sre_ws_tail_multiline [OF w p e] by (simp add: image_re_at_def)
  then show ?thesis by (subst image_re_search.simps) simp
qed

lemma image_re_search_last_line:
  "take 6 r \<noteq> ''@image'' \<Longrightarrow> CHR 0x0A \<notin> set r \<Longrightarrow> image_re_search r = None"
proof -
  assume a: "take 6 r \<noteq> ''@image''" "CHR 0x0A \<notin> set r"
  have "dropWhile (\<lambda>c. c \<noteq> CHR 0x0A) r = []" using a(2) by (induction r) auto
  with a(1) show ?thesis
    by (subst image_re_search.simps) (simp add: image_re_at_no_tag del: dropWhile_eq_Nil_conv)
qed

lemma image_path_inj:
  "''images/question'' @ py_str_nat i @ ''.png'' = ''images/question'' @ py_str_nat j @ ''.png'' \<Longrightarrow> i = j"
  by (simp add: py_str_nat_inj)

lemma next_line_start_shorter: "CHR 0x0A \<in> set t \<Longrightarrow> length (next_line_start t) < length t"
proof -
  assume "CHR 0x0A \<in> set t"
  then obtain c rest where "dropWhile (\<lambda>c. c \<noteq> CHR 0x0A) t = c # rest"
    by (cases "dropWhile (\<lambda>c. c \<noteq> CHR 0x0A) t") (auto simp: dropWhile_eq_Nil_conv)
  moreover have "length (dropWhile (\<lambda>c. c \<noteq> CHR 0x0A) t) \<le> length t"
    by (rule length_dropWhile_le)
  ultimately show ?thesis by (simp add: next_line_start_def)
qed

lemma image_search_loop_eq:
  "image_search_loop s = Some t \<Longrightarrow> image_re_at t = image_re_search s"
proof (induction s rule: image_re_search.induct)
  case (1 s)
  let ?b = "\<lambda>t. image_re_at t = None \<and> CHR 0x0A \<in> set t"
  show ?case
  proof (cases "?b s")
    case False
    with "1.prems" have "t = s" by (simp add: image_search_loop_def while_option_unfold [of _ _ s])
    show ?thesis
    proof (cases "image_re_at s")
      case None
      with False have "dropWhile (\<lambda>c. c \<noteq> CHR 0x0A) s = []"
        by (auto simp: dropWhile_eq_Nil_conv)
      with None \<open>t = s\<close> show ?thesis
        by (simp add: image_re_search.simps [of s] del: dropWhile_eq_Nil_conv)
    next
      case (Some g)
      with \<open>t = s\<close> show ?thesis by (simp add: image_re_search.simps [of s])
    qed
  next
    case True
    then obtain c rest where d: "dropWhile (\<lambda>c. c \<noteq> CHR 0x0A) s = c # rest"
      by (cases "dropWhile (\<lambda>c. c \<noteq> CHR 0x0A) s") (auto simp: dropWhile_eq_Nil_conv)
    with True "1.prems" have "image_search_loop rest = Some t"
      by (simp add: image_search_loop_def next_line_start_def while_option_unfold [of _ _ s])
    with "1.IH" True d have "image_re_at t = image_re_search rest" by blast
    with True d show ?thesis by (simp add: image_re_search.simps [of s])
  qed
qed

section \<open>Properties of the extraction\<close>

text \<open>
  C13. \<open>extract_image_prompts\<close> gives one entry per raw block, in order, and the entry of
  the block at 0-based index \<open>i\<close> is computed from that block alone with the position
  \<open>i + 1\<close>.
\<close>

theorem extract_image_prompts_map:
  "extract_image_prompts raws = map2 image_entry [1..<length raws + 1] raws"
  by (simp add: extract_image_prompts_def extract_loop_eq)

text \<open>
  C14. If the first line of a block that starts with \<open>@image\<close> is \<open>@image\<close>, a run
  of whitespace and a prompt (which starts with a non-space and ends the line), the entry
  of the block at position \<open>idx\<close> is that prompt, stripped, and the path
  \<open>images/question<idx>.png\<close>; later lines, other \<open>@image\<close> lines included, do not
  matter.
\<close>

theorem image_entry_found:
  "\<forall>l\<in>set ls. take 6 l \<noteq> ''@image'' \<and> CHR 0x0A \<notin> set l \<Longrightarrow>
   w \<noteq> [] \<Longrightarrow> \<forall>c\<in>set w. py_isspace c \<Longrightarrow>
   p \<noteq> [] \<Longrightarrow> \<not> py_isspace (hd p) \<Longrightarrow> CHR 0x0A \<notin> set p \<Longrightarrow> e = [] \<or> hd e = CHR 0x0A \<Longrightarrow>
   image_entry idx (concat (map (\<lambda>l. l @ [CHR 0x0A]) ls) @ ''@image'' @ w @ p @ e) =
     (Some (py_strip p), Some (''images/question'' @ py_str_nat idx @ ''.png''))"
  by (simp add: image_entry_def image_re_search_skip_lines image_re_search_here del: append.simps)

theorem image_entry_found_witness:
  "image_entry 3 (''@title Circles\<newline>@image draw a red circle'') =
     (Some ''draw a red circle'', Some ''images/question3.png'')"
proof -
  have "image_entry 3 (concat (map (\<lambda>l. l @ [CHR 0x0A]) [''@title Circles'']) @
          ''@image'' @ '' '' @ ''draw a red circle'' @ []) =
        (Some (py_strip ''draw a red circle''), Some (''images/question'' @ py_str_nat 3 @ ''.png''))"
    by (rule image_entry_found) (simp_all add: py_isspace_def)
  moreover have "py_strip ''draw a red circle'' = ''draw a red circle''" by code_simp
  moreover have "py_str_nat 3 = ''3''" by code_simp
  ultimately show ?thesis by simp
qed

text \<open>
  C15. A block none of whose lines starts with \<open>@image\<close> gives the entry
  \<open>(None, None)\<close>: no image is requested for it.
\<close>

theorem image_entry_absent:
  "\<forall>l\<in>set ls. take 6 l \<noteq> ''@image'' \<and> CHR 0x0A \<notin> set l \<Longrightarrow>
   take 6 r \<noteq> ''@image'' \<Longrightarrow> CHR 0x0A \<notin> set r \<Longrightarrow>
   image_entry idx (concat (map (\<lambda>l. l @ [CHR 0x0A]) ls) @ r) = (None, None)"
  by (simp add: image_entry_def image_re_search_skip_lines image_re_search_last_line)

theorem image_entry_absent_witness:
  "image_entry 2 ''@title T\<newline>@picture x'' = (None, None)"
proof -
  have "image_entry 2 (concat (map (\<lambda>l. l @ [CHR 0x0A]) [''@title T'']) @ ''@picture x'') = (None, None)"
    by (rule image_entry_absent) simp_all
  then show ?thesis by simp
qed

text \<open>
  Two entries with a path have the same path only when they come from the same
  position: no two questions write the same image file.
\<close>

theorem image_entry_path_unique:
  "image_entry i r = (a, Some path) \<Longrightarrow> image_entry j r' = (b, Some path) \<Longrightarrow> i = j"
  by (auto simp: image_entry_def image_path_inj split: option.splits)

theorem image_entry_path_unique_witness:
  "image_entry 1 ''@image a'' = (Some ''a'', Some ''images/question1.png'') \<and>
   image_entry 1 ''@image b'' = (Some ''b'', Some ''images/question1.png'') \<and> (1::nat) = 1"
proof -
  have a: "image_entry 1 ''@image a'' = (Some ''a'', Some ''images/question1.png'')" by code_simp
  have b: "image_entry 1 ''@image b'' = (Some ''b'', Some ''images/question1.png'')" by code_simp
  from a b image_entry_path_unique [OF a b] show ?thesis by simp
qed



end
