(* ===== verification/PyJson.thy ===== *)
theory PyJson
  imports Prelude
begin

text \<open>
  JSON values as \<open>json.loads\<close> and \<open>response.json()\<close> return them (dict, list, str,
  int, bool, None), and the Python operations the image client applies to them:
  truthiness, \<open>k in v\<close>, \<open>v["k"]\<close>, \<open>v[0]\<close> and \<open>v.get("k")\<close>, each with the
  exception Python raises where the operation does not apply to the value's type. Numbers
  are modelled by integers (the operations only ask whether a number is zero); an object is
  the association list of its keys, which are distinct.
\<close>

datatype json =
    JNull
  | JBool bool
  | JNum int
  | JStr string
  | JArr "json list"
  | JObj "(string \<times> json) list"

text \<open>\<open>bool(v)\<close>.\<close>

fun py_truthy :: "json \<Rightarrow> bool" where
  "py_truthy JNull = False"
| "py_truthy (JBool b) = b"
| "py_truthy (JNum n) = (n \<noteq> 0)"
| "py_truthy (JStr s) = (s \<noteq> [])"
| "py_truthy (JArr xs) = (xs \<noteq> [])"
| "py_truthy (JObj kvs) = (kvs \<noteq> [])"

text \<open>\<open>k in s\<close> for strings: \<open>k\<close> occurs in \<open>s\<close> as a contiguous substring.\<close>

fun py_substr :: "string \<Rightarrow> string \<Rightarrow> bool" where
  "py_substr k [] = (k = [])"
| "py_substr k (c # s) = (take (length k) (c # s) = k \<or> py_substr k s)"

text \<open>\<open>k in v\<close> for a string \<open>k\<close>: key of a dict, element of a list, substring of a str.\<close>

fun py_contains :: "string \<Rightarrow> json \<Rightarrow> py_exc + bool" where
  "py_contains k (JObj kvs) = Inr (k \<in> set (map fst kvs))"
| "py_contains k (JArr xs) = Inr (JStr k \<in> set xs)"
| "py_contains k (JStr s) = Inr (py_substr k s)"
| "py_contains k _ = Inl TypeError"

text \<open>\<open>v["k"]\<close>: only a dict can be subscripted by a str.\<close>

fun py_getitem_str :: "json \<Rightarrow> string \<Rightarrow> py_exc + json" where
  "py_getitem_str (JObj kvs) k = (case map_of kvs k of Some x \<Rightarrow> Inr x | None \<Rightarrow> Inl KeyError)"
| "py_getitem_str _ k = Inl TypeError"

text \<open>\<open>v[0]\<close>: first element of a list or first character of a str; a dict has no key \<open>0\<close>.\<close>

fun py_getitem_0 :: "json \<Rightarrow> py_exc + json" where
  "py_getitem_0 (JArr xs) = (case xs of x # _ \<Rightarrow> Inr x | [] \<Rightarrow> Inl IndexError)"
| "py_getitem_0 (JStr s) = (case s of c # _ \<Rightarrow> Inr (JStr [c]) | [] \<Rightarrow> Inl IndexError)"
| "py_getitem_0 (JObj kvs) = Inl KeyError"
| "py_getitem_0 _ = Inl TypeError"

text \<open>\<open>v.get("k")\<close>: only dicts have \<open>get\<close>; a missing key gives \<open>None\<close>.\<close>

fun py_get :: "json \<Rightarrow> string \<Rightarrow> py_exc + json" where
  "py_get (JObj kvs) k = Inr (case map_of kvs k of Some x \<Rightarrow> x | None \<Rightarrow> JNull)"
| "py_get _ k = Inl AttributeError"

lemma py_contains_obj_Some: "map_of kvs k = Some x \<Longrightarrow> py_contains k (JObj kvs) = Inr True"
  by (auto dest: map_of_SomeD intro: rev_image_eqI)

end
