(* ===== verification/ImageClient.thy ===== *)
theory ImageClient
  imports PyJson
begin

text \<open>
  The retry-wrapped image client, \<open>create_image\<close> of \<open>src/src/generate_images.py\<close>
  (lines 6--63), with the image size of \<open>src/src/config.py\<close> (line 15).

  The outside world is explicit. The network is a function \<open>env\<close> from the attempt
  number to the outcome of that attempt's \<open>requests.post\<close>: an exception of the
  \<open>requests\<close> library (connection error, timeout) or a response with a status and a
  body, which is JSON or not. \<open>base64.b64decode\<close>, a library function, is the parameter
  \<open>dec\<close> (\<open>None\<close> for \<open>binascii.Error\<close>, a \<open>ValueError\<close>). Whether
  \<open>open(save_path, "wb")\<close> succeeds is the parameter \<open>wr\<close>. The state is a record
  of the files written and the trace of observable events: posts, prints, sleeps, writes.
  Exceptions of the classes the \<open>except\<close> clause names are caught and retried; any other
  leaves \<open>create_image\<close>, which is the result \<open>Inl e\<close>.
\<close>

section \<open>Configuration\<close>

definition IMAGE_SIZE :: string where
  "IMAGE_SIZE = ''512x512''"

text \<open>\<open>str.split('x')\<close>.\<close>

fun py_split :: "char \<Rightarrow> string \<Rightarrow> string list" where
  "py_split c [] = [[]]"
| "py_split c (x # s) =
    (let parts = py_split c s in if x = c then [] # parts else (x # hd parts) # tl parts)"

text \<open>The digits of \<open>int(str)\<close>: decimal digits, single underscores between them.\<close>

fun digits_ok :: "string \<Rightarrow> bool" where
  "digits_ok [] = False"
| "digits_ok (c # r) =
    (is_digit c \<and> (case r of [] \<Rightarrow> True | d # r' \<Rightarrow> if d = CHR ''_'' then digits_ok r' else digits_ok r))"

text \<open>\<open>int(s)\<close> for a str: surrounding whitespace, an optional sign, the digits.\<close>

definition py_int_str :: "string \<Rightarrow> py_exc + int" where
  "py_int_str s =
    (let t = py_strip s;
         (neg, d) = (case t of
                       c # r \<Rightarrow> if c = CHR ''-'' then (True, r)
                               else if c = CHR ''+'' then (False, r) else (False, t)
                     | [] \<Rightarrow> (False, []))
     in if digits_ok d
        then Inr ((if neg then -1 else 1) * int (dec_value (filter (\<lambda>c. c \<noteq> CHR ''_'') d)))
        else Inl ValueError)"

text \<open>\<open>width, height = map(int, IMAGE_SIZE.lower().split('x'))\<close> (line 22).\<close>

definition image_size_parse :: "string \<Rightarrow> py_exc + int \<times> int" where
  "image_size_parse s =
    (case py_split (CHR ''x'') (py_lower s) of
       [a, b] \<Rightarrow>
         (case py_int_str a of
            Inl e \<Rightarrow> Inl e
          | Inr width \<Rightarrow> (case py_int_str b of Inl e \<Rightarrow> Inl e | Inr height \<Rightarrow> Inr (width, height)))
     | _ \<Rightarrow> Inl ValueError)"

section \<open>The world\<close>

text \<open>The outcome of one \<open>requests.post\<close>.\<close>

datatype body = BodyJson json | BodyInvalid

datatype post_outcome = PostRaises | PostResp nat body

text \<open>The request body \<open>json_data\<close>: prompt, width, height.\<close>

record image_request =
  req_prompt :: string
  req_width :: int
  req_height :: int

text \<open>The messages the client prints (lines 54, 58, 60, 63).\<close>

datatype message =
    MSaved string
  | MAttemptFailed int string py_exc
  | MRetrying
  | MAllFailed int string

datatype 'b event =
    EPost image_request
  | EPrint message
  | ESleep nat
  | EWrite string 'b

record 'b world =
  files :: "string \<rightharpoonup> 'b"
  events :: "'b event list"

definition emit :: "'b event \<Rightarrow> 'b world \<Rightarrow> 'b world" where
  "emit ev w = w\<lparr>events := events w @ [ev]\<rparr>"

text \<open>\<open>with open(save_path, "wb") as f: f.write(image_bytes)\<close>.\<close>

definition write_file :: "string \<Rightarrow> 'b \<Rightarrow> 'b world \<Rightarrow> 'b world" where
  "write_file path bs w = w\<lparr>files := (files w)(path \<mapsto> bs), events := events w @ [EWrite path bs]\<rparr>"

section \<open>One attempt\<close>

text \<open>
  Lines 35--49: post, \<open>raise_for_status\<close> (status 400 to 599 raises \<open>HTTPError\<close>),
  \<open>response.json()\<close> (a body that is not JSON raises \<open>JSONDecodeError\<close>, a
  \<open>RequestException\<close>), the checks on \<open>results\<close> and \<open>image\<close>, and the decoding.
\<close>

definition fetch_payload :: "(string \<Rightarrow> 'b option) \<Rightarrow> post_outcome \<Rightarrow> py_exc + 'b" where
  "fetch_payload dec out =
    (case out of
       PostRaises \<Rightarrow> Inl RequestException
     | PostResp status bdy \<Rightarrow>
         if 400 \<le> status \<and> status < 600 then Inl RequestException
         else
           (case bdy of
              BodyInvalid \<Rightarrow> Inl RequestException
            | BodyJson data \<Rightarrow>
                (case py_contains ''results'' data of
                   Inl e \<Rightarrow> Inl e
                 | Inr has_results \<Rightarrow>
                     if \<not> has_results then Inl ValueError
                     else
                       (case py_getitem_str data ''results'' of
                          Inl e \<Rightarrow> Inl e
                        | Inr results \<Rightarrow>
                            if \<not> py_truthy results then Inl ValueError
                            else
                              (case py_getitem_0 results of
                                 Inl e \<Rightarrow> Inl e
                               | Inr r0 \<Rightarrow>
                                   (case py_get r0 ''image'' of
                                      Inl e \<Rightarrow> Inl e
                                    | Inr image_info \<Rightarrow>
                                        if \<not> py_truthy image_info then Inl ValueError
                                        else
                                          (case py_contains ''imageBytes'' image_info of
                                             Inl e \<Rightarrow> Inl e
                                           | Inr has_bytes \<Rightarrow>
                                               if \<not> has_bytes then Inl ValueError
                                               else
                                                 (case py_getitem_str image_info ''imageBytes'' of
                                                    Inl e \<Rightarrow> Inl e
                                                  | Inr (JStr b64_image) \<Rightarrow>
                                                      (case dec b64_image of
                                                         None \<Rightarrow> Inl ValueError
                                                       | Some image_bytes \<Rightarrow> Inr image_bytes)
                                                  | Inr _ \<Rightarrow> Inl TypeError))))))))"

text \<open>\<open>except (requests.exceptions.RequestException, ValueError)\<close> (line 57).\<close>

definition caught :: "py_exc \<Rightarrow> bool" where
  "caught e \<longleftrightarrow> e = RequestException \<or> e = ValueError"

section \<open>The retry loop\<close>

text \<open>\<open>for attempt in range(1, max_retries + 1)\<close> (lines 33--63), over the attempt numbers.\<close>

fun retry_loop ::
  "(string \<Rightarrow> 'b option) \<Rightarrow> (int \<Rightarrow> post_outcome) \<Rightarrow> (string \<Rightarrow> bool) \<Rightarrow> image_request \<Rightarrow>
   string \<Rightarrow> int \<Rightarrow> int list \<Rightarrow> 'b world \<Rightarrow> (py_exc + unit) \<times> 'b world" where
  "retry_loop dec env wr req save_path max_retries [] w = (Inr (), w)"
| "retry_loop dec env wr req save_path max_retries (attempt # rest) w =
    (let w1 = emit (EPost req) w
     in case fetch_payload dec (env attempt) of
          Inr image_bytes \<Rightarrow>
            if wr save_path
            then (Inr (), emit (EPrint (MSaved save_path)) (write_file save_path image_bytes w1))
            else (Inl OSError, w1)
        | Inl e \<Rightarrow>
            if caught e
            then
              (let w2 = emit (EPrint (MAttemptFailed attempt save_path e)) w1
               in if attempt < max_retries
                  then retry_loop dec env wr req save_path max_retries rest
                         (emit (ESleep 2) (emit (EPrint MRetrying) w2))
                  else retry_loop dec env wr req save_path max_retries rest
                         (emit (EPrint (MAllFailed max_retries save_path)) w2))
            else (Inl e, w1))"

text \<open>\<open>create_image(prompt, save_path, max_retries)\<close>; \<open>timeout\<close> only shapes \<open>env\<close>.\<close>

definition create_image ::
  "(string \<Rightarrow> 'b option) \<Rightarrow> (int \<Rightarrow> post_outcome) \<Rightarrow> (string \<Rightarrow> bool) \<Rightarrow>
   string \<Rightarrow> string \<Rightarrow> int \<Rightarrow> 'b world \<Rightarrow> (py_exc + unit) \<times> 'b world" where
  "create_image dec env wr prompt save_path max_retries w =
    (case image_size_parse IMAGE_SIZE of
       Inl e \<Rightarrow> (Inl e, w)
     | Inr (width, height) \<Rightarrow>
         retry_loop dec env wr \<lparr>req_prompt = prompt, req_width = width, req_height = height\<rparr>
           save_path max_retries [1..max_retries] w)"

section \<open>Observations on a trace\<close>

fun is_post :: "'b event \<Rightarrow> bool" where
  "is_post (EPost r) = True"
| "is_post _ = False"

fun is_sleep :: "'b event \<Rightarrow> bool" where
  "is_sleep (ESleep n) = True"
| "is_sleep _ = False"

fun is_write :: "'b event \<Rightarrow> bool" where
  "is_write (EWrite p b) = True"
| "is_write _ = False"

text \<open>An attempt whose outcome ends in an exception the loop catches.\<close>

definition fails_caught :: "(string \<Rightarrow> 'b option) \<Rightarrow> post_outcome \<Rightarrow> bool" where
  "fails_caught dec out \<longleftrightarrow> (case fetch_payload dec out of Inl e \<Rightarrow> caught e | Inr _ \<Rightarrow> False)"

text \<open>An attempt that succeeds or fails with an exception the loop catches.\<close>

definition attempt_ok :: "(string \<Rightarrow> 'b option) \<Rightarrow> post_outcome \<Rightarrow> bool" where
  "attempt_ok dec out \<longleftrightarrow> (case fetch_payload dec out of Inl e \<Rightarrow> caught e | Inr _ \<Rightarrow> True)"

text \<open>The events of one attempt that fails with a caught exception \<open>e\<close>.\<close>

definition fail_events :: "image_request \<Rightarrow> string \<Rightarrow> int \<Rightarrow> int \<Rightarrow> py_exc \<Rightarrow> 'b event list" where
  "fail_events req path m attempt e =
    [EPost req, EPrint (MAttemptFailed attempt path e)] @
    (if attempt < m then [EPrint MRetrying, ESleep 2] else [EPrint (MAllFailed m path)])"

section \<open>An abstract specification of the client\<close>

text \<open>
  What one attempt amounts to, read off its outcome: the image saved, an exception the loop
  catches and retries, or an exception that leaves \<open>create_image\<close> (the file that cannot
  be opened gives \<open>OSError\<close>).
\<close>

datatype 'b attempt = ASaved 'b | ACaught py_exc | ARaised py_exc

definition classify_attempt :: "(string \<Rightarrow> 'b option) \<Rightarrow> (string \<Rightarrow> bool) \<Rightarrow> string \<Rightarrow> post_outcome \<Rightarrow> 'b attempt" where
  "classify_attempt dec wr path out =
    (case fetch_payload dec out of
       Inr b \<Rightarrow> if wr path then ASaved b else ARaised OSError
     | Inl e \<Rightarrow> if caught e then ACaught e else ARaised e)"

text \<open>
  The contract of a retry loop over a sequence of attempts: the first attempt that is not a
  caught failure decides the result and the bytes written; the number of requests is the
  number of attempts up to it.
\<close>

fun spec_fetch :: "'b attempt list \<Rightarrow> (py_exc + unit) \<times> 'b option \<times> nat" where
  "spec_fetch [] = (Inr (), None, 0)"
| "spec_fetch (ASaved b # as) = (Inr (), Some b, 1)"
| "spec_fetch (ARaised e # as) = (Inl e, None, 1)"
| "spec_fetch (ACaught e # as) = (case spec_fetch as of (r, wb, n) \<Rightarrow> (r, wb, Suc n))"

text \<open>The abstraction of a run: its result, the bytes of its first write, its number of posts.\<close>

definition attempt_summary :: "(py_exc + unit) \<Rightarrow> 'b event list \<Rightarrow> (py_exc + unit) \<times> 'b option \<times> nat" where
  "attempt_summary r evs =
    (r, (case filter is_write evs of EWrite p b # _ \<Rightarrow> Some b | _ \<Rightarrow> None), length (filter is_post evs))"

definition client_abs :: "'b world \<Rightarrow> (py_exc + unit) \<times> 'b world \<Rightarrow> (py_exc + unit) \<times> 'b option \<times> nat" where
  "client_abs w res = (case res of (r, w') \<Rightarrow> attempt_summary r (drop (length (events w)) (events w')))"

section \<open>Lemmas\<close>

lemma image_size_parse_IMAGE_SIZE [simp]: "image_size_parse IMAGE_SIZE = Inr (512, 512)"
  by code_simp

lemma create_image_loop:
  "create_image dec env wr prompt save_path m w =
   retry_loop dec env wr \<lparr>req_prompt = prompt, req_width = 512, req_height = 512\<rparr> save_path m [1..m] w"
  by (simp add: create_image_def)

lemma fails_caught_E:
  "fails_caught dec out \<Longrightarrow> \<exists>e. fetch_payload dec out = Inl e \<and> caught e"
  by (auto simp: fails_caught_def split: sum.splits)

lemma fail_events_counts [simp]:
  "length (filter is_post (fail_events req path m a e)) = 1"
  "length (filter is_sleep (fail_events req path m a e)) = (if a < m then 1 else 0)"
  "filter is_write (fail_events req path m a e) = []"
  "ev \<in> set (fail_events req path m a e) \<Longrightarrow> is_post ev \<Longrightarrow> ev = EPost req"
  "fail_events req path m a e \<noteq> []"
  by (auto simp: fail_events_def split: if_splits)

text \<open>A caught failure adds its events and goes on with the next attempt.\<close>

lemma retry_loop_caught:
  "fetch_payload dec (env x) = Inl e \<Longrightarrow> caught e \<Longrightarrow>
   retry_loop dec env wr req path m (x # xs) w =
   retry_loop dec env wr req path m xs (w\<lparr>events := events w @ fail_events req path m x e\<rparr>)"
  by (cases "x < m") (simp_all add: Let_def emit_def fail_events_def)

lemmas world_simps = emit_def write_file_def

text \<open>When no attempt raises an uncaught exception and the file can be opened, the loop returns normally.\<close>

lemma retry_loop_Inr:
  "\<forall>a\<in>set xs. attempt_ok dec (env a) \<Longrightarrow> wr path \<Longrightarrow>
   \<exists>w'. retry_loop dec env wr req path m xs w = (Inr (), w')"
proof (induction xs arbitrary: w)
  case Nil
  then show ?case by simp
next
  case (Cons x xs)
  show ?case
  proof (cases "fetch_payload dec (env x)")
    case (Inl e)
    with Cons.prems have "caught e" by (simp add: attempt_ok_def)
    with Inl Cons show ?thesis by (simp add: retry_loop_caught del: retry_loop.simps)
  next
    case (Inr b)
    with Cons.prems show ?thesis by (simp add: Let_def)
  qed
qed

lemma create_image_Inr:
  "\<forall>a. attempt_ok dec (env a) \<Longrightarrow> wr path \<Longrightarrow>
   \<exists>w'. create_image dec env wr prompt path m w = (Inr (), w')"
  by (simp add: create_image_loop retry_loop_Inr del: retry_loop.simps)

text \<open>Attempts that all fail with caught exceptions: only events are added.\<close>

lemma retry_loop_all_fail:
  "\<forall>a\<in>set xs. fails_caught dec (env a) \<Longrightarrow>
   \<exists>evs w'. retry_loop dec env wr req path m xs w = (Inr (), w') \<and>
     files w' = files w \<and> events w' = events w @ evs \<and>
     length (filter is_post evs) = length xs \<and>
     length (filter is_sleep evs) = length (filter (\<lambda>a. a < m) xs) \<and>
     filter is_write evs = [] \<and>
     (xs \<noteq> [] \<longrightarrow> \<not> last xs < m \<longrightarrow> last evs = EPrint (MAllFailed m path))"
proof (induction xs arbitrary: w)
  case Nil
  then show ?case by simp
next
  case (Cons x xs)
  obtain e where e: "fetch_payload dec (env x) = Inl e" "caught e"
    using Cons.prems fails_caught_E by fastforce
  let ?pre = "fail_events req path m x e"
  have pr: "\<forall>a\<in>set xs. fails_caught dec (env a)" using Cons.prems by simp
  obtain evs w' where ih:
    "retry_loop dec env wr req path m xs (w\<lparr>events := events w @ ?pre\<rparr>) = (Inr (), w')"
    "files w' = files w" "events w' = events w @ ?pre @ evs"
    "length (filter is_post evs) = length xs"
    "length (filter is_sleep evs) = length (filter (\<lambda>a. a < m) xs)" "filter is_write evs = []"
    "xs \<noteq> [] \<longrightarrow> \<not> last xs < m \<longrightarrow> last evs = EPrint (MAllFailed m path)"
    using Cons.IH [OF pr, of "w\<lparr>events := events w @ ?pre\<rparr>"] by auto
  have lst: "\<not> last (x # xs) < m \<longrightarrow> last (?pre @ evs) = EPrint (MAllFailed m path)"
  proof (cases xs)
    case Nil
    then have "evs = []" using ih(1,3) by force
    with Nil show ?thesis by (simp add: fail_events_def)
  next
    case (Cons y ys)
    then have "evs \<noteq> []" using ih(4) by auto
    with Cons ih(7) show ?thesis by simp
  qed
  show ?case
    using ih lst by (intro exI [of _ "?pre @ evs"] exI [of _ w'])
      (simp add: retry_loop_caught [of dec env x e, OF e] del: retry_loop.simps)
qed

text \<open>Caught failures, then a successful attempt whose file can be written.\<close>

lemma retry_loop_success:
  "\<forall>a\<in>set xs. fails_caught dec (env a) \<Longrightarrow> fetch_payload dec (env k) = Inr b \<Longrightarrow> wr path \<Longrightarrow>
   \<exists>evs w'. retry_loop dec env wr req path m (xs @ k # ys) w = (Inr (), w') \<and>
     files w' = (files w)(path \<mapsto> b) \<and> events w' = events w @ evs \<and>
     length (filter is_post evs) = Suc (length xs) \<and>
     length (filter is_sleep evs) = length (filter (\<lambda>a. a < m) xs) \<and>
     filter is_write evs = [EWrite path b] \<and> last evs = EPrint (MSaved path)"
proof (induction xs arbitrary: w)
  case Nil
  let ?evs = "[EPost req, EWrite path b, EPrint (MSaved path)]"
  have "retry_loop dec env wr req path m (k # ys) w =
        (Inr (), emit (EPrint (MSaved path)) (write_file path b (emit (EPost req) w)))"
    using Nil by simp
  then show ?case
    by (intro exI [of _ ?evs] exI [of _ "emit (EPrint (MSaved path)) (write_file path b (emit (EPost req) w))"])
      (simp add: world_simps del: retry_loop.simps)
next
  case (Cons x xs)
  obtain e where e: "fetch_payload dec (env x) = Inl e" "caught e"
    using Cons.prems fails_caught_E by fastforce
  let ?pre = "fail_events req path m x e"
  have pr: "\<forall>a\<in>set xs. fails_caught dec (env a)" using Cons.prems by simp
  obtain evs w' where ih:
    "retry_loop dec env wr req path m (xs @ k # ys) (w\<lparr>events := events w @ ?pre\<rparr>) = (Inr (), w')"
    "files w' = (files w)(path \<mapsto> b)" "events w' = events w @ ?pre @ evs"
    "length (filter is_post evs) = Suc (length xs)"
    "length (filter is_sleep evs) = length (filter (\<lambda>a. a < m) xs)"
    "filter is_write evs = [EWrite path b]" "last evs = EPrint (MSaved path)"
    using Cons.IH [OF pr Cons.prems(2,3), of "w\<lparr>events := events w @ ?pre\<rparr>"]
    by (auto simp: fun_upd_def)
  moreover have "evs \<noteq> []" using ih(6) by auto
  ultimately show ?case
    by (intro exI [of _ "?pre @ evs"] exI [of _ w'])
      (simp add: retry_loop_caught [of dec env x e, OF e] del: retry_loop.simps)
qed

text \<open>What any run of the loop can do, whatever the network answers.\<close>

lemma retry_loop_bounds:
  "retry_loop dec env wr req path m xs w = (r, w') \<Longrightarrow>
   \<exists>evs. events w' = events w @ evs \<and>
     length (filter is_post evs) \<le> length xs \<and>
     length (filter is_write evs) \<le> 1 \<and>
     (\<forall>ev\<in>set evs. is_post ev \<longrightarrow> ev = EPost req) \<and>
     (\<forall>p. p \<noteq> path \<longrightarrow> files w' p = files w p) \<and>
     (xs \<noteq> [] \<longrightarrow> \<not> last xs < m \<longrightarrow> length (filter is_sleep evs) < length (filter is_post evs))"
proof (induction xs arbitrary: w)
  case Nil
  then show ?case by simp
next
  case (Cons x xs)
  show ?case
  proof (cases "fetch_payload dec (env x)")
    case (Inr b)
    show ?thesis
    proof (cases "wr path")
      case True
      with Inr Cons.prems have "w' = w\<lparr>files := (files w)(path \<mapsto> b),
          events := events w @ [EPost req, EWrite path b, EPrint (MSaved path)]\<rparr>"
        by (simp add: world_simps)
      then show ?thesis
        by (intro exI [of _ "[EPost req, EWrite path b, EPrint (MSaved path)]"]) simp
    next
      case False
      with Inr Cons.prems have "w' = w\<lparr>events := events w @ [EPost req]\<rparr>"
        by (simp add: world_simps)
      then show ?thesis by (intro exI [of _ "[EPost req]"]) simp
    qed
  next
    case (Inl e)
    show ?thesis
    proof (cases "caught e")
      case False
      with Inl Cons.prems have "w' = w\<lparr>events := events w @ [EPost req]\<rparr>"
        by (simp add: world_simps)
      then show ?thesis by (intro exI [of _ "[EPost req]"]) simp
    next
      case True
      let ?pre = "fail_events req path m x e"
      have r: "retry_loop dec env wr req path m xs (w\<lparr>events := events w @ ?pre\<rparr>) = (r, w')"
        using Cons.prems retry_loop_caught [of dec env x e, OF Inl True] by simp
      from Cons.IH [OF r] obtain evs where ih: "events w' = events w @ ?pre @ evs"
        "length (filter is_post evs) \<le> length xs" "length (filter is_write evs) \<le> 1"
        "\<forall>ev\<in>set evs. is_post ev \<longrightarrow> ev = EPost req" "\<forall>p. p \<noteq> path \<longrightarrow> files w' p = files w p"
        "xs \<noteq> [] \<longrightarrow> \<not> last xs < m \<longrightarrow> length (filter is_sleep evs) < length (filter is_post evs)"
        by auto
      have last: "\<not> last (x # xs) < m \<longrightarrow>
          length (filter is_sleep (?pre @ evs)) < length (filter is_post (?pre @ evs))"
      proof (cases xs)
        case Nil
        with r have "w' = w\<lparr>events := events w @ ?pre\<rparr>" by simp
        with ih(1) have "evs = []" by simp
        with Nil show ?thesis by simp
      next
        case (Cons y ys)
        then show ?thesis using ih(6) by (cases "x < m") auto
      qed
      show ?thesis
        using ih(1-5) last by (intro exI [of _ "?pre @ evs"]) auto
    qed
  qed
qed

lemma filter_less_upto: "length (filter (\<lambda>a. a < m) [1..m]) = nat (m - 1)"
proof (cases "1 \<le> m")
  case True
  then have "[1..m] = [1..m - 1] @ [m]" by (rule upto_rec2)
  moreover have "filter (\<lambda>a. a < m) [1..m - 1] = [1..m - 1]" by (simp add: filter_id_conv)
  ultimately show ?thesis by simp
next
  case False
  then show ?thesis by simp
qed

lemma last_upto: "1 \<le> m \<Longrightarrow> last [1..m] = m"
  by (simp add: upto_rec2)

section \<open>Properties of the client\<close>

text \<open>
  C18. If the first \<open>k - 1\<close> attempts fail with exceptions the loop catches and attempt
  \<open>k \<le> max_retries\<close> returns a decodable image whose file can be opened, then
  \<open>create_image\<close> returns normally having posted \<open>k\<close> times, slept \<open>k - 1\<close> times (not
  after the success), written exactly that one file, and printed the success last.
\<close>

theorem create_image_retry_success:
  "1 \<le> k \<Longrightarrow> k \<le> m \<Longrightarrow> \<forall>a\<in>set [1..k - 1]. fails_caught dec (env a) \<Longrightarrow>
   fetch_payload dec (env k) = Inr b \<Longrightarrow> wr path \<Longrightarrow>
   \<exists>evs w'. create_image dec env wr prompt path m w = (Inr (), w') \<and>
     files w' = (files w)(path \<mapsto> b) \<and> events w' = events w @ evs \<and>
     length (filter is_post evs) = nat k \<and> length (filter is_sleep evs) = nat (k - 1) \<and>
     filter is_write evs = [EWrite path b] \<and> last evs = EPrint (MSaved path)"
proof -
  assume k: "1 \<le> k" "k \<le> m" and f: "\<forall>a\<in>set [1..k - 1]. fails_caught dec (env a)"
    and s: "fetch_payload dec (env k) = Inr b" and wr: "wr path"
  have split: "[1..m] = [1..k - 1] @ k # [k + 1..m]" using k by (rule upto_split3)
  have sl: "filter (\<lambda>a. a < m) [1..k - 1] = [1..k - 1]" using k by (simp add: filter_id_conv)
  have "Suc (nat (k - 1)) = nat k" using k by simp
  with retry_loop_success [where xs = "[1..k - 1]" and dec = dec and env = env and k = k
      and b = b and wr = wr and path = path, OF f s wr, of "\<lparr>req_prompt = prompt, req_width = 512, req_height = 512\<rparr>" m "[k + 1..m]" w]
  show ?thesis by (simp add: create_image_loop split sl del: retry_loop.simps)
qed

theorem create_image_retry_success_witness:
  "\<exists>evs w'. create_image (\<lambda>s. Some s)
       (\<lambda>a. if a < 3 then PostRaises
            else PostResp 200 (BodyJson (JObj [(''results'', JArr [JObj [(''image'', JObj [(''imageBytes'', JStr ''iVBO'')])]])])))
       (\<lambda>_. True) ''a red circle'' ''images/question3.png'' 3 \<lparr>files = Map.empty, events = []\<rparr> = (Inr (), w') \<and>
     files w' = [''images/question3.png'' \<mapsto> ''iVBO''] \<and> events w' = evs \<and>
     length (filter is_post evs) = 3 \<and> length (filter is_sleep evs) = 2 \<and>
     filter is_write evs = [EWrite ''images/question3.png'' ''iVBO''] \<and>
     last evs = EPrint (MSaved ''images/question3.png'')"
proof -
  let ?env = "\<lambda>a::int. if a < 3 then PostRaises
            else PostResp 200 (BodyJson (JObj [(''results'', JArr [JObj [(''image'', JObj [(''imageBytes'', JStr ''iVBO'')])]])]))"
  have f: "\<forall>a\<in>set [1..3 - 1]. fails_caught (\<lambda>s. Some s) (?env a)"
    by (simp add: fails_caught_def fetch_payload_def caught_def)
  have s: "fetch_payload (\<lambda>s. Some s) (?env 3) = Inr ''iVBO''"
    by (simp add: fetch_payload_def)
  from create_image_retry_success [of 3 3 "\<lambda>s. Some s" ?env, OF _ _ f s, of "\<lambda>_. True"
      "''images/question3.png''" "''a red circle''" "\<lparr>files = Map.empty, events = []\<rparr>"]
  show ?thesis by simp
qed

text \<open>
  C19. If all \<open>max_retries\<close> attempts fail with caught exceptions, \<open>create_image\<close>
  returns normally (the same value as on success), writes no file, has posted
  \<open>max_retries\<close> times and slept \<open>max_retries - 1\<close> times, and its last print says
  that all attempts failed.
\<close>

theorem create_image_exhausted:
  "\<forall>a\<in>set [1..m]. fails_caught dec (env a) \<Longrightarrow>
   \<exists>evs w'. create_image dec env wr prompt path m w = (Inr (), w') \<and>
     files w' = files w \<and> events w' = events w @ evs \<and>
     length (filter is_post evs) = nat m \<and> length (filter is_sleep evs) = nat (m - 1) \<and>
     filter is_write evs = [] \<and> (1 \<le> m \<longrightarrow> last evs = EPrint (MAllFailed m path))"
proof -
  assume f: "\<forall>a\<in>set [1..m]. fails_caught dec (env a)"
  from retry_loop_all_fail [OF f, of wr "\<lparr>req_prompt = prompt, req_width = 512, req_height = 512\<rparr>" path m w]
  show ?thesis by (auto simp: create_image_loop filter_less_upto last_upto)
qed

theorem create_image_exhausted_witness:
  "\<exists>evs w'. create_image (\<lambda>s. Some s) (\<lambda>a. PostResp 503 BodyInvalid) (\<lambda>_. True)
       ''a red circle'' ''images/question3.png'' 3 \<lparr>files = Map.empty, events = []\<rparr> = (Inr (), w') \<and>
     files w' = Map.empty \<and> events w' = evs \<and>
     length (filter is_post evs) = 3 \<and> length (filter is_sleep evs) = 2 \<and>
     filter is_write evs = [] \<and> last evs = EPrint (MAllFailed 3 ''images/question3.png'')"
proof -
  have f: "\<forall>a\<in>set [1..3]. fails_caught (\<lambda>s. Some s) ((\<lambda>a::int. PostResp 503 BodyInvalid) a)"
    by (simp add: fails_caught_def fetch_payload_def caught_def)
  from create_image_exhausted [OF f, of "\<lambda>_. True" "''a red circle''" "''images/question3.png''"
      "\<lparr>files = Map.empty, events = []\<rparr>"]
  show ?thesis by simp
qed

text \<open>
  C20. Whatever the network answers, \<open>create_image\<close> posts at most \<open>max_retries\<close>
  times, always the given prompt at 512 by 512, writes at most one file and no file but
  \<open>save_path\<close>, and sleeps fewer times than it posts: never after the last attempt.
\<close>

theorem create_image_bounds:
  "create_image dec env wr prompt path m w = (r, w') \<Longrightarrow>
   \<exists>evs. events w' = events w @ evs \<and>
     length (filter is_post evs) \<le> nat m \<and> length (filter is_write evs) \<le> 1 \<and>
     (\<forall>ev\<in>set evs. is_post ev \<longrightarrow> ev = EPost \<lparr>req_prompt = prompt, req_width = 512, req_height = 512\<rparr>) \<and>
     (\<forall>p. p \<noteq> path \<longrightarrow> files w' p = files w p) \<and>
     (1 \<le> m \<longrightarrow> length (filter is_sleep evs) < length (filter is_post evs))"
proof -
  assume "create_image dec env wr prompt path m w = (r, w')"
  then have "retry_loop dec env wr \<lparr>req_prompt = prompt, req_width = 512, req_height = 512\<rparr>
               path m [1..m] w = (r, w')"
    by (simp add: create_image_loop del: retry_loop.simps)
  from retry_loop_bounds [OF this] show ?thesis
    by (auto simp: last_upto)
qed

theorem create_image_bounds_witness:
  "create_image (\<lambda>s. Some s) (\<lambda>a. PostRaises) (\<lambda>_. True) ''p'' ''q'' 2 \<lparr>files = Map.empty, events = []\<rparr> =
     (Inr (), \<lparr>files = Map.empty, events = [EPost \<lparr>req_prompt = ''p'', req_width = 512, req_height = 512\<rparr>,
        EPrint (MAttemptFailed 1 ''q'' RequestException), EPrint MRetrying, ESleep 2,
        EPost \<lparr>req_prompt = ''p'', req_width = 512, req_height = 512\<rparr>,
        EPrint (MAttemptFailed 2 ''q'' RequestException), EPrint (MAllFailed 2 ''q'')]\<rparr>) \<and>
   length (filter is_sleep [ESleep 2 :: string event]) < length (filter is_post
     [EPost \<lparr>req_prompt = ''p'', req_width = 512, req_height = 512\<rparr>, EPost \<lparr>req_prompt = ''p'', req_width = 512, req_height = 512\<rparr> :: string event])"
proof -
  have e: "create_image (\<lambda>s. Some s) (\<lambda>a. PostRaises) (\<lambda>_. True) ''p'' ''q'' 2 \<lparr>files = Map.empty, events = []\<rparr> =
     (Inr (), \<lparr>files = Map.empty, events = [EPost \<lparr>req_prompt = ''p'', req_width = 512, req_height = 512\<rparr>,
        EPrint (MAttemptFailed 1 ''q'' RequestException), EPrint MRetrying, ESleep 2,
        EPost \<lparr>req_prompt = ''p'', req_width = 512, req_height = 512\<rparr>,
        EPrint (MAttemptFailed 2 ''q'' RequestException), EPrint (MAllFailed 2 ''q'')]\<rparr>)"
    by (simp add: create_image_loop upto.simps fetch_payload_def caught_def emit_def Let_def)
  from create_image_bounds [OF e] e show ?thesis by simp
qed

text \<open>
  C21. An exception outside the caught classes leaves \<open>create_image\<close> at the first
  attempt that raises it, after one post, with no retry, no message and no file, although
  the spec says all failures are caught. The witness is a response whose \<open>results\<close>
  list holds a number, so that \<open>.get\<close> raises \<open>AttributeError\<close>.
\<close>

theorem create_image_uncaught:
  "1 \<le> m \<Longrightarrow> fetch_payload dec (env 1) = Inl e \<Longrightarrow> \<not> caught e \<Longrightarrow>
   create_image dec env wr prompt path m w =
     (Inl e, w\<lparr>events := events w @ [EPost \<lparr>req_prompt = prompt, req_width = 512, req_height = 512\<rparr>]\<rparr>)"
proof -
  assume m: "1 \<le> m" and f: "fetch_payload dec (env 1) = Inl e" and c: "\<not> caught e"
  from m have "[1..m] = 1 # [2..m]" by (simp add: upto_rec1)
  with f c show ?thesis by (simp add: create_image_loop emit_def)
qed

theorem create_image_uncaught_witness:
  "create_image (\<lambda>s. Some s) (\<lambda>a. PostResp 200 (BodyJson (JObj [(''results'', JArr [JNum 42])])))
     (\<lambda>_. True) ''p'' ''q'' 3 \<lparr>files = Map.empty, events = []\<rparr> =
   (Inl AttributeError, \<lparr>files = Map.empty, events = [EPost \<lparr>req_prompt = ''p'', req_width = 512, req_height = 512\<rparr>]\<rparr>)"
proof -
  have f: "fetch_payload (\<lambda>s. Some s) ((\<lambda>a::int. PostResp 200 (BodyJson (JObj [(''results'', JArr [JNum 42])]))) 1)
      = Inl AttributeError"
    by (simp add: fetch_payload_def)
  from create_image_uncaught [OF _ f, of 3 "\<lambda>_. True" "''p''" "''q''" "\<lparr>files = Map.empty, events = []\<rparr>"]
  show ?thesis by (simp add: caught_def)
qed

text \<open>
  C22. With \<open>max_retries \<le> 0\<close> the loop body never runs: \<open>create_image\<close> returns at
  once, without request, file or message, so the skipped image is not reported.
\<close>

theorem create_image_no_attempts:
  "m \<le> 0 \<Longrightarrow> create_image dec env wr prompt path m w = (Inr (), w)"
  by (simp add: create_image_loop)

theorem create_image_no_attempts_witness:
  "(0::int) \<le> 0 \<and> create_image (\<lambda>s. Some s) (\<lambda>a. PostRaises) (\<lambda>_. True) ''p'' ''q'' 0
     \<lparr>files = Map.empty, events = []\<rparr> = (Inr (), \<lparr>files = Map.empty, events = []\<rparr>)"
  using create_image_no_attempts [of 0] by simp

section \<open>Refinement of the abstract specification\<close>

lemma retry_loop_refines:
  "\<exists>evs. events (snd (retry_loop dec env wr req path m xs w)) = events w @ evs \<and>
     attempt_summary (fst (retry_loop dec env wr req path m xs w)) evs =
       spec_fetch (map (\<lambda>a. classify_attempt dec wr path (env a)) xs)"
proof (induction xs arbitrary: w)
  case Nil
  show ?case by (simp add: attempt_summary_def)
next
  case (Cons x xs)
  show ?case
  proof (cases "fetch_payload dec (env x)")
    case (Inl e)
    show ?thesis
    proof (cases "caught e")
      case True
      let ?w2 = "w\<lparr>events := events w @ fail_events req path m x e\<rparr>"
      from Cons.IH [of ?w2] obtain evs where
        e: "events (snd (retry_loop dec env wr req path m xs ?w2)) = events ?w2 @ evs"
          "attempt_summary (fst (retry_loop dec env wr req path m xs ?w2)) evs =
             spec_fetch (map (\<lambda>a. classify_attempt dec wr path (env a)) xs)"
        by blast
      have "filter is_write (fail_events req path m x e) = []"
           "length (filter is_post (fail_events req path m x e)) = 1" by simp_all
      with e Inl True show ?thesis
        by (auto simp: retry_loop_caught classify_attempt_def attempt_summary_def
            simp del: retry_loop.simps split: prod.splits list.splits)
    next
      case False
      with Inl show ?thesis
        by (simp add: classify_attempt_def attempt_summary_def emit_def Let_def)
    qed
  next
    case (Inr b)
    then show ?thesis
      by (simp add: classify_attempt_def attempt_summary_def world_simps Let_def)
  qed
qed

text \<open>A loop with at least one attempt posts the request.\<close>

lemma retry_loop_posts:
  "xs \<noteq> [] \<Longrightarrow> EPost req \<in> set (events (snd (retry_loop dec env wr req path m xs w)))"
proof -
  assume "xs \<noteq> []"
  then obtain x xs' where xs: "xs = x # xs'" by (cases xs) auto
  show ?thesis
  proof (cases "fetch_payload dec (env x)")
    case (Inl e)
    show ?thesis
    proof (cases "caught e")
      case True
      let ?w2 = "w\<lparr>events := events w @ fail_events req path m x e\<rparr>"
      obtain evs where "events (snd (retry_loop dec env wr req path m xs' ?w2)) = events ?w2 @ evs"
        using retry_loop_refines by blast
      with xs Inl True show ?thesis
        by (simp add: retry_loop_caught fail_events_def del: retry_loop.simps)
    next
      case False
      with xs Inl show ?thesis by (simp add: emit_def Let_def)
    qed
  next
    case (Inr b)
    with xs show ?thesis by (simp add: world_simps Let_def)
  qed
qed

text \<open>
  C23. Refinement: the concrete client implements the abstract contract. Abstracting a run of
  \<open>create_image\<close> to its result, the bytes it wrote and its number of posts gives exactly
  \<^const>\<open>spec_fetch\<close> of the classified outcomes of attempts \<open>1 .. max_retries\<close>.
\<close>

theorem create_image_refines_spec:
  "client_abs w (create_image dec env wr prompt path m w) =
     spec_fetch (map (\<lambda>a. classify_attempt dec wr path (env a)) [1..m])"
proof -
  obtain evs where
    "events (snd (create_image dec env wr prompt path m w)) = events w @ evs"
    "attempt_summary (fst (create_image dec env wr prompt path m w)) evs =
       spec_fetch (map (\<lambda>a. classify_attempt dec wr path (env a)) [1..m])"
    using retry_loop_refines [of dec env wr "\<lparr>req_prompt = prompt, req_width = 512, req_height = 512\<rparr>"
        path m "[1..m]" w]
    by (auto simp: create_image_loop simp del: retry_loop.simps)
  then show ?thesis by (cases "create_image dec env wr prompt path m w") (simp add: client_abs_def)
qed

end
