(* ===== verification/DocxRender.thy ===== *)
theory DocxRender
  imports TaggedParser "HOL-Library.Sublist"
begin

text \<open>
  The document renderer \<open>save_questions_to_word\<close> of \<open>src/src/format_to_docx.py\<close>
  (lines 9--77). A python-docx document is modelled by the list of the elements the code adds
  to it, in order: headings with their level, paragraphs with their italic flag, and
  bullet paragraphs with a flag for the check mark and bold run the code adds to the correct
  option. The questions it receives are the dictionaries of \<open>parse_tagged_questions\<close>, so
  \<open>tags.get(k)\<close> reads the parser's \<open>qdict\<close> through its key table (\<open>key_of\<close>,
  \<open>get_key\<close>); a key outside that table gives \<open>None\<close>.
\<close>

datatype doc_elem =
    DHeading string nat
  | DPara string bool
  | DBullet string bool

text \<open>\<open>tags.get(k)\<close> on a parsed dictionary.\<close>

definition tags_get :: "qdict \<Rightarrow> string \<Rightarrow> pyval option" where
  "tags_get q k = map_option (\<lambda>kk. get_key kk q) (key_of k)"

text \<open>Truthiness of \<open>tags.get(k)\<close>: \<open>None\<close>, \<open>""\<close> and \<open>[]\<close> are false.\<close>

fun val_truthy :: "pyval option \<Rightarrow> bool" where
  "val_truthy None = False"
| "val_truthy (Some (PStr s)) = (s \<noteq> [])"
| "val_truthy (Some (PList xs)) = (xs \<noteq> [])"

text \<open>
  \<open>f"{v}"\<close> of a value read by \<open>tags[k]\<close>. Only \<open>options\<close> can hold a list, and the
  renderer never formats \<open>options\<close>; a list is written as Python's \<open>repr\<close> of a list of
  strings without quote escaping.
\<close>

fun pyval_str :: "pyval \<Rightarrow> string" where
  "pyval_str (PStr s) = s"
| "pyval_str (PList xs) =
    ''['' @ concat (map (\<lambda>(i, x). (if i = 0 then [] else '', '') @ [CHR 0x27] @ x @ [CHR 0x27])
                      (zip [0..<length xs] xs)) @ '']''"

definition tag_text :: "qdict \<Rightarrow> string \<Rightarrow> string" where
  "tag_text q k = (case tags_get q k of Some v \<Rightarrow> pyval_str v | None \<Rightarrow> [])"

text \<open>\<open>for opt in tags.get("options", [])\<close>: a list yields its items, a string its characters.\<close>

fun py_iter :: "pyval \<Rightarrow> string list" where
  "py_iter (PStr s) = map (\<lambda>c. [c]) s"
| "py_iter (PList xs) = xs"

definition options_iter :: "qdict \<Rightarrow> string list" where
  "options_iter q = (case tags_get q ''options'' of Some v \<Rightarrow> py_iter v | None \<Rightarrow> [])"

text \<open>Lines 50--56: duplicate removal with a \<open>seen\<close> set, keeping first occurrences.\<close>

fun dedup_loop :: "string set \<Rightarrow> string list \<Rightarrow> string list \<Rightarrow> string list" where
  "dedup_loop seen unique_options [] = unique_options"
| "dedup_loop seen unique_options (opt # rest) =
    (if opt \<notin> seen then dedup_loop (insert opt seen) (unique_options @ [opt]) rest
     else dedup_loop seen unique_options rest)"

definition unique_options :: "string list \<Rightarrow> string list" where
  "unique_options xs = dedup_loop {} [] xs"

text \<open>\<open>key.capitalize()\<close> on the metadata keys, which are ASCII lower case.\<close>

definition capitalize_key :: "string \<Rightarrow> string" where
  "capitalize_key k =
    (case k of [] \<Rightarrow> []
     | c # cs \<Rightarrow> (if 97 \<le> (of_char c :: nat) \<and> (of_char c :: nat) \<le> 122 then char_of (of_char c - 32 :: nat) else c) # cs)"

definition display_key :: "string \<Rightarrow> string" where
  "display_key key = (if key = ''plusmarks'' then ''Marks'' else capitalize_key key)"

text \<open>Lines 40--45: the metadata loop.\<close>

fun metadata_loop :: "qdict \<Rightarrow> string list \<Rightarrow> string list \<Rightarrow> string list" where
  "metadata_loop tags parts [] = parts"
| "metadata_loop tags parts (key # keys) =
    (if val_truthy (tags_get tags key)
     then metadata_loop tags (parts @ [display_key key @ '': '' @ tag_text tags key]) keys
     else metadata_loop tags parts keys)"

definition metadata_parts :: "qdict \<Rightarrow> string list" where
  "metadata_parts tags =
    metadata_loop tags [] [''difficulty'', ''subject'', ''unit'', ''topic'', ''plusmarks'']"

text \<open>\<open>" | ".join(parts)\<close>.\<close>

fun py_join :: "string \<Rightarrow> string list \<Rightarrow> string" where
  "py_join sep [] = []"
| "py_join sep [x] = x"
| "py_join sep (x # y # xs) = x @ sep @ py_join sep (y # xs)"

text \<open>
  Lines 58--68: one bullet per unique option; the check mark and bold run go to the option
  equal to \<open>tags.get("correct_answer")\<close>, compared as Python compares a str with a value.
\<close>

definition option_bullets :: "qdict \<Rightarrow> doc_elem list" where
  "option_bullets tags =
    (let correct_answer = tags_get tags ''correct_answer''
     in map (\<lambda>opt. DBullet opt (correct_answer = Some (PStr opt))) (unique_options (options_iter tags)))"

text \<open>Lines 23--74: the elements added for question \<open>idx\<close>.\<close>

definition render_question :: "nat \<Rightarrow> qdict \<Rightarrow> doc_elem list" where
  "render_question idx tags =
    [DHeading (''Question '' @ py_str_nat idx) 2]
    @ (if val_truthy (tags_get tags ''title'') then [DHeading (tag_text tags ''title'') 3] else [])
    @ (if val_truthy (tags_get tags ''description'') then [DPara (tag_text tags ''description'') True] else [])
    @ (if val_truthy (tags_get tags ''question'') then [DPara (tag_text tags ''question'') False] else [])
    @ (if val_truthy (tags_get tags ''instruction'')
       then [DPara (''Instruction: '' @ tag_text tags ''instruction'') True] else [])
    @ (let parts = metadata_parts tags in if parts \<noteq> [] then [DPara (py_join '' | '' parts) True] else [])
    @ option_bullets tags
    @ (if val_truthy (tags_get tags ''explanation'')
       then [DPara (''Explanation: '' @ tag_text tags ''explanation'') True] else [])
    @ [DPara [] False]"

text \<open>Line 22: \<open>for idx, tags in enumerate(questions, start=1)\<close>.\<close>

fun render_loop :: "nat \<Rightarrow> qdict list \<Rightarrow> doc_elem list" where
  "render_loop idx [] = []"
| "render_loop idx (tags # qs) = render_question idx tags @ render_loop (Suc idx) qs"

text \<open>Lines 14--15: the \<open>.docx\<close> suffix, tested case-insensitively.\<close>

definition docx_filename :: "string \<Rightarrow> string" where
  "docx_filename filename =
    (if suffix ''.docx'' (py_lower filename) then filename else filename @ ''.docx'')"

text \<open>
  Lines 9--77: the saved file's name and its content. \<open>title_arg\<close> is the optional \<open>title\<close>
  argument (\<open>None\<close> for Python's \<open>None\<close>); \<open>os.makedirs\<close>, \<open>doc.save\<close> and the final print are
  the file-system effects around this value.
\<close>

definition save_questions_to_word :: "qdict list \<Rightarrow> string \<Rightarrow> string option \<Rightarrow> string \<times> doc_elem list" where
  "save_questions_to_word questions filename title_arg =
    (docx_filename filename,
     (case title_arg of Some t \<Rightarrow> if t \<noteq> [] then [DHeading t 1] else [] | None \<Rightarrow> [])
     @ render_loop 1 questions)"

fun is_checked :: "doc_elem \<Rightarrow> bool" where
  "is_checked (DBullet _ b) = b"
| "is_checked _ = False"

fun is_bullet :: "doc_elem \<Rightarrow> bool" where
  "is_bullet (DBullet _ _) = True"
| "is_bullet _ = False"

fun question_heading :: "doc_elem \<Rightarrow> bool" where
  "question_heading (DHeading _ n) = (n = 2)"
| "question_heading _ = False"

section \<open>Lemmas\<close>

text \<open>\<open>rev (remdups (rev xs))\<close> keeps the first occurrence of each element, in order.\<close>

lemma remdups_snoc: "remdups (xs @ [x]) = remdups (filter (\<lambda>y. y \<noteq> x) xs) @ [x]"
  by (induction xs) auto

lemma dedup_loop_eq:
  "dedup_loop seen acc xs = acc @ rev (remdups (rev (filter (\<lambda>x. x \<notin> seen) xs)))"
  by (induction xs arbitrary: seen acc) (simp_all add: remdups_snoc rev_filter conj_commute)

lemma unique_options_eq: "unique_options xs = rev (remdups (rev xs))"
  by (simp add: unique_options_def dedup_loop_eq)

lemma subseq_remdups: "subseq (remdups xs) xs"
  by (induction xs) auto

lemma key_of_correct_answer [simp]: "key_of ''correct_answer'' = None"
  by (simp add: key_of_def qkey_names_def)

lemma option_bullets_unmarked:
  "option_bullets q = map (\<lambda>opt. DBullet opt False) (rev (remdups (rev (options_iter q))))"
  by (simp add: option_bullets_def tags_get_def unique_options_eq)

lemma options_iter_PList [simp]: "options q = PList xs \<Longrightarrow> options_iter q = xs"
  by (simp add: options_iter_def tags_get_def key_of_def qkey_names_def)

lemma render_question_bullets:
  "filter is_bullet (render_question i q) = option_bullets q"
  by (simp add: render_question_def Let_def option_bullets_def)

lemma render_question_checked: "filter is_checked (render_question i q) = []"
  by (simp add: render_question_def Let_def option_bullets_unmarked)

lemma render_question_headings:
  "filter question_heading (render_question i q) = [DHeading (''Question '' @ py_str_nat i) 2]"
  by (simp add: render_question_def Let_def option_bullets_def)

lemma subseq_rev: "subseq xs ys \<Longrightarrow> subseq (rev xs) (rev ys)"
  by (induction rule: list_emb.induct) (auto intro: subseq_rev_drop_many list_emb_append_mono)

lemma render_loop_checked: "filter is_checked (render_loop i qs) = []"
  by (induction qs arbitrary: i) (simp_all add: render_question_checked)

lemma render_loop_headings:
  "filter question_heading (render_loop i qs) =
     map (\<lambda>j. DHeading (''Question '' @ py_str_nat j) 2) [i..<i + length qs]"
proof (induction qs arbitrary: i)
  case Nil
  then show ?case by simp
next
  case (Cons q qs)
  then show ?case by (simp add: render_question_headings upt_rec)
qed

lemma py_lower_docx [simp]: "py_lower (s @ ''.docx'') = py_lower s @ ''.docx''"
  by (simp add: py_lower_def py_lower_char_def)

section \<open>Properties\<close>

text \<open>
  C24. The duplicate removal of lines 50--56 keeps the first occurrence of each option in
  order: it is \<open>rev (remdups (rev xs))\<close>, its result is distinct, has the same elements
  and is a subsequence of its input.
\<close>

theorem unique_options_first_occurrences:
  "unique_options xs = rev (remdups (rev xs)) \<and> distinct (unique_options xs) \<and>
   set (unique_options xs) = set xs \<and> subseq (unique_options xs) xs"
proof -
  have "subseq (rev (remdups (rev xs))) (rev (rev xs))"
    using subseq_remdups [of "rev xs"] by (rule subseq_rev)
  then show ?thesis by (simp add: unique_options_eq)
qed

text \<open>
  C25. The renderer never marks an option as correct: it looks the answer up under the key
  \<open>correct_answer\<close>, which no parsed dictionary has (the parser stores it under
  \<open>answer\<close>), so no bullet of any document gets the check mark, although the spec
  requires the correct option to be distinguished.
\<close>

theorem save_questions_to_word_unmarked:
  "filter is_checked (snd (save_questions_to_word questions filename title_arg)) = []"
  by (simp add: save_questions_to_word_def render_loop_checked split: option.splits)

text \<open>
  C26. The document has one level-2 heading per question, \<open>Question 1\<close>, ...,
  \<open>Question n\<close>, in the order of the questions.
\<close>

theorem save_questions_to_word_headings:
  "filter question_heading (snd (save_questions_to_word questions filename title_arg)) =
     map (\<lambda>j. DHeading (''Question '' @ py_str_nat j) 2) [1..<Suc (length questions)]"
  by (simp add: save_questions_to_word_def render_loop_headings split: option.splits)

text \<open>
  The saved file name ends in \<open>.docx\<close> in any letter case, extends the given name,
  and adding the suffix is idempotent.
\<close>

theorem docx_filename_suffix:
  "suffix ''.docx'' (py_lower (docx_filename filename)) \<and> prefix filename (docx_filename filename) \<and>
   docx_filename (docx_filename filename) = docx_filename filename"
  by (auto simp: docx_filename_def suffix_def)

text \<open>
  C27. The bullets of a question are its options, each once, in first-seen order, none
  marked; options held as a string (after an \<open>@options\<close> tag) are iterated character by
  character.
\<close>

theorem render_question_options:
  "filter is_bullet (render_question idx q) =
     map (\<lambda>opt. DBullet opt False) (rev (remdups (rev (options_iter q))))"
  by (simp add: render_question_bullets option_bullets_unmarked)

end
