(* ===== verification/JsonFiles.thy ===== *)
theory JsonFiles
  imports PyJson
begin

text \<open>
  The JSON file helpers of \<open>src/src/utils.py\<close>: \<open>load_json\<close> (lines 7--25) and
  \<open>save_json\<close> (lines 28--38). The file system is a map \<open>fs\<close> from paths to file
  contents; directories are implicit in the paths. \<open>json.load\<close> and \<open>json.dump\<close>
  (with \<open>indent=4, ensure_ascii=False\<close>) are library functions and appear as the
  parameters \<open>jl\<close> (text to JSON value, \<open>Inl ValueError\<close> for \<open>JSONDecodeError\<close>)
  and \<open>dump\<close> (JSON value to text).
\<close>

text \<open>\<open>load_json(filepath)\<close>: the existence check, then \<open>json.load\<close>.\<close>

definition load_json ::
  "(string \<rightharpoonup> string) \<Rightarrow> (string \<Rightarrow> py_exc + json) \<Rightarrow> string \<Rightarrow> py_exc + json" where
  "load_json fs jl filepath =
    (case fs filepath of
       None \<Rightarrow> Inl FileNotFoundError
     | Some text \<Rightarrow> jl text)"

text \<open>
  \<open>save_json(data, filepath)\<close>: \<open>os.makedirs(os.path.dirname(filepath), exist_ok=True)\<close>
  raises \<open>FileNotFoundError\<close> when the directory name is empty (\<open>os.makedirs("")\<close>);
  otherwise the file is (over)written with the dump of the data.
\<close>

definition save_json ::
  "(json \<Rightarrow> string) \<Rightarrow> (string \<rightharpoonup> string) \<Rightarrow> json \<Rightarrow> string \<Rightarrow> py_exc + (string \<rightharpoonup> string)" where
  "save_json dump fs data filepath =
    (if py_dirname filepath = [] then Inl FileNotFoundError
     else Inr (fs(filepath \<mapsto> dump data)))"

section \<open>Lemmas\<close>

lemma py_dirname_Nil_iff: "py_dirname p = [] \<longleftrightarrow> CHR ''/'' \<notin> set p"
proof -
  let ?head = "rev (dropWhile (\<lambda>c. c \<noteq> CHR ''/'') (rev p))"
  have h: "?head = [] \<longleftrightarrow> CHR ''/'' \<notin> set p" by auto
  have "list_ex (\<lambda>c. c \<noteq> CHR ''/'') ?head \<Longrightarrow>
        rev (dropWhile (\<lambda>c. c = CHR ''/'') (rev ?head)) \<noteq> []"
    by (auto simp: list_ex_iff simp del: rev_dropWhile_rev_prefix)
  with h show ?thesis by (auto simp: py_dirname_def Let_def simp del: dropWhile_eq_Nil_conv)
qed

lemma save_json_Inr:
  "save_json dump fs data filepath = Inr fs' \<Longrightarrow> fs' = fs(filepath \<mapsto> dump data)"
  by (simp add: save_json_def split: if_splits)

section \<open>Properties\<close>



text \<open>
  C33. \<open>save_json\<close> on a path without a directory part raises \<open>FileNotFoundError\<close>:
  \<open>os.path.dirname\<close> gives \<open>""\<close> and \<open>os.makedirs("")\<close> fails, so the file is never
  written (the renderer guards the same call with \<open>or "."\<close>, \<open>save_json\<close> does not).
\<close>

theorem save_json_bare_filename:
  "CHR ''/'' \<notin> set filepath \<Longrightarrow> save_json dump fs data filepath = Inl FileNotFoundError"
  by (simp add: save_json_def py_dirname_Nil_iff)

theorem save_json_bare_filename_witness:
  "CHR ''/'' \<notin> set ''questions.json'' \<and>
   save_json (\<lambda>d. ''[]'') Map.empty (JArr []) ''questions.json'' = Inl FileNotFoundError"
  using save_json_bare_filename [of "''questions.json''" "\<lambda>d. ''[]''" Map.empty "JArr []"] by simp

end
