(* ===== verification/QuestionGen.thy ===== *)
theory QuestionGen
  imports JsonFiles
begin

text \<open>
  Question generation, \<open>src/src/generate_questions.py\<close>, reading its input with
  \<open>load_json\<close> (theory \<open>JsonFiles\<close>). The Gemini call \<open>model.generate_content(prompt)\<close>
  followed by \<open>response.text\<close> is the parameter \<open>gen\<close>: for a prompt it returns the
  response text or the exception one of the two raised. The file system is the map
  \<open>fs\<close> from paths to file contents, and \<open>json.load\<close> is the parameter \<open>jl\<close>
  (\<open>Inl ValueError\<close> for \<open>JSONDecodeError\<close>, a subclass of \<open>ValueError\<close>).
  The prints of the module are a list of messages returned beside the result.
\<close>

section \<open>The prompt\<close>

text \<open>
  The text of a triple-quoted literal is its lines joined by line breaks;
  \<open>lines_text\<close> ends each line with one.
\<close>

definition lines_text :: "string list \<Rightarrow> string" where
  "lines_text ls = concat (map (\<lambda>l. l @ ''\<newline>'') ls)"

text \<open>Lines 11--128, the lines of \<open>CURRICULUM_HIERARCHY\<close> (line 10 opens the literal with a line break).\<close>

definition CURRICULUM_LINES :: "string list" where
  "CURRICULUM_LINES =
     [''Use the curriculum hierarchy exactly as provided:'', ''Quantitative Math '',
      ''Problem Solving'', ''Numbers and Operations'', ''Quantitative Math '',
      ''Problem Solving'', ''Algebra'', ''Quantitative Math '', ''Problem Solving'',
      ''Geometry'', ''Quantitative Math '', ''Problem Solving'', ''Problem Solving'',
      ''Quantitative Math '', ''Problem Solving'', ''Probability and Statistics'',
      ''Quantitative Math '', ''Problem Solving'', ''Data Analysis'', ''Quantitative Math '',
      ''Algebra'', ''Algebraic Word Problems'', ''Quantitative Math '', ''Algebra'',
      ''Interpreting Variables'', ''Quantitative Math '', ''Algebra'',
      ''Polynomial Expressions (FOIL/Factoring)'', ''Quantitative Math '', ''Algebra'',
      ''Rational Expressions'', ''Quantitative Math '', ''Algebra'',
      ''Exponential Expressions (Product rule, negative exponents)'', ''Quantitative Math '',
      ''Algebra'', ''Quadratic Equations & Functions (Finding roots/solutions, graphing)'',
      ''Quantitative Math '', ''Algebra'', ''Functions Operations'', ''Quantitative Math '',
      ''Geometry and Measurement'', ''Area & Volume'', ''Quantitative Math '',
      ''Geometry and Measurement'', ''Perimeter'', ''Quantitative Math '',
      ''Geometry and Measurement'', ''Lines, Angles, & Triangles'', ''Quantitative Math '',
      ''Geometry and Measurement'', ''Right Triangles & Trigonometry'', ''Quantitative Math '',
      ''Geometry and Measurement'', ''Circles (Area, circumference)'', ''Quantitative Math '',
      ''Geometry and Measurement'', ''Coordinate Geometry'', ''Quantitative Math '',
      ''Geometry and Measurement'', ''Slope'', ''Quantitative Math '',
      ''Geometry and Measurement'', ''Transformations (Dilating a shape)'',
      ''Quantitative Math '', ''Geometry and Measurement'', ''Parallel & Perpendicular Lines'',
      ''Quantitative Math '', ''Geometry and Measurement'',
      ''Solid Figures (Volume of Cubes)'', ''Quantitative Math '', ''Numbers and Operations'',
      ''Basic Number Theory'', ''Quantitative Math '', ''Numbers and Operations'',
      ''Prime & Composite Numbers'', ''Quantitative Math '', ''Numbers and Operations'',
      ''Rational Numbers'', ''Quantitative Math '', ''Numbers and Operations'',
      ''Order of Operations'', ''Quantitative Math '', ''Numbers and Operations'',
      ''Estimation'', ''Quantitative Math '', ''Numbers and Operations'',
      ''Fractions, Decimals, & Percents'', ''Quantitative Math '', ''Numbers and Operations'',
      ''Sequences & Series'', ''Quantitative Math '', ''Numbers and Operations'',
      ''Computation with Whole Numbers'', ''Quantitative Math '', ''Numbers and Operations'',
      ''Operations with Negatives'', ''Quantitative Math '', ''Data Analysis & Probability'',
      ''Interpretation of Tables & Graphs'', ''Quantitative Math '',
      ''Data Analysis & Probability'', ''Trends & Inferences'', ''Quantitative Math '',
      ''Data Analysis & Probability'', ''Probability (Basic, Compound Events)'',
      ''Quantitative Math '', ''Data Analysis & Probability'', ''Mean, Median, Mode, & Range'',
      ''Quantitative Math '', ''Data Analysis & Probability'', ''Weighted Averages'',
      ''Quantitative Math '', ''Data Analysis & Probability'',
      ''Counting & Arrangement Problems'', ''Quantitative Math '', ''Reasoning'',
      ''Word Problems'']"

definition CURRICULUM_HIERARCHY :: string where
  "CURRICULUM_HIERARCHY = ''\<newline>'' @ lines_text CURRICULUM_LINES"

text \<open>Lines 137--138 of the prompt, before \<open>{base_question.strip()}\<close>.\<close>

definition PROMPT_INTRO_LINES :: "string list" where
  "PROMPT_INTRO_LINES =
     [''You are given this base math question:'', '''']"

text \<open>Lines 140--147: the task.\<close>

definition PROMPT_TASK_LINES :: "string list" where
  "PROMPT_TASK_LINES =
     ['''', ''Task:'', ''- Create a new question with the SAME difficulty & format.'',
      ''- Change the context and numbers, but keep the structure.'',
      ''- Preserve LaTeX formulas if any.'',
      ''- Provide a new image description if the question requires an image.'',
      ''- Output in EXACTLY the following Question Output Format without any extra text or explanation:'',
      '''']"

text \<open>Lines 148--164: the output format the model is asked to follow.\<close>

definition OUTPUT_FORMAT_LINES :: "string list" where
  "OUTPUT_FORMAT_LINES =
     [''@title <Assessment title>'', ''@description <Assessment description>'', '''',
      ''@question <Write your question here>'', ''@instruction <Write instruction here>'',
      ''@difficulty <easy|moderate|hard>'', ''@subject <Choose subject from curriculum>'',
      ''@unit <Choose unit from curriculum>'', ''@topic <Choose topic from curriculum>'',
      ''@plusmarks 1'', '''', ''@option <Option 1>'', ''@option <Option 2>'',
      ''@@option <Correct Option>'', ''@option <Option 4>'', '''',
      ''@explanation <Write your question explanation here>'']"

text \<open>Lines 167--168, after \<open>{CURRICULUM_HIERARCHY}\<close>.\<close>

definition PROMPT_TAIL_LINES :: "string list" where
  "PROMPT_TAIL_LINES =
     ['''', ''Remember: NO extra commentary or explanation outside the tagged format.'']"

text \<open>Lines 136--169: the f-string \<open>prompt\<close> for a base question.\<close>

definition question_prompt :: "string \<Rightarrow> string" where
  "question_prompt base_question =
    ''\<newline>'' @ lines_text PROMPT_INTRO_LINES @ py_strip base_question @
    ''\<newline>'' @ lines_text (PROMPT_TASK_LINES @ OUTPUT_FORMAT_LINES @ ['''']) @ CURRICULUM_HIERARCHY @
    ''\<newline>'' @ lines_text PROMPT_TAIL_LINES"

section \<open>One question\<close>

datatype gen_msg = GenError py_exc | GenShow nat string

text \<open>
  Lines 131--176, \<open>generate_question(base_question)\<close>. The prompt, and with it
  \<open>base_question.strip()\<close>, is built before the \<open>try\<close>: a base question that is not a
  string raises \<open>AttributeError\<close> out of the function. Inside the \<open>try\<close>, every exception
  is caught, printed, and gives the empty string.
\<close>

definition generate_question ::
  "(string \<Rightarrow> py_exc + string) \<Rightarrow> json \<Rightarrow> (py_exc + string) \<times> gen_msg list" where
  "generate_question gen base_question =
    (case base_question of
       JStr b \<Rightarrow>
         (case gen (question_prompt b) of
            Inl e \<Rightarrow> (Inr [], [GenError e])
          | Inr text \<Rightarrow> (Inr (py_strip text), []))
     | _ \<Rightarrow> (Inl AttributeError, []))"

section \<open>The batch\<close>

text \<open>
  \<open>for q in v\<close> over a JSON value: a list yields its items, a dict its keys, a string its
  characters; other values are not iterable.
\<close>

fun json_iter :: "json \<Rightarrow> py_exc + json list" where
  "json_iter (JArr xs) = Inr xs"
| "json_iter (JObj kvs) = Inr (map (\<lambda>(k, v). JStr k) kvs)"
| "json_iter (JStr s) = Inr (map (\<lambda>c. JStr [c]) s)"
| "json_iter _ = Inl TypeError"

text \<open>The list comprehension of line 181, item by item.\<close>

fun gen_loop ::
  "(string \<Rightarrow> py_exc + string) \<Rightarrow> string list \<Rightarrow> gen_msg list \<Rightarrow> json list \<Rightarrow>
   (py_exc + string list) \<times> gen_msg list" where
  "gen_loop gen acc msgs [] = (Inr acc, msgs)"
| "gen_loop gen acc msgs (q # qs) =
    (case generate_question gen q of
       (Inl e, ms) \<Rightarrow> (Inl e, msgs @ ms)
     | (Inr s, ms) \<Rightarrow> gen_loop gen (acc @ [s]) (msgs @ ms) qs)"

text \<open>Lines 178--181, \<open>batch_generate(input_file)\<close>.\<close>

definition batch_generate ::
  "(string \<Rightarrow> py_exc + string) \<Rightarrow> (string \<rightharpoonup> string) \<Rightarrow> (string \<Rightarrow> py_exc + json) \<Rightarrow>
   string \<Rightarrow> (py_exc + string list) \<times> gen_msg list" where
  "batch_generate gen fs jl input_file =
    (case load_json fs jl input_file of
       Inl e \<Rightarrow> (Inl e, [])
     | Inr base_questions \<Rightarrow>
         (case json_iter base_questions of
            Inl e \<Rightarrow> (Inl e, [])
          | Inr items \<Rightarrow> gen_loop gen [] [] items))"

text \<open>
  Lines 183--186, the module run as a script: the batch over \<open>data/base_questions.json\<close>,
  then one print per generated text, numbered from 1.
\<close>

definition gen_script ::
  "(string \<Rightarrow> py_exc + string) \<Rightarrow> (string \<rightharpoonup> string) \<Rightarrow> (string \<Rightarrow> py_exc + json) \<Rightarrow>
   (py_exc + unit) \<times> gen_msg list" where
  "gen_script gen fs jl =
    (case batch_generate gen fs jl ''data/base_questions.json'' of
       (Inl e, ms) \<Rightarrow> (Inl e, ms)
     | (Inr new_questions, ms) \<Rightarrow>
         (Inr (), ms @ map2 GenShow [1..<Suc (length new_questions)] new_questions))"

text \<open>What the model call makes of one base question string: the text, and the log.\<close>

definition gen_text :: "(string \<Rightarrow> py_exc + string) \<Rightarrow> string \<Rightarrow> string" where
  "gen_text gen b = (case gen (question_prompt b) of Inl e \<Rightarrow> [] | Inr t \<Rightarrow> py_strip t)"

definition gen_log :: "(string \<Rightarrow> py_exc + string) \<Rightarrow> string \<Rightarrow> gen_msg list" where
  "gen_log gen b = (case gen (question_prompt b) of Inl e \<Rightarrow> [GenError e] | Inr t \<Rightarrow> [])"

section \<open>Lemmas\<close>

lemma generate_question_JStr [simp]:
  "generate_question gen (JStr b) = (Inr (gen_text gen b), gen_log gen b)"
  by (simp add: generate_question_def gen_text_def gen_log_def split: sum.splits)

lemma gen_loop_strings:
  "gen_loop gen acc msgs (map JStr bs) =
     (Inr (acc @ map (gen_text gen) bs), msgs @ concat (map (gen_log gen) bs))"
  by (induction bs arbitrary: acc msgs) simp_all

lemma gen_loop_abort:
  "\<forall>b. v \<noteq> JStr b \<Longrightarrow>
   gen_loop gen acc msgs (map JStr bs @ v # rest) =
     (Inl AttributeError, msgs @ concat (map (gen_log gen) bs))"
proof (induction bs arbitrary: acc msgs)
  case Nil
  then show ?case by (cases v) (simp_all add: generate_question_def)
next
  case (Cons b bs)
  then show ?case by simp
qed

lemma gen_script_strings:
  "fs ''data/base_questions.json'' = Some text \<Longrightarrow> jl text = Inr (JArr (map JStr bs)) \<Longrightarrow>
   gen_script gen fs jl =
     (Inr (), concat (map (gen_log gen) bs) @ map2 GenShow [1..<Suc (length bs)] (map (gen_text gen) bs))"
  by (simp add: gen_script_def batch_generate_def load_json_def gen_loop_strings)

section \<open>Properties\<close>

text \<open>
  C30. For an input file holding a list of strings, \<open>batch_generate\<close> returns one text
  per base question, in order: the stripped response, or the empty string where the model
  call raised, and one logged error per failed call, in order.
\<close>

theorem batch_generate_strings:
  "fs input_file = Some text \<Longrightarrow> jl text = Inr (JArr (map JStr bs)) \<Longrightarrow>
   batch_generate gen fs jl input_file = (Inr (map (gen_text gen) bs), concat (map (gen_log gen) bs))"
  by (simp add: batch_generate_def load_json_def gen_loop_strings)

theorem batch_generate_strings_witness:
  "batch_generate (\<lambda>p. Inl RequestException) [''data/base_questions.json'' \<mapsto> ''[...]'']
     (\<lambda>t. Inr (JArr [JStr ''Q1 text'', JStr ''Q2 text''])) ''data/base_questions.json'' =
   (Inr [[], []], [GenError RequestException, GenError RequestException])"
proof -
  have "batch_generate (\<lambda>p. Inl RequestException) [''data/base_questions.json'' \<mapsto> ''[...]'']
     (\<lambda>t. Inr (JArr (map JStr [''Q1 text'', ''Q2 text'']))) ''data/base_questions.json'' =
     (Inr (map (gen_text (\<lambda>p. Inl RequestException)) [''Q1 text'', ''Q2 text'']),
      concat (map (gen_log (\<lambda>p. Inl RequestException)) [''Q1 text'', ''Q2 text'']))"
    by (rule batch_generate_strings) simp_all
  then show ?thesis by (simp add: gen_text_def gen_log_def)
qed

text \<open>A missing input file raises \<open>FileNotFoundError\<close> before any model call.\<close>

theorem batch_generate_missing:
  "fs input_file = None \<Longrightarrow> batch_generate gen fs jl input_file = (Inl FileNotFoundError, [])"
  by (simp add: batch_generate_def load_json_def)

theorem batch_generate_missing_witness:
  "batch_generate (\<lambda>p. Inr p) Map.empty (\<lambda>t. Inr JNull) ''data/base_questions.json'' =
     (Inl FileNotFoundError, [])"
  by (rule batch_generate_missing) simp

text \<open>
  C31. A base question that is not a string aborts the whole batch with
  \<open>AttributeError\<close> after the calls for the items before it: the texts already
  generated are lost, although the spec makes per-item failures non-fatal.
\<close>

theorem batch_generate_non_string:
  "fs input_file = Some text \<Longrightarrow> jl text = Inr (JArr (map JStr bs @ v # rest)) \<Longrightarrow>
   \<forall>b. v \<noteq> JStr b \<Longrightarrow>
   batch_generate gen fs jl input_file = (Inl AttributeError, concat (map (gen_log gen) bs))"
  by (simp add: batch_generate_def load_json_def gen_loop_abort)

theorem batch_generate_non_string_witness:
  "batch_generate (\<lambda>p. Inr ''@title t'') [''in.json'' \<mapsto> ''[...]'']
     (\<lambda>t. Inr (JArr [JStr ''a'', JNum 7])) ''in.json'' = (Inl AttributeError, [])"
proof -
  have "batch_generate (\<lambda>p. Inr ''@title t'') [''in.json'' \<mapsto> ''[...]'']
     (\<lambda>t. Inr (JArr (map JStr [''a''] @ JNum 7 # []))) ''in.json'' =
     (Inl AttributeError, concat (map (gen_log (\<lambda>p. Inr ''@title t'')) [''a'']))"
    by (rule batch_generate_non_string) auto
  then show ?thesis by (simp add: gen_log_def)
qed

end
