(* ===== verification/Pipeline.thy ===== *)
theory Pipeline
  imports ImageClient QuestionGen ImagePrompts DocxRender
begin

text \<open>
  The \<open>__main__\<close> sequence of \<open>src/main.py\<close> (lines 35--77), composed from the
  component models: the existence check of the base file, \<open>batch_generate\<close>, the
  empty-result check, \<open>parse_tagged_questions\<close>, the image loop over
  \<open>extract_image_prompts\<close> calling \<open>create_image(prompt, path)\<close> with its default of
  three retries, and \<open>save_questions_to_word\<close>. One trace records, in order, the
  prints of \<open>main.py\<close>, the errors printed by \<open>generate_question\<close>, the events of
  each \<open>create_image\<close> call, the directories created and the document saved. The
  outcome is normal completion, \<open>exit(1)\<close>, or an exception that leaves the script.
  The network of the \<open>k\<close>-th question's image is \<open>env k\<close>.
\<close>

definition BASE_QUESTIONS_PATH :: string where
  "BASE_QUESTIONS_PATH = ''data/base_questions.json''"

definition OUTPUT_DOC_PATH :: string where
  "OUTPUT_DOC_PATH = ''output/generated_questions.docx''"

text \<open>The prints of \<open>main.py\<close>, and the final print of \<open>save_questions_to_word\<close>.\<close>

datatype pmsg =
    MStart
  | MBaseMissing string
  | MGenerating
  | MNoQuestions
  | MGenerated nat
  | MPreview
  | MRaw string
  | MCreatingImages
  | MImageFor nat string
  | MNoImage nat
  | MImagesSaved
  | MWordSaved string
  | MQuestionsSaved string
  | MAllDone

datatype 'b pevent =
    PPrint pmsg
  | PGenErr gen_msg
  | PImage "'b event"
  | PMakedirs string
  | PSaveDoc string "doc_elem list"

record 'b pstate =
  image_files :: "string \<rightharpoonup> 'b"
  trace :: "'b pevent list"

datatype pout = Done | Exited int | Raised py_exc

definition emit_all :: "'b pevent list \<Rightarrow> 'b pstate \<Rightarrow> 'b pstate" where
  "emit_all evs st = st\<lparr>trace := trace st @ evs\<rparr>"

text \<open>One call \<open>create_image(prompt, path)\<close> on the pipeline's state.\<close>

definition run_create_image ::
  "(string \<Rightarrow> 'b option) \<Rightarrow> (int \<Rightarrow> post_outcome) \<Rightarrow> (string \<Rightarrow> bool) \<Rightarrow> string \<Rightarrow> string \<Rightarrow>
   'b pstate \<Rightarrow> (py_exc + unit) \<times> 'b pstate" where
  "run_create_image dec env wr prompt path st =
    (case create_image dec env wr prompt path 3 \<lparr>files = image_files st, events = []\<rparr> of
       (r, w') \<Rightarrow> (r, st\<lparr>image_files := files w', trace := trace st @ map PImage (events w')\<rparr>))"

text \<open>Lines 63--68: \<open>for idx, (prompt, path) in enumerate(image_prompts, 1)\<close>.\<close>

fun image_loop ::
  "(string \<Rightarrow> 'b option) \<Rightarrow> (nat \<Rightarrow> int \<Rightarrow> post_outcome) \<Rightarrow> (string \<Rightarrow> bool) \<Rightarrow> nat \<Rightarrow>
   (string option \<times> string option) list \<Rightarrow> 'b pstate \<Rightarrow> (py_exc + unit) \<times> 'b pstate" where
  "image_loop dec env wr idx [] st = (Inr (), st)"
| "image_loop dec env wr idx ((prompt, path) # rest) st =
    (case (prompt, path) of
       (Some p, Some pa) \<Rightarrow>
         if p \<noteq> [] \<and> pa \<noteq> [] then
           (case run_create_image dec (env idx) wr p pa (emit_all [PPrint (MImageFor idx p)] st) of
              (Inl e, st') \<Rightarrow> (Inl e, st')
            | (Inr _, st') \<Rightarrow> image_loop dec env wr (Suc idx) rest st')
         else image_loop dec env wr (Suc idx) rest (emit_all [PPrint (MNoImage idx)] st)
     | _ \<Rightarrow> image_loop dec env wr (Suc idx) rest (emit_all [PPrint (MNoImage idx)] st))"

text \<open>Lines 72--77: \<open>os.makedirs("output")\<close> and \<open>save_questions_to_word\<close> with its effects.\<close>

definition save_document :: "qdict list \<Rightarrow> 'b pstate \<Rightarrow> 'b pstate" where
  "save_document parsed st =
    (case save_questions_to_word parsed OUTPUT_DOC_PATH (Some ''Generated Questions'') of
       (fname, doc) \<Rightarrow>
         emit_all [PMakedirs ''output'',
                   PMakedirs (if py_dirname fname = [] then ''.'' else py_dirname fname),
                   PSaveDoc fname doc, PPrint (MWordSaved fname),
                   PPrint (MQuestionsSaved OUTPUT_DOC_PATH), PPrint MAllDone] st)"

text \<open>Lines 35--77. \<open>fs\<close> is the file system, so \<open>os.path.exists\<close> is \<open>fs p \<noteq> None\<close>.\<close>

definition main_pipeline ::
  "(string \<Rightarrow> py_exc + string) \<Rightarrow> (string \<rightharpoonup> string) \<Rightarrow> (string \<Rightarrow> py_exc + json) \<Rightarrow>
   (string \<Rightarrow> 'b option) \<Rightarrow> (nat \<Rightarrow> int \<Rightarrow> post_outcome) \<Rightarrow> (string \<Rightarrow> bool) \<Rightarrow>
   'b pstate \<Rightarrow> pout \<times> 'b pstate" where
  "main_pipeline gen fs jl dec env wr st0 =
    (let st1 = emit_all [PPrint MStart] st0
     in if fs BASE_QUESTIONS_PATH = None
        then (Exited 1, emit_all [PPrint (MBaseMissing BASE_QUESTIONS_PATH)] st1)
        else
          (case batch_generate gen fs jl BASE_QUESTIONS_PATH of
             (r, gl) \<Rightarrow>
               (let st2 = emit_all (PPrint MGenerating # map PGenErr gl) st1
                in case r of
                     Inl e \<Rightarrow> (Raised e, st2)
                   | Inr raw_questions \<Rightarrow>
                       if raw_questions = [] then (Exited 1, emit_all [PPrint MNoQuestions] st2)
                       else
                         (let st3 = emit_all [PPrint (MGenerated (length raw_questions)), PPrint MPreview,
                                              PPrint (MRaw (hd raw_questions))] st2
                          in case parse_tagged_questions raw_questions of
                               Inl e \<Rightarrow> (Raised e, st3)
                             | Inr parsed \<Rightarrow>
                                 (case image_loop dec env wr 1 (extract_image_prompts raw_questions)
                                         (emit_all [PMakedirs ''images'', PPrint MCreatingImages] st3) of
                                    (Inl e, st4) \<Rightarrow> (Raised e, st4)
                                  | (Inr _, st4) \<Rightarrow>
                                      (Done, save_document parsed (emit_all [PPrint MImagesSaved] st4)))))))"

text \<open>
  \<open>src/src/config.py\<close>, run when \<open>main.py\<close> imports its modules (line 5): the key
  read from the environment after \<open>load_dotenv()\<close> (line 8, default \<open>""\<close>), and the
  \<open>ValueError\<close> raised when it is empty (lines 18--19), before \<open>__main__\<close> starts.
\<close>

definition GEMINI_API_KEY :: "(string \<rightharpoonup> string) \<Rightarrow> string" where
  "GEMINI_API_KEY environ = (case environ ''GEMINI_API_KEY'' of Some v \<Rightarrow> v | None \<Rightarrow> [])"

definition config_check :: "(string \<rightharpoonup> string) \<Rightarrow> py_exc + unit" where
  "config_check environ = (if GEMINI_API_KEY environ = [] then Inl ValueError else Inr ())"

text \<open>\<open>python main.py\<close>: the imports, then the \<open>__main__\<close> block.\<close>

definition run_script ::
  "(string \<rightharpoonup> string) \<Rightarrow> (string \<Rightarrow> py_exc + string) \<Rightarrow> (string \<rightharpoonup> string) \<Rightarrow>
   (string \<Rightarrow> py_exc + json) \<Rightarrow> (string \<Rightarrow> 'b option) \<Rightarrow> (nat \<Rightarrow> int \<Rightarrow> post_outcome) \<Rightarrow>
   (string \<Rightarrow> bool) \<Rightarrow> 'b pstate \<Rightarrow> pout \<times> 'b pstate" where
  "run_script environ gen fs jl dec env wr st0 =
    (case config_check environ of
       Inl e \<Rightarrow> (Raised e, st0)
     | Inr _ \<Rightarrow> main_pipeline gen fs jl dec env wr st0)"

fun is_savedoc :: "'b pevent \<Rightarrow> bool" where
  "is_savedoc (PSaveDoc f d) = True"
| "is_savedoc _ = False"

section \<open>Lemmas\<close>

lemma run_create_image_trace:
  "run_create_image dec env wr p pa st = (r, st') \<Longrightarrow>
   \<exists>evs. trace st' = trace st @ evs \<and> \<not> list_ex is_savedoc evs"
  by (auto simp: run_create_image_def list_ex_iff split: prod.splits)

lemma image_loop_trace:
  "image_loop dec env wr idx ps st = (r, st') \<Longrightarrow>
   \<exists>evs. trace st' = trace st @ evs \<and> \<not> list_ex is_savedoc evs"
proof (induction ps arbitrary: idx st)
  case Nil
  then show ?case by simp
next
  case (Cons x rest)
  obtain prompt path where x: "x = (prompt, path)" by fastforce
  show ?case
  proof (cases "\<exists>p pa. prompt = Some p \<and> path = Some pa \<and> p \<noteq> [] \<and> pa \<noteq> []")
    case True
    then obtain p pa where pp: "prompt = Some p" "path = Some pa" "p \<noteq> []" "pa \<noteq> []" by blast
    obtain r1 st1 where rc: "run_create_image dec (env idx) wr p pa (emit_all [PPrint (MImageFor idx p)] st) = (r1, st1)"
      by fastforce
    from run_create_image_trace [OF rc] obtain evs1 where
      e1: "trace st1 = trace st @ [PPrint (MImageFor idx p)] @ evs1" "\<not> list_ex is_savedoc evs1"
      by (auto simp: emit_all_def)
    show ?thesis
    proof (cases r1)
      case (Inl e)
      with Cons.prems x pp rc e1 show ?thesis by auto
    next
      case (Inr u)
      with Cons.prems x pp rc have "image_loop dec env wr (Suc idx) rest st1 = (r, st')" by simp
      from Cons.IH [OF this] e1 show ?thesis by auto
    qed
  next
    case False
    with Cons.prems x have "image_loop dec env wr (Suc idx) rest (emit_all [PPrint (MNoImage idx)] st) = (r, st')"
      by (auto split: option.splits)
    from Cons.IH [OF this] show ?thesis by (auto simp: emit_all_def)
  qed
qed

lemma emit_all_emit_all [simp]: "emit_all b (emit_all a st) = emit_all (a @ b) st"
  by (simp add: emit_all_def)

lemma emit_all_image_files [simp]: "image_files (emit_all evs st) = image_files st"
  by (simp add: emit_all_def)

lemma trace_emit_all [simp]: "trace (emit_all evs st) = trace st @ evs"
  by (simp add: emit_all_def)

lemma run_create_image_Inr:
  "\<forall>a. attempt_ok dec (env a) \<Longrightarrow> wr pa \<Longrightarrow> run_create_image dec env wr p pa st = (r, st') \<Longrightarrow>
   r = Inr ()"
  using create_image_Inr [of dec env wr pa p 3 "\<lparr>files = image_files st, events = []\<rparr>"]
  by (auto simp: run_create_image_def)

lemma image_loop_Inr:
  "\<forall>k a. attempt_ok dec (env k a) \<Longrightarrow> \<forall>p. wr p \<Longrightarrow> image_loop dec env wr idx ps st = (r, st') \<Longrightarrow>
   r = Inr ()"
proof (induction ps arbitrary: idx st)
  case Nil
  then show ?case by simp
next
  case (Cons x rest)
  obtain prompt path where x: "x = (prompt, path)" by fastforce
  show ?case
  proof (cases "\<exists>p pa. prompt = Some p \<and> path = Some pa \<and> p \<noteq> [] \<and> pa \<noteq> []")
    case True
    then obtain p pa where pp: "prompt = Some p" "path = Some pa" "p \<noteq> []" "pa \<noteq> []" by blast
    obtain r1 st1 where rc: "run_create_image dec (env idx) wr p pa (emit_all [PPrint (MImageFor idx p)] st) = (r1, st1)"
      by fastforce
    with Cons.prems have "r1 = Inr ()" by (blast intro: run_create_image_Inr)
    with Cons.prems(3) x pp rc have "image_loop dec env wr (Suc idx) rest st1 = (r, st')" by simp
    with Cons.IH Cons.prems show ?thesis by blast
  next
    case False
    with Cons.prems(3) x have "image_loop dec env wr (Suc idx) rest (emit_all [PPrint (MNoImage idx)] st) = (r, st')"
      by (auto split: option.splits)
    with Cons.IH Cons.prems show ?thesis by blast
  qed
qed

lemma image_loop_none:
  "image_loop dec env wr idx (replicate n (None, None)) st =
     (Inr (), emit_all (map (\<lambda>k. PPrint (MNoImage k)) [idx..<idx + n]) st)"
  by (induction n arbitrary: idx st) (simp_all add: upt_conv_Cons)

lemma image_re_search_Nil [simp]: "image_re_search [] = None"
  by (simp add: image_re_search.simps image_re_at_def)

lemma extract_image_prompts_empty:
  "extract_image_prompts (replicate n []) = replicate n (None, None)"
proof -
  have "extract_loop acc idx (replicate n []) = acc @ replicate n (None, None)" for acc idx
    by (induction n arbitrary: acc idx) (simp_all add: image_entry_def replicate_app_Cons_same)
  then show ?thesis by (simp add: extract_image_prompts_def)
qed

lemma parse_block_empty: "parse_block [] = Inr qdict_init"
  by code_simp

lemma parse_tagged_questions_empty:
  "parse_tagged_questions (replicate n []) = Inr (replicate n qdict_init)"
proof -
  have "parse_loop acc (replicate n []) = Inr (acc @ replicate n qdict_init)" for acc
    by (induction n arbitrary: acc) (simp_all add: parse_block_empty replicate_app_Cons_same)
  then show ?thesis by (simp add: parse_tagged_questions_def)
qed

text \<open>A run over an input file holding a non-empty list of strings, up to the parse.\<close>

lemma main_pipeline_strings:
  assumes "fs BASE_QUESTIONS_PATH = Some contents" "jl contents = Inr (JArr (map JStr bs))" "bs \<noteq> []"
  shows "main_pipeline gen fs jl dec env wr st0 =
    (let st3 = emit_all ([PPrint MStart, PPrint MGenerating] @ map PGenErr (concat (map (gen_log gen) bs)) @
                         [PPrint (MGenerated (length bs)), PPrint MPreview, PPrint (MRaw (gen_text gen (hd bs)))]) st0
     in case parse_tagged_questions (map (gen_text gen) bs) of
          Inl e \<Rightarrow> (Raised e, st3)
        | Inr parsed \<Rightarrow>
            (case image_loop dec env wr 1 (extract_image_prompts (map (gen_text gen) bs))
                    (emit_all [PMakedirs ''images'', PPrint MCreatingImages] st3) of
               (Inl e, st4) \<Rightarrow> (Raised e, st4)
             | (Inr _, st4) \<Rightarrow> (Done, save_document parsed (emit_all [PPrint MImagesSaved] st4))))"
  using assms
  by (simp add: main_pipeline_def batch_generate_def load_json_def gen_loop_strings hd_map Let_def
      split: sum.split)

lemma docx_filename_OUTPUT_DOC_PATH [simp]: "docx_filename OUTPUT_DOC_PATH = OUTPUT_DOC_PATH"
  by code_simp

lemma main_pipeline_trace:
  "main_pipeline gen fs jl dec env wr st0 = (out, st') \<Longrightarrow>
   \<exists>evs. trace st' = trace st0 @ evs \<and> (list_ex is_savedoc evs \<longleftrightarrow> out = Done)"
  by (auto simp: main_pipeline_def Let_def save_document_def list_ex_iff
      split: if_splits prod.splits sum.splits dest!: image_loop_trace)

text \<open>Without a key the script stops at the import of \<open>config.py\<close>; with one it runs \<open>__main__\<close>.\<close>

lemma extract_image_prompts_nth:
  "i < length raws \<Longrightarrow> extract_image_prompts raws ! i = image_entry (Suc i) (raws ! i)"
  by (simp add: extract_image_prompts_def extract_loop_eq del: upt_Suc)

lemma length_extract_image_prompts [simp]: "length (extract_image_prompts raws) = length raws"
  by (simp add: extract_image_prompts_def extract_loop_eq del: upt_Suc)

lemma run_create_image_posts:
  "run_create_image dec env wr p pa st = (r, st') \<Longrightarrow>
   PImage (EPost \<lparr>req_prompt = p, req_width = 512, req_height = 512\<rparr>) \<in> set (trace st')"
  using retry_loop_posts [of "[1..3]" "\<lparr>req_prompt = p, req_width = 512, req_height = 512\<rparr>" dec env wr pa 3
      "\<lparr>files = image_files st, events = []\<rparr>"]
  by (auto simp: run_create_image_def create_image_loop upto.simps [of 1 3]
      simp del: retry_loop.simps split: prod.splits)

text \<open>A loop that returns normally has attempted every non-empty prompt it was given.\<close>

lemma image_loop_visits:
  "image_loop dec env wr idx ps st = (Inr u, st') \<Longrightarrow> i < length ps \<Longrightarrow> ps ! i = (Some p, Some pa) \<Longrightarrow>
   p \<noteq> [] \<Longrightarrow> pa \<noteq> [] \<Longrightarrow>
   PPrint (MImageFor (idx + i) p) \<in> set (trace st') \<and>
   PImage (EPost \<lparr>req_prompt = p, req_width = 512, req_height = 512\<rparr>) \<in> set (trace st')"
proof (induction ps arbitrary: idx i st)
  case Nil
  then show ?case by simp
next
  case (Cons x rest)
  obtain prompt path where x: "x = (prompt, path)" by fastforce
  show ?case
  proof (cases i)
    case 0
    with Cons.prems x have pp: "prompt = Some p" "path = Some pa" by simp_all
    obtain r1 st1 where rc: "run_create_image dec (env idx) wr p pa (emit_all [PPrint (MImageFor idx p)] st) = (r1, st1)"
      by fastforce
    with Cons.prems(1,4,5) x pp obtain u1 where r1: "r1 = Inr u1"
      and l: "image_loop dec env wr (Suc idx) rest st1 = (Inr u, st')"
      by (cases r1) auto
    from image_loop_trace [OF l] obtain evs where "trace st' = trace st1 @ evs" by blast
    moreover from run_create_image_trace [OF rc] obtain evs1 where
      "trace st1 = trace st @ [PPrint (MImageFor idx p)] @ evs1" by auto
    moreover note run_create_image_posts [OF rc]
    ultimately show ?thesis using 0 by auto
  next
    case (Suc j)
    show ?thesis
    proof (cases "\<exists>q qa. prompt = Some q \<and> path = Some qa \<and> q \<noteq> [] \<and> qa \<noteq> []")
      case True
      then obtain q qa where qq: "prompt = Some q" "path = Some qa" "q \<noteq> []" "qa \<noteq> []" by blast
      obtain r1 st1 where rc: "run_create_image dec (env idx) wr q qa (emit_all [PPrint (MImageFor idx q)] st) = (r1, st1)"
        by fastforce
      with Cons.prems(1) x qq obtain u1 where
        l: "image_loop dec env wr (Suc idx) rest st1 = (Inr u, st')"
        by (cases r1) auto
      from Cons.IH [OF l, of j] Cons.prems Suc show ?thesis by simp
    next
      case False
      with Cons.prems(1) x have l: "image_loop dec env wr (Suc idx) rest (emit_all [PPrint (MNoImage idx)] st) = (Inr u, st')"
        by (auto split: option.splits)
      from Cons.IH [OF l, of j] Cons.prems Suc show ?thesis by simp
    qed
  qed
qed

text \<open>A completed run went through the image loop, and its trace extends the loop's.\<close>

lemma main_pipeline_Done:
  "main_pipeline gen fs jl dec env wr st0 = (Done, st') \<Longrightarrow>
   \<exists>raws logs st3 u st4. batch_generate gen fs jl BASE_QUESTIONS_PATH = (Inr raws, logs) \<and>
     image_loop dec env wr 1 (extract_image_prompts raws) st3 = (Inr u, st4) \<and>
     set (trace st4) \<subseteq> set (trace st')"
  by (fastforce simp: main_pipeline_def Let_def save_document_def split: if_splits prod.splits sum.splits)

lemma run_script_config:
  "run_script environ gen fs jl dec env wr st0 =
     (if GEMINI_API_KEY environ = [] then (Raised ValueError, st0) else main_pipeline gen fs jl dec env wr st0)"
  by (simp add: run_script_def config_check_def)

section \<open>Properties of the pipeline\<close>

text \<open>
  Without the base-questions file the script prints the error and exits with status
  1 before any model call.
\<close>

theorem main_pipeline_missing_base:
  "fs BASE_QUESTIONS_PATH = None \<Longrightarrow>
   main_pipeline gen fs jl dec env wr st0 =
     (Exited 1, emit_all [PPrint MStart, PPrint (MBaseMissing BASE_QUESTIONS_PATH)] st0)"
  by (simp add: main_pipeline_def)

theorem main_pipeline_missing_base_witness:
  "main_pipeline (\<lambda>p. Inr p) Map.empty (\<lambda>t. Inr JNull) (\<lambda>s. Some s) (\<lambda>k a. PostRaises) (\<lambda>_. True)
     \<lparr>image_files = Map.empty, trace = []\<rparr> =
   (Exited 1, \<lparr>image_files = Map.empty,
      trace = [PPrint MStart, PPrint (MBaseMissing ''data/base_questions.json'')]\<rparr>)"
  by (simp add: main_pipeline_missing_base BASE_QUESTIONS_PATH_def emit_all_def)

text \<open>An input file holding an empty list makes the script exit with status 1.\<close>

theorem main_pipeline_no_questions:
  "fs BASE_QUESTIONS_PATH = Some contents \<Longrightarrow> jl contents = Inr (JArr []) \<Longrightarrow>
   main_pipeline gen fs jl dec env wr st0 =
     (Exited 1, emit_all [PPrint MStart, PPrint MGenerating, PPrint MNoQuestions] st0)"
  by (simp add: main_pipeline_def batch_generate_def load_json_def)

theorem main_pipeline_no_questions_witness:
  "main_pipeline (\<lambda>p. Inr p) [''data/base_questions.json'' \<mapsto> ''[]''] (\<lambda>t. Inr (JArr []))
     (\<lambda>s. Some s) (\<lambda>k a. PostRaises) (\<lambda>_. True) \<lparr>image_files = Map.empty, trace = []\<rparr> =
   (Exited 1, \<lparr>image_files = Map.empty, trace = [PPrint MStart, PPrint MGenerating, PPrint MNoQuestions]\<rparr>)"
  by (simp add: main_pipeline_no_questions BASE_QUESTIONS_PATH_def emit_all_def)

text \<open>
  C37. A run over a non-empty list of base-question strings whose generated texts all
  parse, with image calls that never raise outside the caught classes and image files
  that can be opened, completes: it saves the rendering of the parsed records under
  \<open>output/generated_questions.docx\<close> and its last print is the completion message.
\<close>

theorem main_pipeline_success:
  assumes "fs BASE_QUESTIONS_PATH = Some contents" "jl contents = Inr (JArr (map JStr bs))" "bs \<noteq> []"
    and p: "parse_tagged_questions (map (gen_text gen) bs) = Inr parsed"
    and ok: "\<forall>k a. attempt_ok dec (env k a)" "\<forall>pa. wr pa"
  shows "\<exists>st'. main_pipeline gen fs jl dec env wr st0 = (Done, st') \<and>
    PSaveDoc OUTPUT_DOC_PATH (snd (save_questions_to_word parsed OUTPUT_DOC_PATH (Some ''Generated Questions'')))
      \<in> set (trace st') \<and> last (trace st') = PPrint MAllDone"
  using main_pipeline_strings [of fs contents jl bs gen dec env wr st0, OF assms(1-3)] p
  by (auto simp: Let_def save_document_def save_questions_to_word_def split: prod.split sum.split
      dest: image_loop_Inr [OF ok])

theorem main_pipeline_success_witness:
  "parse_tagged_questions (map (gen_text (\<lambda>p. Inr ''@title T'')) [''Q1'']) = Inr [qdict_init\<lparr>title := ''T''\<rparr>] \<and>
   (\<exists>st'. main_pipeline (\<lambda>p. Inr ''@title T'') [''data/base_questions.json'' \<mapsto> ''[...]'']
       (\<lambda>t. Inr (JArr (map JStr [''Q1'']))) (\<lambda>s. Some s) (\<lambda>k a. PostRaises) (\<lambda>_. True)
       \<lparr>image_files = Map.empty, trace = []\<rparr> = (Done, st') \<and>
     PSaveDoc OUTPUT_DOC_PATH (snd (save_questions_to_word [qdict_init\<lparr>title := ''T''\<rparr>] OUTPUT_DOC_PATH
       (Some ''Generated Questions''))) \<in> set (trace st') \<and> last (trace st') = PPrint MAllDone)"
proof -
  have p: "parse_tagged_questions (map (gen_text (\<lambda>p. Inr ''@title T'')) [''Q1'']) =
      Inr [qdict_init\<lparr>title := ''T''\<rparr>]"
    by code_simp
  have ok: "\<forall>k a. attempt_ok (\<lambda>s. Some s) ((\<lambda>k a. PostRaises) k a)"
    by (simp add: attempt_ok_def fetch_payload_def caught_def)
  from main_pipeline_success [OF _ _ _ p ok, of "[''data/base_questions.json'' \<mapsto> ''[...]'']"
      "''[...]''" "\<lambda>t. Inr (JArr (map JStr [''Q1'']))" "\<lambda>_. True" "\<lparr>image_files = Map.empty, trace = []\<rparr>"]
  show ?thesis using p by (simp add: BASE_QUESTIONS_PATH_def)
qed

text \<open>
  C38. The document is saved if and only if the run completes: a run that exits or
  raises (a failed parse, an uncaught exception of an image call) saves no document, so
  one bad image response loses the whole document, although the spec makes image
  failures per-item and non-fatal.
\<close>

theorem main_pipeline_saves_iff_done:
  "\<not> list_ex is_savedoc (trace st0) \<Longrightarrow>
   list_ex is_savedoc (trace (snd (main_pipeline gen fs jl dec env wr st0))) \<longleftrightarrow>
   fst (main_pipeline gen fs jl dec env wr st0) = Done"
proof -
  assume n: "\<not> list_ex is_savedoc (trace st0)"
  obtain out st' where m: "main_pipeline gen fs jl dec env wr st0 = (out, st')" by fastforce
  from main_pipeline_trace [OF m] n m show ?thesis by auto
qed

theorem main_pipeline_saves_iff_done_witness:
  "fst (main_pipeline (\<lambda>p. Inr ''@title T\<newline>@image a circle'') [''data/base_questions.json'' \<mapsto> ''[...]'']
      (\<lambda>t. Inr (JArr [JStr ''Q1''])) (\<lambda>s. Some s)
      (\<lambda>k a. PostResp 200 (BodyJson (JObj [(''results'', JArr [JNum 42])]))) (\<lambda>_. True)
      \<lparr>image_files = Map.empty, trace = []\<rparr>) = Raised AttributeError \<and>
   \<not> list_ex is_savedoc (trace (snd (main_pipeline (\<lambda>p. Inr ''@title T\<newline>@image a circle'')
      [''data/base_questions.json'' \<mapsto> ''[...]''] (\<lambda>t. Inr (JArr [JStr ''Q1''])) (\<lambda>s. Some s)
      (\<lambda>k a. PostResp 200 (BodyJson (JObj [(''results'', JArr [JNum 42])]))) (\<lambda>_. True)
      \<lparr>image_files = Map.empty, trace = []\<rparr>)))"
proof -
  have r: "fst (main_pipeline (\<lambda>p. Inr ''@title T\<newline>@image a circle'') [''data/base_questions.json'' \<mapsto> ''[...]'']
      (\<lambda>t. Inr (JArr [JStr ''Q1''])) (\<lambda>s. Some s)
      (\<lambda>k a. PostResp 200 (BodyJson (JObj [(''results'', JArr [JNum 42])]))) (\<lambda>_. True)
      \<lparr>image_files = Map.empty, trace = []\<rparr>) = Raised AttributeError"
    by code_simp
  from main_pipeline_saves_iff_done [of "\<lparr>image_files = Map.empty, trace = []\<rparr>"
      "\<lambda>p. Inr ''@title T\<newline>@image a circle''" "[''data/base_questions.json'' \<mapsto> ''[...]'']"
      "\<lambda>t. Inr (JArr [JStr ''Q1''])" "\<lambda>s. Some s"
      "\<lambda>k a. PostResp 200 (BodyJson (JObj [(''results'', JArr [JNum 42])]))" "\<lambda>_. True"] r
  show ?thesis by simp
qed

text \<open>
  C39. When every model call fails, the empty-result check does not fire (the list holds
  one empty string per base question): the run completes, requests no image, and saves a
  document of default records, one per base question.
\<close>

theorem main_pipeline_all_failed:
  assumes "fs BASE_QUESTIONS_PATH = Some contents" "jl contents = Inr (JArr (map JStr bs))" "bs \<noteq> []"
    and f: "\<forall>b\<in>set bs. \<exists>e. gen (question_prompt b) = Inl e"
  shows "\<exists>st'. main_pipeline gen fs jl dec env wr st0 = (Done, st') \<and> image_files st' = image_files st0 \<and>
    PSaveDoc OUTPUT_DOC_PATH
      (snd (save_questions_to_word (replicate (length bs) qdict_init) OUTPUT_DOC_PATH (Some ''Generated Questions'')))
      \<in> set (trace st')"
proof -
  from f have g: "map (gen_text gen) bs = replicate (length bs) []"
    by (induction bs) (auto simp: gen_text_def)
  show ?thesis
    using main_pipeline_strings [of fs contents jl bs gen dec env wr st0, OF assms(1-3)]
    by (simp add: g Let_def parse_tagged_questions_empty extract_image_prompts_empty image_loop_none
        save_document_def save_questions_to_word_def)
qed

theorem main_pipeline_all_failed_witness:
  "\<exists>st'. main_pipeline (\<lambda>p. Inl RequestException) [''data/base_questions.json'' \<mapsto> ''[...]'']
      (\<lambda>t. Inr (JArr (map JStr [''Q1'', ''Q2'']))) (\<lambda>s. Some s) (\<lambda>k a. PostRaises) (\<lambda>_. True)
      \<lparr>image_files = Map.empty, trace = []\<rparr> = (Done, st') \<and> image_files st' = Map.empty \<and>
    PSaveDoc OUTPUT_DOC_PATH
      (snd (save_questions_to_word [qdict_init, qdict_init] OUTPUT_DOC_PATH (Some ''Generated Questions'')))
      \<in> set (trace st')"
  using main_pipeline_all_failed [of "[''data/base_questions.json'' \<mapsto> ''[...]'']" "''[...]''"
      "\<lambda>t. Inr (JArr (map JStr [''Q1'', ''Q2'']))" "[''Q1'', ''Q2'']" "\<lambda>p. Inl RequestException"
      "\<lambda>s. Some s" "\<lambda>k a. PostRaises" "\<lambda>_. True" "\<lparr>image_files = Map.empty, trace = []\<rparr>"]
  by (simp add: BASE_QUESTIONS_PATH_def numeral_2_eq_2)

text \<open>
  C40. Every requested image is attempted: in a run that completes, each question whose raw
  text has an \<open>@image\<close> line with a non-empty prompt gets its \<open>Generating image\<close> print
  and at least one request for that prompt.
\<close>

theorem main_pipeline_attempts_images:
  assumes d: "main_pipeline gen fs jl dec env wr st0 = (Done, st')"
    and b: "batch_generate gen fs jl BASE_QUESTIONS_PATH = (Inr raws, logs)"
    and i: "i < length raws" and g: "image_re_search (raws ! i) = Some g" and p: "py_strip g \<noteq> []"
  shows "PPrint (MImageFor (Suc i) (py_strip g)) \<in> set (trace st') \<and>
    PImage (EPost \<lparr>req_prompt = py_strip g, req_width = 512, req_height = 512\<rparr>) \<in> set (trace st')"
proof -
  from main_pipeline_Done [OF d] b obtain st3 u st4 where
    l: "image_loop dec env wr 1 (extract_image_prompts raws) st3 = (Inr u, st4)"
    and s: "set (trace st4) \<subseteq> set (trace st')" by auto
  from i g have "extract_image_prompts raws ! i =
      (Some (py_strip g), Some (''images/question'' @ py_str_nat (Suc i) @ ''.png''))"
    by (simp add: extract_image_prompts_nth image_entry_def)
  from image_loop_visits [OF l _ this p] i s show ?thesis by auto
qed

theorem main_pipeline_attempts_images_witness:
  "main_pipeline (\<lambda>p. Inr ''@title T\<newline>@image a circle'') [''data/base_questions.json'' \<mapsto> ''[...]'']
      (\<lambda>t. Inr (JArr [JStr ''Q1''])) (\<lambda>s. Some s) (\<lambda>k a. PostRaises) (\<lambda>_. True)
      \<lparr>image_files = Map.empty, trace = []\<rparr> =
     (Done, snd (main_pipeline (\<lambda>p. Inr ''@title T\<newline>@image a circle'') [''data/base_questions.json'' \<mapsto> ''[...]'']
      (\<lambda>t. Inr (JArr [JStr ''Q1''])) (\<lambda>s. Some s) (\<lambda>k a. PostRaises) (\<lambda>_. True)
      \<lparr>image_files = Map.empty, trace = []\<rparr>)) \<and>
   PImage (EPost \<lparr>req_prompt = ''a circle'', req_width = 512, req_height = 512\<rparr>) \<in>
     set (trace (snd (main_pipeline (\<lambda>p. Inr ''@title T\<newline>@image a circle'') [''data/base_questions.json'' \<mapsto> ''[...]'']
      (\<lambda>t. Inr (JArr [JStr ''Q1''])) (\<lambda>s. Some s) (\<lambda>k a. PostRaises) (\<lambda>_. True)
      \<lparr>image_files = Map.empty, trace = []\<rparr>)))"
proof -
  let ?run = "main_pipeline (\<lambda>p. Inr ''@title T\<newline>@image a circle'') [''data/base_questions.json'' \<mapsto> ''[...]'']
      (\<lambda>t. Inr (JArr [JStr ''Q1''])) (\<lambda>s. Some s) (\<lambda>k a. PostRaises) (\<lambda>_. True)
      \<lparr>image_files = Map.empty, trace = []\<rparr>"
  have d: "fst ?run = Done" by code_simp
  then have d': "?run = (Done, snd ?run)" by (metis prod.collapse)
  have b: "batch_generate (\<lambda>p. Inr ''@title T\<newline>@image a circle'') [''data/base_questions.json'' \<mapsto> ''[...]'']
      (\<lambda>t. Inr (JArr [JStr ''Q1''])) BASE_QUESTIONS_PATH = (Inr [''@title T\<newline>@image a circle''], [])"
    by code_simp
  have g: "image_re_search ([''@title T\<newline>@image a circle''] ! 0) = Some ''a circle''" by code_simp
  have "py_strip ''a circle'' = ''a circle''" by code_simp
  with main_pipeline_attempts_images [OF d' b _ _, of 0 "''a circle''"] g d' show ?thesis by simp
qed

end
