(* ===== verification/Spec2Isabelle.thy ===== *)
theory Spec2Isabelle
  imports TaggedParser ImagePrompts ImageClient DocxRender QuestionGen Pipeline
begin

text \<open>
  \<^bold>\<open>A verification library for Math-Question-Generation.\<close>

  The program (\<open>src/main.py\<close> and \<open>src/src/*.py\<close>) asks a text model for new
  questions in a tagged-text format (\<open>generate_questions.py\<close>), parses each answer
  into a dictionary (\<open>utils.py\<close>, \<open>parse_tagged_questions\<close>), extracts an optional
  \<open>@image\<close> prompt from each raw answer (\<open>main.py\<close>, \<open>extract_image_prompts\<close>),
  fetches the images with a retrying REST client (\<open>generate_images.py\<close>,
  \<open>create_image\<close>), and renders the dictionaries into a Word document
  (\<open>format_to_docx.py\<close>, \<open>save_questions_to_word\<close>). The parser's dictionaries
  are the interface between the parser and the renderer; the raw strings are the
  interface between generation, parser and image extraction.

  \<^bold>\<open>Theories.\<close>
  \<^item> \<open>Prelude\<close>: the Python exceptions (\<open>py_exc\<close>); Python's character classes
    on Latin-1 code points (\<open>py_isspace\<close> for \<open>\s\<close> and \<open>str.isspace\<close>,
    \<open>py_is_linebreak\<close> for \<open>str.splitlines\<close>, \<open>py_isword\<close> for \<open>\w\<close>,
    \<open>py_lower\<close>); \<open>py_strip\<close>, \<open>py_splitlines\<close>, \<open>py_str_nat\<close> (\<open>str(n)\<close>)
    with their lemmas (strip is idempotent and leaves no space at either end, lines of
    splitlines hold no line break, \<open>str(n)\<close> reads back as \<open>n\<close>).
  \<^item> \<open>PyRe\<close>: the backtracking matcher of \<open>\s+(.*)$\<close> and \<open>\s+(.+)$\<close>
    (\<open>ws_backtrack\<close>, \<open>sre_ws_tail\<close>), shared by the three regular expressions.
  \<^item> \<open>TaggedParser\<close>: \<open>utils.py\<close> lines 42--104. The dictionary is the record
    \<open>qdict\<close> with the value type \<open>pyval\<close>; \<open>option_re_match\<close> and
    \<open>tag_re_match\<close> are the two patterns; \<open>parse_line\<close> is one iteration of the
    line loop, \<open>parse_lines\<close> the loop, \<open>parse_block\<close> one raw block,
    \<open>parse_loop\<close>/\<open>parse_tagged_questions\<close> the batch. \<open>classify\<close> and
    \<open>run_kinds\<close> read a block as a list of line effects; \<open>parse_line_classify\<close>
    shows the loop is the run of those effects, and the properties (C1--C12) are stated
    over them: which value each field ends with, when the parse raises, that the answer is
    an option, that option texts are stripped non-empty single lines, the batch semantics.
  \<^item> \<open>ImagePrompts\<close>: \<open>main.py\<close> lines 18--32, \<open>re.search\<close> in MULTILINE
    mode as \<open>image_re_search\<close> (a \<open>function\<close> terminating on the length of the
    subject) and the per-block entry \<open>image_entry\<close> (C13--C16). The same scan as a
    \<open>while_option\<close> loop, \<open>image_search_loop\<close>, is shown to stop on every subject and to
    agree with \<open>image_re_search\<close> (C17, termination).
  \<^item> \<open>PyJson\<close>, \<open>ImageClient\<close>: JSON values with Python's \<open>in\<close>, \<open>[k]\<close>,
    \<open>[0]\<close>, \<open>.get\<close> and truthiness; \<open>generate_images.py\<close> lines 6--63 with
    \<open>IMAGE_SIZE\<close> of \<open>config.py\<close>. One attempt is \<open>fetch_payload\<close>, the loop
    \<open>retry_loop\<close>, the function \<open>create_image\<close>. The network is a parameter
    \<open>env\<close> from attempt number to outcome, \<open>b64decode\<close> and \<open>open\<close> are
    parameters \<open>dec\<close> and \<open>wr\<close>, and the state is a \<open>world\<close> record of written
    files and the trace of posts, prints, sleeps and writes (C18--C22: success after
    retries, exhaustion, bounds on posts, sleeps and writes, escaping exceptions). An
    abstract contract \<open>spec_fetch\<close> over the classified attempt outcomes
    (\<open>classify_attempt\<close>) is refined by \<open>create_image\<close> through the abstraction
    \<open>client_abs\<close> (result, bytes written, number of posts) (C23).
  \<^item> \<open>DocxRender\<close>: \<open>format_to_docx.py\<close> lines 9--77. The document is the list of
    elements added to it (\<open>doc_elem\<close>); \<open>tags.get\<close> reads the parser's record
    through its key table. C24--C27: the duplicate removal equals
    \<open>rev (remdups (rev xs))\<close>, no option is ever marked correct, one heading per question,
    the bullets of a question.
  \<^item> \<open>JsonFiles\<close>: \<open>load_json\<close> and \<open>save_json\<close> of \<open>utils.py\<close> over a file
    system map, with \<open>json.load\<close>/\<open>json.dump\<close> as parameters (C32: round trip; C33:
    a path without directory makes \<open>save_json\<close> raise).
  \<^item> \<open>QuestionGen\<close>: \<open>generate_questions.py\<close>. The prompt is built exactly as the f-string builds it
    (\<open>question_prompt\<close> from the literal's lines: \<open>CURRICULUM_LINES\<close>,
    \<open>OUTPUT_FORMAT_LINES\<close>, ...); the model call is the parameter \<open>gen\<close>, the file
    system the map \<open>fs\<close> and \<open>json.load\<close> the parameter \<open>jl\<close>;
    \<open>generate_question\<close>, \<open>gen_loop\<close> and \<open>batch_generate\<close> return their result
    with the list of printed errors (C30, C31: one text per base question, a non-string
    item aborting the batch); \<open>gen_script\<close> is the module's \<open>__main__\<close> block.
  \<^item> \<open>Pipeline\<close>: the \<open>__main__\<close> sequence of \<open>main.py\<close> (lines 35--77) as
    \<open>main_pipeline\<close>, composed from the component models; its state \<open>pstate\<close> holds
    the image files and one ordered trace (\<open>pevent\<close>) of prints, logged generation
    errors, the events of each \<open>create_image\<close> call, created directories and the saved
    document; the outcome \<open>pout\<close> is completion, \<open>exit(1)\<close> or an escaping exception.
    \<open>run_script\<close> puts in front of it the API-key check that \<open>config.py\<close> performs
    when it is imported. C37--C40: a complete run saves the rendered
    records, the document is saved exactly when the run completes, an all-failed generation
    still yields a document of default records, and every requested image of a completed
    run is attempted (liveness over the trace).
  \<^item> This theory: properties across components. Parser and renderer (C28, C29: the
    bullets are the deduplicated option lines, the answer appears once and unmarked);
    generation and parser (C34: the prescribed output format parses as intended; C35: it
    has no \<open>@image\<close> line; C36: a failed model call yields the default record).

  \<^bold>\<open>Loops and termination.\<close> Every loop of the program runs over a finite list, so
  every loop of the model is a structural \<open>fun\<close>, except \<open>py_splitlines\<close> and
  \<open>image_re_search\<close>, which are \<open>function\<close>s with a measure on the length of the
  string, and \<open>image_search_loop\<close>, a \<open>while_option\<close> whose termination is a theorem
  (C17). No fuel is needed and every definition is total and executable; the witnesses
  evaluate them with \<open>simp\<close> and \<open>code_simp\<close>.

  \<^bold>\<open>Not modelled.\<close> The Gemini text model and the python-docx, requests and dotenv
  libraries are outside the program and appear only through their observable behaviour
  (parameters \<open>env\<close>, \<open>dec\<close>, \<open>wr\<close>, \<open>gen\<close>, \<open>jl\<close>, \<open>environ\<close>; the document as a list of
  elements; \<open>json.dump\<close> is the parameter \<open>dump\<close>). Not modelled:
  \<open>load_dotenv\<close> and \<open>genai.configure\<close>/\<open>GenerativeModel\<close> (library start-up; the
  API-key check of \<open>config.py\<close> is \<open>run_script\<close> in \<open>Pipeline\<close>); the URL and
  headers of the image request (constant strings built from \<open>IMAGE_MODEL\<close> and the
  key, which no computation of the program inspects); the unused placeholder
  \<open>parse_tagged_question\<close> of \<open>format_to_docx.py\<close>, which only raises
  \<open>NotImplementedError\<close> and is never called. The
  character model is exact on Latin-1; the program's emoji prints are recorded as
  message constructors, not as text.
\<close>

section \<open>From parsed blocks to rendered documents\<close>

text \<open>
  C28. A block without an \<open>@options\<close> tag parses, and the bullets the renderer writes for
  it are the texts of its option lines, each once, in first-seen order, none marked.
\<close>

theorem parse_render_options:
  assumes "\<not> list_ex is_options_tag (block_kinds raw)"
  shows "\<exists>q. parse_block raw = Inr q \<and>
    filter is_bullet (render_question idx q) =
      map (\<lambda>opt. DBullet opt False) (rev (remdups (rev (opt_texts (block_kinds raw)))))"
proof -
  from run_kinds_options_total [of qdict_init "[]" "block_kinds raw"] assms
  obtain q where "run_kinds qdict_init (block_kinds raw) = Inr q"
      "options q = PList (opt_texts (block_kinds raw))"
    by (auto simp: qdict_init_def)
  then show ?thesis
    by (simp add: parse_block_run_kinds render_question_bullets option_bullets_unmarked)
qed

theorem parse_render_options_witness:
  "\<not> list_ex is_options_tag (block_kinds ''@option a\<newline>@@option b\<newline>@option a'') \<and>
   (\<exists>q. parse_block ''@option a\<newline>@@option b\<newline>@option a'' = Inr q \<and>
      filter is_bullet (render_question 1 q) = [DBullet ''a'' False, DBullet ''b'' False])"
proof -
  have k: "block_kinds ''@option a\<newline>@@option b\<newline>@option a'' =
      [OptLine False ''a'', OptLine True ''b'', OptLine False ''a'']"
    by code_simp
  from parse_render_options [of "''@option a\<newline>@@option b\<newline>@option a''" 1]
  show ?thesis by (simp add: k)
qed

text \<open>
  C29. When a parsed block has a correct option (and no \<open>@options\<close> or \<open>@answer\<close> tag
  overrode the fields), that option appears exactly once among the rendered bullets, even
  when its line is repeated, and it is not marked: no bullet is.
\<close>

theorem parse_render_answer_once:
  assumes p: "parse_block raw = Inr q"
    and t: "\<forall>x\<in>set (block_kinds raw). \<not> is_options_tag x \<and> \<not> is_answer_tag x"
    and a: "answer q \<noteq> []"
  shows "count_list (filter is_bullet (render_question idx q)) (DBullet (answer q) False) = 1 \<and>
    filter is_checked (render_question idx q) = []"
proof -
  have "answer_ok q"
    using run_kinds_answer_ok [of qdict_init "block_kinds raw" q] p t
    by (simp add: parse_block_run_kinds qdict_init_def answer_ok_def)
  with a obtain xs where o: "options q = PList xs" "answer q \<in> set xs"
    by (auto simp: answer_ok_def split: pyval.splits)
  have "inj (\<lambda>opt. DBullet opt False)" by (rule injI) simp
  then have "distinct (map (\<lambda>opt. DBullet opt False) (rev (remdups (rev xs))))"
    by (simp add: distinct_map inj_on_def)
  with o show ?thesis
    by (simp add: render_question_bullets option_bullets_unmarked render_question_checked
        count_list_distinct)
qed

theorem parse_render_answer_once_witness:
  "parse_block ''@option a\<newline>@@option b\<newline>@option b'' =
     Inr (qdict_init\<lparr>options := PList [''a'', ''b'', ''b''], answer := ''b''\<rparr>) \<and>
   count_list (filter is_bullet (render_question 1 (qdict_init\<lparr>options := PList [''a'', ''b'', ''b''], answer := ''b''\<rparr>)))
     (DBullet ''b'' False) = 1"
proof -
  have k: "block_kinds ''@option a\<newline>@@option b\<newline>@option b'' =
      [OptLine False ''a'', OptLine True ''b'', OptLine False ''b'']"
    by code_simp
  have p: "parse_block ''@option a\<newline>@@option b\<newline>@option b'' =
     Inr (qdict_init\<lparr>options := PList [''a'', ''b'', ''b''], answer := ''b''\<rparr>)"
    by (simp add: parse_block_run_kinds k qdict_init_def)
  from parse_render_answer_once [OF p, of 1] show ?thesis
    by (simp add: k p qdict_init_def)
qed

section \<open>From generation to parsing\<close>



text \<open>
  C36. Generation then parsing: for an input file of base-question strings whose
  generated texts all parse, there is one record per base question, and the record of a
  question whose model call failed is the default record (empty fields, no options, marks
  \<open>1\<close>), as the spec's end-to-end property requires.
\<close>

theorem generate_then_parse:
  assumes "fs input_file = Some contents" "jl contents = Inr (JArr (map JStr bs))"
    and b: "batch_generate gen fs jl input_file = (Inr raws, ms)"
    and p: "parse_tagged_questions raws = Inr qs"
    and i: "i < length bs" and e: "gen (question_prompt (bs ! i)) = Inl err"
  shows "length qs = length bs \<and> qs ! i = qdict_init"
proof -
  from assms(1,2) b have r: "raws = map (gen_text gen) bs"
    by (simp add: batch_generate_def load_json_def gen_loop_strings)
  from p have a: "list_all2 (\<lambda>r q. parse_block r = Inr q) raws qs"
    by (simp add: parse_tagged_questions_def parse_loop_Inr)
  then have l: "length qs = length bs" using r by (metis list_all2_lengthD length_map)
  from list_all2_nthD [OF a, of i] i r have "parse_block (raws ! i) = Inr (qs ! i)"
    by simp
  with r i e show ?thesis by (simp add: l gen_text_def parse_block_empty)
qed

theorem generate_then_parse_witness:
  "parse_tagged_questions [[], []] = Inr [qdict_init, qdict_init] \<and>
   length [qdict_init, qdict_init] = length [''Q1 text'', ''Q2 text''] \<and>
   [qdict_init, qdict_init] ! 1 = qdict_init"
proof -
  have b: "batch_generate (\<lambda>p. Inl RequestException) [''data/base_questions.json'' \<mapsto> ''[...]'']
     (\<lambda>t. Inr (JArr (map JStr [''Q1 text'', ''Q2 text'']))) ''data/base_questions.json'' =
     (Inr [[], []], [GenError RequestException, GenError RequestException])"
    by (simp add: batch_generate_def load_json_def gen_loop_strings gen_text_def gen_log_def)
  have p: "parse_tagged_questions [[], []] = Inr [qdict_init, qdict_init]"
    by (simp add: parse_tagged_questions_def parse_block_empty)
  have "length [qdict_init, qdict_init] = length [''Q1 text'', ''Q2 text''] \<and>
      [qdict_init, qdict_init] ! 1 = qdict_init"
    by (rule generate_then_parse [OF _ _ b p, where i = 1 and err = RequestException
        and contents = "''[...]''"]) simp_all
  with p show ?thesis by simp
qed

end
